(* ===== verification/NN_Prelude.thy ===== *)
theory NN_Prelude
  imports Complex_Main "HOL-Library.Stream"
begin

text \<open>
  Shared vocabulary of the model of \<open>src/nnScript.py\<close>: the Python and numpy
  exceptions the script can raise, a bind on the sum type that threads them, the
  two-dimensional numpy arrays the script manipulates, and the few numpy
  operations (dot products, outer products, elementwise sums, reshape into rows)
  the components share.  Real numbers stand for numpy's float64 values: rounding
  is not modelled, so a property proved here is a property of the algorithm the
  code computes, not of its floating-point rounding.
\<close>

named_theorems nn_shape "shape facts of the numpy array model"

section \<open>Exceptions\<close>

text \<open>
  \<open>ValueError\<close>: numpy shape mismatch (\<open>reshape\<close>, \<open>dot\<close>, elementwise
  comparison of arrays that do not broadcast, \<open>argmax\<close> of an empty array);
  \<open>IndexError\<close>: out-of-range subscript; \<open>ZeroDivisionError\<close>: Python division
  of an \<open>int\<close> by zero; \<open>AxisError\<close>: numpy's \<open>axis\<close> argument out of range
  for the array's number of dimensions.
\<close>

datatype py_error = ValueError | IndexError | ZeroDivisionError | AxisError

type_synonym 'a result = "py_error + 'a"

definition sbind :: "'e + 'a \<Rightarrow> ('a \<Rightarrow> 'e + 'b) \<Rightarrow> 'e + 'b" where
  "sbind m f = (case m of Inl e \<Rightarrow> Inl e | Inr x \<Rightarrow> f x)"

text \<open>\<open>xs[i]\<close> for an index \<open>i \<ge> 0\<close> (a loop counter).\<close>

definition py_nth :: "'a list \<Rightarrow> nat \<Rightarrow> 'a result" where
  "py_nth xs i = (if i < length xs then Inr (xs ! i) else Inl IndexError)"

text \<open>
  The position a Python subscript \<open>i\<close> denotes in a sequence of length \<open>n\<close>:
  a negative \<open>i\<close> counts from the end; out of \<open>[-n, n)\<close> it raises \<open>IndexError\<close>.
\<close>

definition py_index :: "nat \<Rightarrow> int \<Rightarrow> nat result" where
  "py_index n i =
     (let j = (if i < 0 then int n + i else i)
      in if 0 \<le> j \<and> j < int n then Inr (nat j) else Inl IndexError)"

section \<open>Arrays\<close>

text \<open>
  A two-dimensional numpy array: its rows, and its number of columns, which
  numpy keeps even when there are no rows (an array of shape \<open>(0, c)\<close>).
\<close>

record ndarr =
  ncols :: nat
  rows :: "real list list"

type_synonym vec = "real list"

definition mat_shape :: "nat \<Rightarrow> nat \<Rightarrow> real list list \<Rightarrow> bool" where
  "mat_shape r c M \<longleftrightarrow> length M = r \<and> list_all (\<lambda>row. length row = c) M"

definition is_arr :: "nat \<Rightarrow> nat \<Rightarrow> ndarr \<Rightarrow> bool" where
  "is_arr r c A \<longleftrightarrow> ncols A = c \<and> mat_shape r c (rows A)"

text \<open>\<open>np.dot\<close> of two vectors of the same length.\<close>

definition dotp :: "vec \<Rightarrow> vec \<Rightarrow> real" where
  "dotp u v = sum_list (map2 (*) u v)"

text \<open>\<open>v.dot(A.T)\<close>: numpy checks that \<open>len(v)\<close> is the number of columns of \<open>A\<close>.\<close>

definition vec_dot_arrT :: "vec \<Rightarrow> ndarr \<Rightarrow> vec result" where
  "vec_dot_arrT v A =
     (if length v = ncols A then Inr (map (\<lambda>row. dotp v row) (rows A)) else Inl ValueError)"

text \<open>\<open>A.dot(v)\<close>: the same check, products taken row by row.\<close>

definition arr_dot_vec :: "ndarr \<Rightarrow> vec \<Rightarrow> vec result" where
  "arr_dot_vec A v =
     (if ncols A = length v then Inr (map (\<lambda>row. dotp row v) (rows A)) else Inl ValueError)"

text \<open>\<open>v.dot(A)\<close>: \<open>len(v)\<close> must be the number of rows of \<open>A\<close>; entry \<open>j\<close> is
  the product of \<open>v\<close> with column \<open>j\<close>.\<close>

definition arr_col :: "ndarr \<Rightarrow> nat \<Rightarrow> vec" where
  "arr_col A j = map (\<lambda>row. row ! j) (rows A)"

definition vec_dot_arr :: "vec \<Rightarrow> ndarr \<Rightarrow> vec result" where
  "vec_dot_arr v A =
     (if length v = length (rows A) then Inr (map (\<lambda>j. dotp v (arr_col A j)) [0..<ncols A])
      else Inl ValueError)"

text \<open>\<open>u[:,None]*v\<close>: the outer product, one row per entry of \<open>u\<close>.\<close>

definition outer :: "vec \<Rightarrow> vec \<Rightarrow> real list list" where
  "outer u v = map (\<lambda>a. map (\<lambda>b. a * b) v) u"

text \<open>Elementwise \<open>+\<close> of two arrays of the same shape.\<close>

definition madd :: "real list list \<Rightarrow> real list list \<Rightarrow> real list list" where
  "madd M N = map2 (map2 (+)) M N"

text \<open>\<open>np.sum(A**2)\<close>.\<close>

definition sum_sq :: "real list list \<Rightarrow> real" where
  "sum_sq M = sum_list (map (\<lambda>row. sum_list (map (\<lambda>x. x\<^sup>2) row)) M)"

text \<open>An array of zeros, \<open>np.array([[0.0]*c]*r)\<close>.\<close>

definition zeros :: "nat \<Rightarrow> nat \<Rightarrow> real list list" where
  "zeros r c = replicate r (replicate c 0)"

text \<open>
  The rows of a row-major reshape into \<open>r\<close> rows of \<open>c\<close> entries: row \<open>i\<close> is
  the slice \<open>[i*c:(i+1)*c]\<close>.
\<close>

primrec chunks :: "nat \<Rightarrow> nat \<Rightarrow> 'a list \<Rightarrow> 'a list list" where
  "chunks 0 c xs = []"
| "chunks (Suc r) c xs = take c xs # chunks r c (drop c xs)"

section \<open>Lemmas\<close>

subsection \<open>The error bind\<close>

lemma sbind_Inl [simp]: "sbind (Inl e) f = Inl e"
  by (simp add: sbind_def)

lemma sbind_Inr [simp]: "sbind (Inr x) f = f x"
  by (simp add: sbind_def)

lemma sbind_eq_Inr: "sbind m f = Inr y \<longleftrightarrow> (\<exists>x. m = Inr x \<and> f x = Inr y)"
  by (cases m) (auto simp: sbind_def)

lemma sbind_eq_Inl: "sbind m f = Inl e \<longleftrightarrow> (m = Inl e \<or> (\<exists>x. m = Inr x \<and> f x = Inl e))"
  by (cases m) (auto simp: sbind_def)

lemma py_nth_ok [simp]: "i < length xs \<Longrightarrow> py_nth xs i = Inr (xs ! i)"
  by (simp add: py_nth_def)

lemma py_nth_err [simp]: "length xs \<le> i \<Longrightarrow> py_nth xs i = Inl IndexError"
  by (simp add: py_nth_def)

lemma py_index_Inr: "py_index n i = Inr j \<Longrightarrow> j < n"
  by (auto simp: py_index_def Let_def split: if_splits)

lemma py_index_nonneg: "0 \<le> i \<Longrightarrow> i < int n \<Longrightarrow> py_index n i = Inr (nat i)"
  by (simp add: py_index_def)

lemma py_index_neg: "i < 0 \<Longrightarrow> - int n \<le> i \<Longrightarrow> py_index n i = Inr (nat (int n + i))"
  by (simp add: py_index_def)

lemma py_index_ok_iff: "(\<exists>j. py_index n i = Inr j) \<longleftrightarrow> - int n \<le> i \<and> i < int n"
  by (auto simp: py_index_def Let_def)

lemma py_index_err_iff: "py_index n i = Inl e \<longleftrightarrow> e = IndexError \<and> (i < - int n \<or> int n \<le> i)"
  by (auto simp: py_index_def Let_def)

subsection \<open>Shapes\<close>

lemma mat_shape_Nil [simp]: "mat_shape r c [] \<longleftrightarrow> r = 0"
  by (auto simp: mat_shape_def)

lemma mat_shape_Cons [simp]:
  "mat_shape r c (row # M) \<longleftrightarrow> (\<exists>r'. r = Suc r' \<and> length row = c \<and> mat_shape r' c M)"
  by (cases r) (auto simp: mat_shape_def)

lemma mat_shape_iff:
  "mat_shape r c M \<longleftrightarrow> length M = r \<and> (\<forall>row \<in> set M. length row = c)"
  by (simp add: mat_shape_def list_all_iff)

lemma mat_shape_nth [nn_shape]: "mat_shape r c M \<Longrightarrow> i < r \<Longrightarrow> length (M ! i) = c"
  by (auto simp: mat_shape_iff)

lemma mat_shape_zeros [nn_shape]: "mat_shape r c (zeros r c)"
  by (simp add: mat_shape_iff zeros_def)

lemma mat_shape_outer [nn_shape]: "mat_shape (length u) (length v) (outer u v)"
  by (simp add: mat_shape_iff outer_def)

lemma length_map2_same [simp]: "length xs = length ys \<Longrightarrow> length (map2 f xs ys) = length xs"
  by simp

lemma mat_shape_madd [nn_shape]:
  "mat_shape r c M \<Longrightarrow> mat_shape r c N \<Longrightarrow> mat_shape r c (madd M N)"
  by (auto simp: mat_shape_iff madd_def set_zip)

lemma mat_shape_map2:
  assumes "mat_shape r c M" and "mat_shape r c N"
  shows "mat_shape r c (map2 (map2 f) M N)"
  using assms by (auto simp: mat_shape_iff set_zip)

lemma is_arr_rows: "is_arr r c A \<Longrightarrow> length (rows A) = r"
  by (simp add: is_arr_def mat_shape_def)

lemma concat_map2_map2:
  "mat_shape r c G \<Longrightarrow> mat_shape r c W \<Longrightarrow>
   concat (map2 (map2 f) G W) = map2 f (concat G) (concat W)"
proof (induction G arbitrary: r W)
  case Nil
  then show ?case by simp
next
  case (Cons g G)
  then obtain w W' r' where "W = w # W'" "r = Suc r'" "length g = c" "length w = c"
    "mat_shape r' c G" "mat_shape r' c W'"
    by (cases W) auto
  with Cons.IH show ?case by (simp add: zip_append)
qed

subsection \<open>Reshaping into rows and flattening\<close>

lemma length_chunks [simp]: "length (chunks r c xs) = r"
  by (induction r arbitrary: xs) auto

lemma chunks_shape [nn_shape]: "length xs = r * c \<Longrightarrow> mat_shape r c (chunks r c xs)"
proof (induction r arbitrary: xs)
  case 0
  then show ?case by simp
next
  case (Suc r)
  then have "length (drop c xs) = r * c" by simp
  with Suc.IH show ?case using Suc.prems by simp
qed

text \<open>Flattening the rows gives back the reshaped list (\<open>W.reshape(r,c).flatten()\<close>).\<close>

lemma concat_chunks: "length xs = r * c \<Longrightarrow> concat (chunks r c xs) = xs"
proof (induction r arbitrary: xs)
  case 0
  then show ?case by simp
next
  case (Suc r)
  then have "concat (chunks r c (drop c xs)) = drop c xs" by simp
  then show ?case by simp
qed

text \<open>Reshaping a flattened array gives back its rows.\<close>

lemma chunks_concat: "mat_shape r c M \<Longrightarrow> chunks r c (concat M) = M"
proof (induction M arbitrary: r)
  case Nil
  then show ?case by simp
next
  case (Cons row M)
  then obtain r' where "r = Suc r'" "length row = c" "mat_shape r' c M" by auto
  with Cons.IH show ?case by simp
qed

lemma length_concat_shape: "mat_shape r c M \<Longrightarrow> length (concat M) = r * c"
proof (induction M arbitrary: r)
  case Nil
  then show ?case by simp
next
  case (Cons row M)
  then show ?case by auto
qed

lemma nth_chunks:
  "length xs = r * c \<Longrightarrow> i < r \<Longrightarrow> j < c \<Longrightarrow> chunks r c xs ! i ! j = xs ! (i * c + j)"
proof (induction r arbitrary: xs i)
  case 0
  then show ?case by simp
next
  case (Suc r)
  show ?case
  proof (cases i)
    case 0
    with Suc.prems show ?thesis by simp
  next
    case (Suc i')
    with Suc.prems have "chunks r c (drop c xs) ! i' ! j = drop c xs ! (i' * c + j)"
      by (intro Suc.IH) auto
    with Suc.prems \<open>i = Suc i'\<close> show ?thesis by (simp add: algebra_simps)
  qed
qed

subsection \<open>Numpy products\<close>

lemma dotp_commute: "dotp u v = dotp v u"
proof -
  have "map2 (*) u v = map2 (*) v u"
    by (induction u v rule: list_induct2') (simp_all add: mult.commute)
  then show ?thesis by (simp add: dotp_def)
qed

lemma dotp_Nil [simp]: "dotp [] v = 0" "dotp u [] = 0"
  by (simp_all add: dotp_def)

lemma dotp_Cons [simp]: "dotp (a # u) (b # v) = a * b + dotp u v"
  by (simp add: dotp_def)

lemma vec_dot_arrT_ok:
  "length v = ncols A \<Longrightarrow> vec_dot_arrT v A = Inr (map (\<lambda>row. dotp v row) (rows A))"
  by (simp add: vec_dot_arrT_def)

lemma vec_dot_arrT_err: "length v \<noteq> ncols A \<Longrightarrow> vec_dot_arrT v A = Inl ValueError"
  by (simp add: vec_dot_arrT_def)

lemma arr_dot_vec_ok:
  "ncols A = length v \<Longrightarrow> arr_dot_vec A v = Inr (map (\<lambda>row. dotp row v) (rows A))"
  by (simp add: arr_dot_vec_def)

text \<open>\<open>A.dot(v)\<close> and \<open>v.dot(A.T)\<close> compute the same vector.\<close>

lemma arr_dot_vec_eq_vec_dot_arrT: "arr_dot_vec A v = vec_dot_arrT v A"
  by (auto simp: arr_dot_vec_def vec_dot_arrT_def dotp_commute)

lemma vec_dot_arr_ok:
  "length v = length (rows A) \<Longrightarrow>
   vec_dot_arr v A = Inr (map (\<lambda>j. dotp v (arr_col A j)) [0..<ncols A])"
  by (simp add: vec_dot_arr_def)

lemma length_vec_dot_arr:
  "vec_dot_arr v A = Inr w \<Longrightarrow> length w = ncols A"
  by (auto simp: vec_dot_arr_def split: if_splits)

subsection \<open>Sums of squares\<close>

lemma sum_sq_row_nonneg: "0 \<le> sum_list (map (\<lambda>x. x\<^sup>2) (row::real list))"
  by (rule sum_list_nonneg) auto

lemma sum_sq_nonneg: "0 \<le> sum_sq M"
  unfolding sum_sq_def by (rule sum_list_nonneg) (auto simp: sum_sq_row_nonneg)

lemma sum_sq_pos: "\<exists>row \<in> set M. \<exists>x \<in> set row. x \<noteq> 0 \<Longrightarrow> 0 < sum_sq M"
proof -
  assume "\<exists>row \<in> set M. \<exists>x \<in> set row. x \<noteq> 0"
  then obtain row x where row: "row \<in> set M" and x: "x \<in> set row" "x \<noteq> 0" by blast
  have "x\<^sup>2 \<le> sum_list (map (\<lambda>x. x\<^sup>2) row)"
    using x(1) by (intro Groups_List.member_le_sum_list) auto
  moreover have "0 < x\<^sup>2" using x(2) by simp
  moreover have "sum_list (map (\<lambda>x. x\<^sup>2) row) \<le> sum_sq M"
    unfolding sum_sq_def using row
    by (intro Groups_List.member_le_sum_list) (auto simp: sum_sq_row_nonneg)
  ultimately show ?thesis by linarith
qed

lemma sum_sq_row_zero: "\<forall>x \<in> set row. x = 0 \<Longrightarrow> sum_list (map (\<lambda>x. x\<^sup>2) row) = (0::real)"
  by (induction row) auto

lemma sum_sq_zero: "(\<forall>row \<in> set M. \<forall>x \<in> set row. x = 0) \<Longrightarrow> sum_sq M = 0"
  by (induction M) (auto simp: sum_sq_def sum_sq_row_zero)

lemma sum_sq_concat: "sum_sq M = sum_list (map (\<lambda>x. x\<^sup>2) (concat M))"
  by (induction M) (simp_all add: sum_sq_def)

subsection \<open>Streams of random draws\<close>

lemma set_stake_sset: "set (stake n s) \<subseteq> sset s"
proof (induction n arbitrary: s)
  case 0
  then show ?case by simp
next
  case (Suc n)
  have "set (stake n (stl s)) \<subseteq> sset (stl s)" by (rule Suc.IH)
  also have "\<dots> \<subseteq> sset s" by (auto intro: stl_sset)
  finally have "set (stake n (stl s)) \<subseteq> sset s" .
  then show ?case by (auto intro: shd_sset)
qed

end
