(* ===== verification/Sigmoid.thy ===== *)
theory Sigmoid
  imports NN_Prelude
begin

text \<open>
  The activation function of \<open>src/nnScript.py\<close> (\<open>sigmoid\<close>, lines 25--30):
  \<open>1 / (1 + np.exp(-z))\<close>, applied elementwise to numpy arrays.  The lemmas show
  it takes values strictly between 0 and 1, is strictly increasing, is \<open>1/2\<close> at 0,
  is symmetric about that point, has derivative \<open>\<sigma>(1 - \<sigma>)\<close> (the factor the
  backpropagation of \<open>nnObjFunction\<close> multiplies by), and saturates to 0 and 1.
\<close>

definition sigmoid :: "real \<Rightarrow> real" where
  "sigmoid z = 1 / (1 + exp (- z))"

text \<open>\<open>sigmoid(z)\<close> on a one-dimensional array.\<close>

definition sigmoid_vec :: "vec \<Rightarrow> vec" where
  "sigmoid_vec zs = map sigmoid zs"

lemma sigmoid_denom_pos: "0 < 1 + exp (- z :: real)"
  by (simp add: add_pos_pos)

lemma sigmoid_pos: "0 < sigmoid z"
  by (simp add: sigmoid_def sigmoid_denom_pos)

lemma sigmoid_lt_1: "sigmoid z < 1"
  by (simp add: sigmoid_def sigmoid_denom_pos)

lemma sigmoid_zero: "sigmoid 0 = 1 / 2"
  by (simp add: sigmoid_def)

lemma sigmoid_less: "x < y \<Longrightarrow> sigmoid x < sigmoid y"
  by (simp add: sigmoid_def sigmoid_denom_pos divide_strict_left_mono mult_pos_pos)

lemma sigmoid_minus: "sigmoid (- z) = 1 - sigmoid z"
proof -
  have e: "0 < exp z" by simp
  have d: "0 < 1 + exp z" using e by linarith
  have "1 / (1 + exp z) = 1 - 1 / (1 + inverse (exp z))"
    using e d by (simp add: field_simps add_divide_distrib [symmetric])
  then show ?thesis by (simp add: sigmoid_def exp_minus)
qed

lemma sigmoid_one_minus: "1 - sigmoid z = exp (- z) / (1 + exp (- z))"
  using sigmoid_denom_pos [of z] by (simp add: sigmoid_def field_simps)

lemma sigmoid_has_derivative:
  "(sigmoid has_real_derivative sigmoid z * (1 - sigmoid z)) (at z)"
proof -
  have d: "((\<lambda>z. 1 / (1 + exp (- z))) has_real_derivative
             exp (- z) / (1 + exp (- z))\<^sup>2) (at z)"
    using sigmoid_denom_pos [of z]
    by (auto intro!: derivative_eq_intros simp: power2_eq_square field_simps)
  have "exp (- z) / (1 + exp (- z))\<^sup>2 = sigmoid z * (1 - sigmoid z)"
    using sigmoid_denom_pos [of z]
    by (simp add: sigmoid_one_minus) (simp add: sigmoid_def power2_eq_square)
  with d show ?thesis by (simp add: sigmoid_def [abs_def])
qed

text \<open>The chain rule through \<open>sigmoid\<close>, for \<open>derivative_eq_intros\<close>.\<close>

lemma sigmoid_has_derivative_chain [derivative_intros]:
  "(f has_real_derivative f') (at x within S) \<Longrightarrow>
   ((\<lambda>x. sigmoid (f x)) has_real_derivative sigmoid (f x) * (1 - sigmoid (f x)) * f') (at x within S)"
  by (rule DERIV_chain2 [OF sigmoid_has_derivative])

lemma sigmoid_tendsto_bot: "(sigmoid \<longlongrightarrow> 0) at_bot"
proof -
  have "filterlim (\<lambda>z::real. exp (- z)) at_top at_bot"
    by (rule filterlim_compose [OF exp_at_top filterlim_uminus_at_top_at_bot])
  then have "filterlim (\<lambda>z::real. 1 + exp (- z)) at_top at_bot"
    by (rule filterlim_tendsto_add_at_top [OF tendsto_const])
  then have "((\<lambda>z::real. inverse (1 + exp (- z))) \<longlongrightarrow> 0) at_bot"
    by (rule tendsto_inverse_0_at_top)
  then show ?thesis by (simp add: sigmoid_def [abs_def] inverse_eq_divide)
qed

lemma sigmoid_tendsto_top: "(sigmoid \<longlongrightarrow> 1) at_top"
proof -
  have "((\<lambda>z::real. exp (- z)) \<longlongrightarrow> 0) at_top"
    by (rule filterlim_compose [OF exp_at_bot filterlim_uminus_at_bot_at_top])
  then have "((\<lambda>z::real. 1 / (1 + exp (- z))) \<longlongrightarrow> 1 / (1 + 0)) at_top"
    by (intro tendsto_intros) auto
  then show ?thesis by (simp add: sigmoid_def [abs_def])
qed

lemma length_sigmoid_vec [simp]: "length (sigmoid_vec zs) = length zs"
  by (simp add: sigmoid_vec_def)

lemma nth_sigmoid_vec [simp]: "i < length zs \<Longrightarrow> sigmoid_vec zs ! i = sigmoid (zs ! i)"
  by (simp add: sigmoid_vec_def)

lemma sigmoid_vec_bounds: "x \<in> set (sigmoid_vec zs) \<Longrightarrow> 0 < x \<and> x < 1"
  by (auto simp: sigmoid_vec_def sigmoid_pos sigmoid_lt_1)

section \<open>Properties of the activation\<close>

text \<open>C34: \<open>sigmoid\<close> is strictly increasing.\<close>

theorem sigmoid_strict_mono: "strict_mono sigmoid"
  by (rule strict_monoI) (rule sigmoid_less)

text \<open>C35: The derivative of \<open>sigmoid\<close> is \<open>sigmoid(z) * (1 - sigmoid(z))\<close>, the
  factor \<open>(1-z2)*(z2)\<close> and \<open>(1-z1)*(z1)\<close> that the backpropagation of
  \<open>nnObjFunction\<close> multiplies by.\<close>

theorem sigmoid_deriv: "(sigmoid has_real_derivative sigmoid z * (1 - sigmoid z)) (at z within S)"
  by (rule has_field_derivative_at_within) (rule sigmoid_has_derivative)

end
