(* ===== verification/Params.thy ===== *)
theory Params
  imports NN_Prelude
begin

text \<open>
  The parameter vector of \<open>src/nnScript.py\<close>: the two weight matrices flattened
  row-major and concatenated, W1 first (\<open>np.concatenate((w1.flatten(),
  w2.flatten()),0)\<close>, lines 189 and 257), and split back by slicing and
  \<open>reshape\<close> (lines 139--140 and 271--272).  numpy's \<open>reshape\<close> raises
  \<open>ValueError\<close> when the slice does not hold exactly \<open>rows * cols\<close> entries.
  The lemmas: splitting succeeds exactly when the vector has
  \<open>n_hidden * (n_input + 1) + n_class * (n_hidden + 1)\<close> entries, and flattening
  and splitting are inverse to each other in both directions.
\<close>

text \<open>\<open>xs.reshape((r, c))\<close>.\<close>

definition reshape :: "nat \<Rightarrow> nat \<Rightarrow> vec \<Rightarrow> ndarr result" where
  "reshape r c xs =
     (if length xs = r * c then Inr \<lparr>ncols = c, rows = chunks r c xs\<rparr> else Inl ValueError)"

text \<open>\<open>A.flatten()\<close>.\<close>

definition flatten :: "ndarr \<Rightarrow> vec" where
  "flatten A = concat (rows A)"

text \<open>The number of parameters of the network.\<close>

definition n_params :: "nat \<Rightarrow> nat \<Rightarrow> nat \<Rightarrow> nat" where
  "n_params n_input n_hidden n_class = n_hidden * (n_input + 1) + n_class * (n_hidden + 1)"

text \<open>Lines 139--140: \<open>w1 = params[0:n_hidden * (n_input + 1)].reshape(...)\<close>,
  \<open>w2 = params[(n_hidden * (n_input + 1)):].reshape(...)\<close>.\<close>

definition unpack_params :: "nat \<Rightarrow> nat \<Rightarrow> nat \<Rightarrow> vec \<Rightarrow> (ndarr \<times> ndarr) result" where
  "unpack_params n_input n_hidden n_class params =
     sbind (reshape n_hidden (n_input + 1) (take (n_hidden * (n_input + 1)) params)) (\<lambda>w1.
     sbind (reshape n_class (n_hidden + 1) (drop (n_hidden * (n_input + 1)) params)) (\<lambda>w2.
     Inr (w1, w2)))"

text \<open>Line 189 / 257: \<open>np.concatenate((w1.flatten(), w2.flatten()),0)\<close>.\<close>

definition pack_params :: "ndarr \<Rightarrow> ndarr \<Rightarrow> vec" where
  "pack_params w1 w2 = flatten w1 @ flatten w2"

lemma ndarr_eqI: "ncols A = ncols B \<Longrightarrow> rows A = rows B \<Longrightarrow> A = (B :: ndarr)"
  by (cases A, cases B) simp

lemma reshape_ok:
  "length xs = r * c \<Longrightarrow> reshape r c xs = Inr \<lparr>ncols = c, rows = chunks r c xs\<rparr>"
  by (simp add: reshape_def)

lemma reshape_err: "length xs \<noteq> r * c \<Longrightarrow> reshape r c xs = Inl ValueError"
  by (simp add: reshape_def)

lemma reshape_Inr_shape [nn_shape]: "reshape r c xs = Inr A \<Longrightarrow> is_arr r c A"
  by (auto simp: reshape_def is_arr_def chunks_shape split: if_splits)

lemma reshape_Inr_flatten: "reshape r c xs = Inr A \<Longrightarrow> flatten A = xs"
  by (auto simp: reshape_def flatten_def concat_chunks split: if_splits)

lemma length_flatten: "is_arr r c A \<Longrightarrow> length (flatten A) = r * c"
  by (simp add: is_arr_def flatten_def length_concat_shape)

lemma reshape_flatten: "is_arr r c A \<Longrightarrow> reshape r c (flatten A) = Inr A"
proof -
  assume a: "is_arr r c A"
  then have "length (flatten A) = r * c" by (rule length_flatten)
  moreover from a have "chunks r c (flatten A) = rows A"
    by (simp add: is_arr_def flatten_def chunks_concat)
  moreover from a have "ncols A = c" by (simp add: is_arr_def)
  ultimately show ?thesis by (simp add: reshape_ok ndarr_eqI)
qed

lemma length_pack_params:
  "is_arr n_hidden (n_input + 1) w1 \<Longrightarrow> is_arr n_class (n_hidden + 1) w2 \<Longrightarrow>
   length (pack_params w1 w2) = n_params n_input n_hidden n_class"
  by (simp add: pack_params_def n_params_def length_flatten)

lemma unpack_params_Inr:
  assumes "unpack_params n_input n_hidden n_class params = Inr (w1, w2)"
  shows "is_arr n_hidden (n_input + 1) w1" "is_arr n_class (n_hidden + 1) w2"
    "pack_params w1 w2 = params"
proof -
  let ?k = "n_hidden * (n_input + 1)"
  from assms have r1: "reshape n_hidden (n_input + 1) (take ?k params) = Inr w1"
    and r2: "reshape n_class (n_hidden + 1) (drop ?k params) = Inr w2"
    by (auto simp: unpack_params_def sbind_eq_Inr)
  from r1 show "is_arr n_hidden (n_input + 1) w1" by (rule reshape_Inr_shape)
  from r2 show "is_arr n_class (n_hidden + 1) w2" by (rule reshape_Inr_shape)
  from r1 r2 have "flatten w1 = take ?k params" "flatten w2 = drop ?k params"
    by (simp_all add: reshape_Inr_flatten)
  then show "pack_params w1 w2 = params" by (simp add: pack_params_def)
qed

lemma unpack_params_ok:
  assumes "length params = n_params n_input n_hidden n_class"
  shows "\<exists>w1 w2. unpack_params n_input n_hidden n_class params = Inr (w1, w2)"
  using assms by (simp add: unpack_params_def n_params_def reshape_ok)

lemma unpack_params_err:
  assumes "length params \<noteq> n_params n_input n_hidden n_class"
  shows "unpack_params n_input n_hidden n_class params = Inl ValueError"
proof (cases "length params < n_hidden * (n_input + 1)")
  case True
  then show ?thesis by (simp add: unpack_params_def reshape_err)
next
  case False
  with assms show ?thesis
    by (simp add: unpack_params_def n_params_def reshape_ok reshape_err)
qed

lemma unpack_pack_params:
  assumes "is_arr n_hidden (n_input + 1) w1" and "is_arr n_class (n_hidden + 1) w2"
  shows "unpack_params n_input n_hidden n_class (pack_params w1 w2) = Inr (w1, w2)"
proof -
  have l1: "length (flatten w1) = n_hidden * (n_input + 1)"
    using assms(1) by (rule length_flatten)
  then have "take (n_hidden * (n_input + 1)) (pack_params w1 w2) = flatten w1"
    "drop (n_hidden * (n_input + 1)) (pack_params w1 w2) = flatten w2"
    by (simp_all add: pack_params_def)
  then show ?thesis using assms by (simp add: unpack_params_def reshape_flatten)
qed

text \<open>C20: Round trip of the parameter vector: splitting a vector into W1 and W2
  succeeds with exactly the pair of arrays of shapes \<open>(n_hidden, n_input+1)\<close> and
  \<open>(n_class, n_hidden+1)\<close> whose flattening and concatenation is that vector.  So
  splitting after flattening gives the arrays back, and flattening after splitting
  gives the vector back.\<close>

theorem unpack_params_iff:
  "unpack_params n_input n_hidden n_class params = Inr (w1, w2) \<longleftrightarrow>
   is_arr n_hidden (n_input + 1) w1 \<and> is_arr n_class (n_hidden + 1) w2 \<and> pack_params w1 w2 = params"
  using unpack_params_Inr [of n_input n_hidden n_class params w1 w2]
    unpack_pack_params [of n_hidden n_input w1 n_class w2]
  by blast

theorem unpack_params_iff_witness:
  "unpack_params 1 1 1 [1, 2, 3, 4] = Inr (\<lparr>ncols = 2, rows = [[1, 2]]\<rparr>, \<lparr>ncols = 2, rows = [[3, 4]]\<rparr>)"
  using unpack_params_iff [of 1 1 1 "[1, 2, 3, 4]" "\<lparr>ncols = 2, rows = [[1, 2]]\<rparr>" "\<lparr>ncols = 2, rows = [[3, 4]]\<rparr>"]
  by (simp add: is_arr_def mat_shape_def pack_params_def flatten_def)

end
