(* ===== verification/Objective.thy ===== *)
theory Objective
  imports Sigmoid Params
begin

text \<open>
  The objective and gradient engine, \<open>nnObjFunction\<close> of \<open>src/nnScript.py\<close>
  (lines 99--194).  It splits the parameter vector into W1 and W2, runs one
  forward and one backward pass per training row, accumulating the squared error
  and the two gradient arrays, and then adds the L2 regularisation and divides by
  the number of rows.  The state of the loop is the record \<open>obj_acc\<close> of the three
  accumulators \<open>obj_val\<close>, \<open>grad_w1\<close>, \<open>grad_w2\<close>; every exception the code
  can raise is an \<open>Inl\<close> value, raised at the statement that raises it.
\<close>

section \<open>State and arguments\<close>

text \<open>The \<open>args\<close> tuple (line 137 and line 259).\<close>

record nn_args =
  n_input :: nat
  n_hidden :: nat
  n_class :: nat
  training_data :: ndarr
  training_label :: "int list"
  lambdaval :: real

text \<open>The local variables the loop of lines 150--179 updates.\<close>

record obj_acc =
  obj_val :: real
  grad_w1 :: "real list list"
  grad_w2 :: "real list list"

text \<open>
  The invariant of the loop: the accumulators keep the shapes of W1 and W2
  (\<open>nh\<close>, \<open>ni\<close>, \<open>nc\<close> stand for \<open>n_hidden\<close>, \<open>n_input\<close>, \<open>n_class\<close>).
\<close>

definition acc_inv :: "nat \<Rightarrow> nat \<Rightarrow> nat \<Rightarrow> obj_acc \<Rightarrow> bool" where
  "acc_inv nh ni nc acc \<longleftrightarrow> mat_shape nh (ni + 1) (grad_w1 acc) \<and> mat_shape nc (nh + 1) (grad_w2 acc)"

text \<open>A label \<open>y[int(label)]\<close> accepts: a Python index into a sequence of length
  \<open>n_class\<close>.\<close>

definition valid_label :: "nat \<Rightarrow> int \<Rightarrow> bool" where
  "valid_label nc l \<longleftrightarrow> - int nc \<le> l \<and> l < int nc"

section \<open>Operations\<close>

text \<open>Lines 160--162: \<open>y = np.array([0]*n_class); y[int(label)] = 1\<close>,
  with \<open>nc\<close> for \<open>n_class\<close>.\<close>

definition onehot :: "nat \<Rightarrow> int \<Rightarrow> vec result" where
  "onehot nc label =
     sbind (py_index nc label) (\<lambda>j. Inr ((replicate nc 0)[j := 1]))"

text \<open>
  Lines 152--158, the forward pass of one row \<open>value\<close> (bias already appended):
  \<open>a1 = value.dot(w1.T)\<close>, \<open>z1 = sigmoid(a1)\<close>, \<open>a2 = z1_bias.dot(w2.T)\<close>,
  \<open>z2 = sigmoid(a2)\<close>.  Returns the hidden and the output activations.
\<close>

definition nn_forward :: "ndarr \<Rightarrow> ndarr \<Rightarrow> vec \<Rightarrow> (vec \<times> vec) result" where
  "nn_forward w1 w2 value =
     sbind (vec_dot_arrT value w1) (\<lambda>a1.
     let z1 = sigmoid_vec a1 in
     sbind (vec_dot_arrT (z1 @ [1]) w2) (\<lambda>a2.
     Inr (z1, sigmoid_vec a2)))"

text \<open>Lines 147--148: \<open>w2_temp = w2[:, range(len(w2.T)-1)]\<close>, W2 without its
  last (bias) column.\<close>

definition drop_last_col :: "ndarr \<Rightarrow> ndarr" where
  "drop_last_col A =
     \<lparr>ncols = ncols A - 1, rows = map (\<lambda>row. map (\<lambda>j. row ! j) [0..<ncols A - 1]) (rows A)\<rparr>"

text \<open>
  \<open>G += T\<close> on an accumulator built by \<open>np.array([[0.0]*c]*r)\<close> (lines
  144--145).  For \<open>r = 0\<close> numpy builds the one-dimensional empty array of shape
  \<open>(0,)\<close>, into which no \<open>(0, c')\<close> array can be added in place
  (\<open>ValueError\<close>); otherwise the shapes agree and the sum is elementwise.
\<close>

definition acc_iadd :: "real list list \<Rightarrow> real list list \<Rightarrow> real list list result" where
  "acc_iadd G T = (if G = [] then Inl ValueError else Inr (madd G T))"

text \<open>
  Lines 181--182: \<open>(G + (lambdaval*W))/len(training_data)\<close>.  When \<open>G\<close> is the
  one-dimensional empty array (no rows), it broadcasts against the \<open>(0, c)\<close>
  weights only for \<open>c = 1\<close>.  Division by \<open>n = 0\<close> is numpy's (a warning, not an
  exception); the model's value there is never returned, since line 184 raises.
\<close>

definition acc_reg :: "real \<Rightarrow> nat \<Rightarrow> real list list \<Rightarrow> ndarr \<Rightarrow> real list list result" where
  "acc_reg lam n G W =
     (if G = [] \<and> ncols W \<noteq> 1 then Inl ValueError
      else Inr (map2 (map2 (\<lambda>g w. (g + lam * w) / real n)) G (rows W)))"

text \<open>One iteration of the loop, lines 151--179, for row \<open>x\<close> at index \<open>i\<close>.\<close>

definition nnObj_example ::
  "nat \<Rightarrow> ndarr \<Rightarrow> ndarr \<Rightarrow> ndarr \<Rightarrow> int list \<Rightarrow> nat \<Rightarrow> vec \<Rightarrow> obj_acc \<Rightarrow> obj_acc result" where
  "nnObj_example nc w1 w2 w2_temp labels i x acc =
     (let value = x @ [1] in
      sbind (nn_forward w1 w2 value) (\<lambda>(z1, z2).
      let z1_bias = z1 @ [1] in
      sbind (py_nth labels i) (\<lambda>label.
      sbind (onehot nc label) (\<lambda>y.
      let dell_L = map2 (\<lambda>a b. (a - b) * (1 - b) * b) y z2 in
      sbind (acc_iadd (grad_w2 acc) (outer (map (\<lambda>d. -1 * d) dell_L) z1_bias)) (\<lambda>g2.
      sbind (vec_dot_arr dell_L w2_temp) (\<lambda>d.
      let part1 = map (\<lambda>z. (1 - z) * z) z1;
          part2 = map (\<lambda>t. -1 * t) d;
          part3 = map2 (*) part1 part2 in
      sbind (acc_iadd (grad_w1 acc) (outer part3 value)) (\<lambda>g1.
      Inr \<lparr>obj_val = obj_val acc + sum_list (map2 (\<lambda>a b. (a - b)\<^sup>2) y z2),
           grad_w1 = g1, grad_w2 = g2\<rparr>)))))))"

text \<open>The loop of line 150, over the rows of \<open>training_data\<close> and their index.\<close>

fun nnObj_loop ::
  "nat \<Rightarrow> ndarr \<Rightarrow> ndarr \<Rightarrow> ndarr \<Rightarrow> int list \<Rightarrow> nat \<Rightarrow> vec list \<Rightarrow> obj_acc \<Rightarrow> obj_acc result" where
  "nnObj_loop nc w1 w2 w2_temp labels i [] acc = Inr acc"
| "nnObj_loop nc w1 w2 w2_temp labels i (x # xs) acc =
     sbind (nnObj_example nc w1 w2 w2_temp labels i x acc)
       (nnObj_loop nc w1 w2 w2_temp labels (Suc i) xs)"

text \<open>Lines 181--189: regularisation, normalisation, and the flat gradient.\<close>

definition nnObj_finish :: "nn_args \<Rightarrow> ndarr \<Rightarrow> ndarr \<Rightarrow> obj_acc \<Rightarrow> (real \<times> vec) result" where
  "nnObj_finish args w1 w2 acc =
     (let n = length (rows (training_data args)); lam = lambdaval args in
      sbind (acc_reg lam n (grad_w2 acc) w2) (\<lambda>g2.
      sbind (acc_reg lam n (grad_w1 acc) w1) (\<lambda>g1.
      if n = 0 then Inl ZeroDivisionError
      else Inr (obj_val acc / (2 * real n) + (sum_sq (rows w1) + sum_sq (rows w2)) * (lam / real n),
                concat g1 @ concat g2))))"

text \<open>Lines 141 and 144--145: the accumulators before the loop.\<close>

definition obj_acc0 :: "nat \<Rightarrow> nat \<Rightarrow> nat \<Rightarrow> obj_acc" where
  "obj_acc0 ni nh nc = \<lparr>obj_val = 0, grad_w1 = zeros nh (ni + 1), grad_w2 = zeros nc (nh + 1)\<rparr>"

text \<open>\<open>nnObjFunction(params, *args)\<close>, lines 99--194.\<close>

definition nnObjFunction :: "vec \<Rightarrow> nn_args \<Rightarrow> (real \<times> vec) result" where
  "nnObjFunction params args =
     sbind (unpack_params (n_input args) (n_hidden args) (n_class args) params) (\<lambda>(w1, w2).
     sbind (nnObj_loop (n_class args) w1 w2 (drop_last_col w2) (training_label args) 0
              (rows (training_data args)) (obj_acc0 (n_input args) (n_hidden args) (n_class args)))
       (nnObj_finish args w1 w2))"

text \<open>
  A concrete call for the witnesses: one input feature, one hidden unit, two classes,
  one training row \<open>[1]\<close> labelled 1.  With the parameters
  \<open>[1, -1, 2, -1, 0, 0]\<close> every pre-activation is 0, so every sigmoid is \<open>1/2\<close>
  and the call evaluates by rewriting.
\<close>

definition demo_args :: "real \<Rightarrow> nn_args" where
  "demo_args lam = \<lparr>n_input = 1, n_hidden = 1, n_class = 2,
     training_data = \<lparr>ncols = 1, rows = [[1]]\<rparr>, training_label = [1], lambdaval = lam\<rparr>"

definition demo_params :: vec where
  "demo_params = [1, -1, 2, -1, 0, 0]"

section \<open>Lemmas\<close>

lemmas nn_eval_simps = nnObjFunction_def unpack_params_def reshape_def nnObj_example_def
  nn_forward_def vec_dot_arrT_def sigmoid_vec_def sigmoid_zero onehot_def py_index_def
  acc_iadd_def vec_dot_arr_def drop_last_col_def zeros_def outer_def madd_def nnObj_finish_def
  acc_reg_def sum_sq_def arr_col_def dotp_def obj_acc0_def numeral_eq_Suc Let_def

lemma demo_eval:
  "nnObjFunction demo_params (demo_args 1) =
     Inr (29/4, [17/16, -15/16, 33/16, -7/8, -1/16, -1/8])"
  by (simp add: nn_eval_simps demo_args_def demo_params_def)

lemma demo_eval_lambda:
  "nnObjFunction demo_params ((demo_args 1)\<lparr>lambdaval := lam\<rparr>) =
     Inr (1/4 + 7 * lam, [1/16 + lam, 1/16 - lam, 1/16 + 2 * lam, 1/8 - lam, -1/16, -1/8])"
  by (simp add: nn_eval_simps demo_args_def demo_params_def algebra_simps)

subsection \<open>The operations of one iteration\<close>

lemma onehot_ok:
  "py_index nc label = Inr j \<Longrightarrow> onehot nc label = Inr ((replicate nc 0)[j := 1])"
  by (simp add: onehot_def)

lemma onehot_err: "py_index nc label = Inl e \<Longrightarrow> onehot nc label = Inl e"
  by (simp add: onehot_def)

lemma onehot_Inr_length: "onehot nc label = Inr y \<Longrightarrow> length y = nc"
  by (auto simp: onehot_def sbind_eq_Inr)

lemma nn_forward_ok:
  assumes "is_arr nh (ni + 1) w1" and "is_arr nc (nh + 1) w2" and "length value = ni + 1"
  shows "nn_forward w1 w2 value =
           Inr (sigmoid_vec (map (dotp value) (rows w1)),
                sigmoid_vec (map (dotp (sigmoid_vec (map (dotp value) (rows w1)) @ [1])) (rows w2)))"
  using assms by (simp add: nn_forward_def vec_dot_arrT_ok is_arr_def mat_shape_def Let_def)

lemma nn_forward_Inr_length:
  assumes "is_arr nh (ni + 1) w1" and "is_arr nc (nh + 1) w2"
    and "nn_forward w1 w2 value = Inr (z1, z2)"
  shows "length z1 = nh" "length z2 = nc" "length value = ni + 1"
  using assms
  by (auto simp: nn_forward_def vec_dot_arrT_def is_arr_def mat_shape_def Let_def split: if_splits)

lemma nn_forward_err:
  "length value \<noteq> ncols w1 \<Longrightarrow> nn_forward w1 w2 value = Inl ValueError"
  by (simp add: nn_forward_def vec_dot_arrT_err)

lemma drop_last_col_shape [nn_shape]:
  "is_arr nc (nh + 1) w2 \<Longrightarrow> is_arr nc nh (drop_last_col w2)"
  by (auto simp: is_arr_def mat_shape_iff drop_last_col_def)

lemma vec_dot_arr_shape:
  "is_arr r c A \<Longrightarrow> length v = r \<Longrightarrow> \<exists>d. vec_dot_arr v A = Inr d \<and> length d = c"
  by (simp add: vec_dot_arr_def is_arr_def mat_shape_def)

lemma acc_iadd_ok: "G \<noteq> [] \<Longrightarrow> acc_iadd G T = Inr (madd G T)"
  by (simp add: acc_iadd_def)

lemma acc_iadd_Inr_shape:
  "mat_shape r c G \<Longrightarrow> mat_shape r c T \<Longrightarrow> acc_iadd G T = Inr G' \<Longrightarrow> mat_shape r c G'"
  by (auto simp: acc_iadd_def intro: mat_shape_madd split: if_splits)

lemma acc_iadd_Inr_nonempty: "acc_iadd G T = Inr G' \<Longrightarrow> G \<noteq> []"
  by (auto simp: acc_iadd_def split: if_splits)

lemma acc_reg_ok:
  "G \<noteq> [] \<Longrightarrow> acc_reg lam n G W = Inr (map2 (map2 (\<lambda>g w. (g + lam * w) / real n)) G (rows W))"
  by (simp add: acc_reg_def)

lemma acc_reg_Inr_shape:
  "mat_shape r c G \<Longrightarrow> is_arr r c W \<Longrightarrow> acc_reg lam n G W = Inr G' \<Longrightarrow> mat_shape r c G'"
  by (auto simp: acc_reg_def is_arr_def intro: mat_shape_map2 split: if_splits)

lemma acc_inv_acc0: "acc_inv nh ni nc (obj_acc0 ni nh nc)"
  by (simp add: acc_inv_def obj_acc0_def mat_shape_zeros)

lemma acc_inv_nonempty:
  assumes "acc_inv nh ni nc acc"
  shows "0 < nh \<Longrightarrow> grad_w1 acc \<noteq> []" "0 < nc \<Longrightarrow> grad_w2 acc \<noteq> []"
  using assms by (auto simp: acc_inv_def mat_shape_def)

subsection \<open>One iteration keeps the invariant\<close>

lemma nnObj_example_Inr:
  assumes w1: "is_arr nh (ni + 1) w1" and w2: "is_arr nc (nh + 1) w2"
    and inv: "acc_inv nh ni nc acc"
    and ex: "nnObj_example nc w1 w2 (drop_last_col w2) labels i x acc = Inr acc'"
  shows "acc_inv nh ni nc acc'"
proof -
  from ex obtain z1 z2 label y g2 d g1 where
    fw: "nn_forward w1 w2 (x @ [1]) = Inr (z1, z2)" and
    oh: "onehot nc label = Inr y" and
    a2: "acc_iadd (grad_w2 acc) (outer (map (\<lambda>d. -1 * d) (map2 (\<lambda>a b. (a - b) * (1 - b) * b) y z2)) (z1 @ [1])) = Inr g2" and
    dd: "vec_dot_arr (map2 (\<lambda>a b. (a - b) * (1 - b) * b) y z2) (drop_last_col w2) = Inr d" and
    a1: "acc_iadd (grad_w1 acc) (outer (map2 (*) (map (\<lambda>z. (1 - z) * z) z1) (map (\<lambda>t. -1 * t) d)) (x @ [1])) = Inr g1" and
    acc': "acc' = \<lparr>obj_val = obj_val acc + sum_list (map2 (\<lambda>a b. (a - b)\<^sup>2) y z2), grad_w1 = g1, grad_w2 = g2\<rparr>"
    by (auto simp: nnObj_example_def Let_def sbind_eq_Inr split: prod.splits)
  from nn_forward_Inr_length [OF w1 w2 fw]
  have lz: "length z1 = nh" "length z2 = nc" "length (x @ [1]) = ni + 1" .
  from lz(3) have lx: "length x = ni" by simp
  from oh have ly: "length y = nc" by (rule onehot_Inr_length)
  have ld: "length d = nh"
    using dd drop_last_col_shape [OF w2] by (auto dest: length_vec_dot_arr simp: is_arr_def)
  let ?T2 = "outer (map (\<lambda>d. -1 * d) (map2 (\<lambda>a b. (a - b) * (1 - b) * b) y z2)) (z1 @ [1])"
  let ?T1 = "outer (map2 (*) (map (\<lambda>z. (1 - z) * z) z1) (map (\<lambda>t. -1 * t) d)) (x @ [1])"
  have "mat_shape nc (nh + 1) ?T2"
    using mat_shape_outer [of "map (\<lambda>d. -1 * d) (map2 (\<lambda>a b. (a - b) * (1 - b) * b) y z2)" "z1 @ [1]"]
    by (simp add: lz ly)
  with inv a2 have "mat_shape nc (nh + 1) g2"
    by (auto simp: acc_inv_def intro: acc_iadd_Inr_shape)
  moreover have "mat_shape nh (ni + 1) ?T1"
    using mat_shape_outer [of "map2 (*) (map (\<lambda>z. (1 - z) * z) z1) (map (\<lambda>t. -1 * t) d)" "x @ [1]"]
    by (simp add: lz lx ld)
  with inv a1 have "mat_shape nh (ni + 1) g1"
    by (auto simp: acc_inv_def intro: acc_iadd_Inr_shape)
  ultimately show ?thesis by (simp add: acc' acc_inv_def)
qed

lemma nnObj_loop_Inr:
  assumes "is_arr nh (ni + 1) w1" and "is_arr nc (nh + 1) w2"
  shows "acc_inv nh ni nc acc \<Longrightarrow> nnObj_loop nc w1 w2 (drop_last_col w2) labels i xs acc = Inr acc'
         \<Longrightarrow> acc_inv nh ni nc acc'"
proof (induction xs arbitrary: i acc)
  case Nil
  then show ?case by simp
next
  case (Cons x xs)
  from Cons.prems(2) obtain acc1 where
    e: "nnObj_example nc w1 w2 (drop_last_col w2) labels i x acc = Inr acc1" and
    l: "nnObj_loop nc w1 w2 (drop_last_col w2) labels (Suc i) xs acc1 = Inr acc'"
    by (auto simp: sbind_eq_Inr)
  from assms Cons.prems(1) e have "acc_inv nh ni nc acc1" by (rule nnObj_example_Inr)
  from this l show ?case by (rule Cons.IH)
qed

subsection \<open>One iteration succeeds on a valid row\<close>

lemma nnObj_example_ok:
  assumes w1: "is_arr nh (ni + 1) w1" and w2: "is_arr nc (nh + 1) w2"
    and inv: "acc_inv nh ni nc acc" and nh: "0 < nh" and lx: "length x = ni"
    and li: "i < length labels" and vl: "valid_label nc (labels ! i)"
  shows "\<exists>acc'. nnObj_example nc w1 w2 (drop_last_col w2) labels i x acc = Inr acc'"
proof -
  from vl obtain j where j: "py_index nc (labels ! i) = Inr j"
    using py_index_ok_iff by (auto simp: valid_label_def)
  from vl have nc: "0 < nc" by (simp add: valid_label_def)
  let ?z1 = "sigmoid_vec (map (dotp (x @ [1])) (rows w1))"
  let ?z2 = "sigmoid_vec (map (dotp (?z1 @ [1])) (rows w2))"
  let ?y = "(replicate nc 0)[j := 1]"
  have fw: "nn_forward w1 w2 (x @ [1]) = Inr (?z1, ?z2)"
    using w1 w2 lx by (simp add: nn_forward_ok)
  have l2: "length ?z2 = nc" using w2 by (simp add: is_arr_rows)
  have "length (map2 (\<lambda>a b. (a - b) * (1 - b) * b) ?y ?z2) = nc" using l2 by simp
  then obtain d where d: "vec_dot_arr (map2 (\<lambda>a b. (a - b) * (1 - b) * b) ?y ?z2) (drop_last_col w2) = Inr d"
    using vec_dot_arr_shape [OF drop_last_col_shape [OF w2]] by blast
  show ?thesis
    using li fw j d acc_inv_nonempty [OF inv] nh nc
    by (simp add: nnObj_example_def onehot_ok acc_iadd_ok Let_def)
qed

lemma nnObj_loop_ok:
  assumes "is_arr nh (ni + 1) w1" and "is_arr nc (nh + 1) w2" and "0 < nh"
  shows "acc_inv nh ni nc acc \<Longrightarrow> \<forall>x \<in> set xs. length x = ni \<Longrightarrow> i + length xs \<le> length labels
    \<Longrightarrow> \<forall>k < length xs. valid_label nc (labels ! (i + k))
    \<Longrightarrow> \<exists>acc'. nnObj_loop nc w1 w2 (drop_last_col w2) labels i xs acc = Inr acc'"
proof (induction xs arbitrary: i acc)
  case Nil
  then show ?case by simp
next
  case (Cons x xs)
  have "valid_label nc (labels ! (i + 0))" using Cons.prems(4) by blast
  then obtain acc1 where e: "nnObj_example nc w1 w2 (drop_last_col w2) labels i x acc = Inr acc1"
    using nnObj_example_ok [OF assms(1,2) Cons.prems(1) assms(3)] Cons.prems(2,3) by fastforce
  have inv1: "acc_inv nh ni nc acc1"
    using nnObj_example_Inr [OF assms(1,2) Cons.prems(1) e] .
  have "\<forall>k < length xs. valid_label nc (labels ! (Suc i + k))"
    using Cons.prems(4) by (metis add_Suc add_Suc_shift length_Cons not_less_eq)
  then obtain acc' where "nnObj_loop nc w1 w2 (drop_last_col w2) labels (Suc i) xs acc1 = Inr acc'"
    using Cons.IH [OF inv1] Cons.prems(2,3) by fastforce
  with e show ?case by simp
qed


subsection \<open>Errors of one iteration\<close>

lemma nnObj_example_label_err:
  assumes w1: "is_arr nh (ni + 1) w1" and w2: "is_arr nc (nh + 1) w2" and lx: "length x = ni"
    and bad: "\<not> (i < length labels \<and> valid_label nc (labels ! i))"
  shows "nnObj_example nc w1 w2 w2_temp labels i x acc = Inl IndexError"
proof -
  have fw: "\<exists>z. nn_forward w1 w2 (x @ [1]) = Inr z"
    using w1 w2 lx by (simp add: nn_forward_ok)
  show ?thesis
  proof (cases "i < length labels")
    case True
    with bad have "py_index nc (labels ! i) = Inl IndexError"
      by (auto simp: valid_label_def py_index_err_iff)
    with True fw show ?thesis
      by (auto simp: nnObj_example_def Let_def onehot_err split: prod.splits)
  next
    case False
    with fw show ?thesis
      by (auto simp: nnObj_example_def Let_def split: prod.splits)
  qed
qed

lemma nnObj_loop_label_err:
  assumes "is_arr nh (ni + 1) w1" and "is_arr nc (nh + 1) w2" and "0 < nh"
  shows "acc_inv nh ni nc acc \<Longrightarrow> \<forall>x \<in> set xs. length x = ni \<Longrightarrow> k < length xs
    \<Longrightarrow> \<forall>m < k. i + m < length labels \<and> valid_label nc (labels ! (i + m))
    \<Longrightarrow> \<not> (i + k < length labels \<and> valid_label nc (labels ! (i + k)))
    \<Longrightarrow> nnObj_loop nc w1 w2 (drop_last_col w2) labels i xs acc = Inl IndexError"
proof (induction xs arbitrary: i acc k)
  case Nil
  then show ?case by simp
next
  case (Cons x xs)
  show ?case
  proof (cases k)
    case 0
    with Cons.prems have "nnObj_example nc w1 w2 (drop_last_col w2) labels i x acc = Inl IndexError"
      by (intro nnObj_example_label_err [OF assms(1,2)]) auto
    then show ?thesis by simp
  next
    case (Suc k')
    with Cons.prems(4) have "i < length labels" "valid_label nc (labels ! i)"
      by (metis add_0_right zero_less_Suc)+
    then obtain acc1 where e: "nnObj_example nc w1 w2 (drop_last_col w2) labels i x acc = Inr acc1"
      using nnObj_example_ok [OF assms(1,2) Cons.prems(1) assms(3)] Cons.prems(2) by fastforce
    have inv1: "acc_inv nh ni nc acc1"
      using nnObj_example_Inr [OF assms(1,2) Cons.prems(1) e] .
    have "\<forall>m < k'. Suc i + m < length labels \<and> valid_label nc (labels ! (Suc i + m))"
      using Cons.prems(4) Suc by (metis add_Suc add_Suc_shift not_less_eq)
    moreover have "\<not> (Suc i + k' < length labels \<and> valid_label nc (labels ! (Suc i + k')))"
      using Cons.prems(5) Suc by simp
    ultimately have "nnObj_loop nc w1 w2 (drop_last_col w2) labels (Suc i) xs acc1 = Inl IndexError"
      using Cons.IH [OF inv1] Cons.prems(2,3) Suc by simp
    with e show ?thesis by simp
  qed
qed

subsection \<open>The whole function\<close>

lemma nnObjFunction_Inr_parts:
  assumes "nnObjFunction params args = Inr r"
  obtains w1 w2 acc where
    "unpack_params (n_input args) (n_hidden args) (n_class args) params = Inr (w1, w2)"
    "nnObj_loop (n_class args) w1 w2 (drop_last_col w2) (training_label args) 0
       (rows (training_data args)) (obj_acc0 (n_input args) (n_hidden args) (n_class args)) = Inr acc"
    "nnObj_finish args w1 w2 acc = Inr r"
  using assms by (auto simp: nnObjFunction_def sbind_eq_Inr split: prod.splits)

lemma nnObj_finish_Inr_length:
  assumes w1: "is_arr nh (ni + 1) w1" and w2: "is_arr nc (nh + 1) w2"
    and inv: "acc_inv nh ni nc acc" and fin: "nnObj_finish args w1 w2 acc = Inr (v, g)"
  shows "length g = nh * (ni + 1) + nc * (nh + 1)"
proof -
  let ?n = "length (rows (training_data args))"
  from fin obtain g1 g2 where
    r2: "acc_reg (lambdaval args) ?n (grad_w2 acc) w2 = Inr g2" and
    r1: "acc_reg (lambdaval args) ?n (grad_w1 acc) w1 = Inr g1" and
    g: "g = concat g1 @ concat g2"
    by (auto simp: nnObj_finish_def Let_def sbind_eq_Inr split: if_splits)
  have "mat_shape nh (ni + 1) g1" using inv w1 r1 by (auto simp: acc_inv_def intro: acc_reg_Inr_shape)
  moreover have "mat_shape nc (nh + 1) g2" using inv w2 r2 by (auto simp: acc_inv_def intro: acc_reg_Inr_shape)
  ultimately show ?thesis by (simp add: g length_concat_shape)
qed

lemma unpack_params_args_ok:
  assumes "length params = n_params (n_input args) (n_hidden args) (n_class args)"
  obtains w1 w2 where
    "unpack_params (n_input args) (n_hidden args) (n_class args) params = Inr (w1, w2)"
    "is_arr (n_hidden args) (n_input args + 1) w1" "is_arr (n_class args) (n_hidden args + 1) w2"
  using unpack_params_ok [OF assms] unpack_params_Inr by blast

subsection \<open>Dependence on the regularisation strength\<close>

lemma map2_reg_shift:
  fixes G W :: "real list" and n lam lam' :: real
  shows "length G = length W \<Longrightarrow>
   map2 (\<lambda>g w. (g + lam' * w) / n) G W =
   map2 (\<lambda>a p. a + (lam' - lam) * p / n) (map2 (\<lambda>g w. (g + lam * w) / n) G W) W"
proof (induction G W rule: list_induct2)
  case Nil
  then show ?case by simp
next
  case (Cons g G w W)
  have e: "g + lam' * w = (g + lam * w) + (lam' - lam) * w" by (simp add: algebra_simps)
  have "(g + lam' * w) / n = (g + lam * w) / n + (lam' - lam) * w / n"
    unfolding e by (rule add_divide_distrib)
  with Cons.IH show ?case by simp
qed

lemma concat_acc_reg_shift:
  assumes G: "mat_shape r c G" and W: "is_arr r c W"
    and reg: "acc_reg lam n G W = Inr G1"
  shows "acc_reg lam' n G W =
           Inr (map2 (map2 (\<lambda>g w. (g + lam' * w) / real n)) G (rows W))"
    "concat (map2 (map2 (\<lambda>g w. (g + lam' * w) / real n)) G (rows W)) =
       map2 (\<lambda>a p. a + (lam' - lam) * p / real n) (concat G1) (concat (rows W))"
proof -
  from reg show "acc_reg lam' n G W = Inr (map2 (map2 (\<lambda>g w. (g + lam' * w) / real n)) G (rows W))"
    by (simp add: acc_reg_def split: if_splits)
  from reg have g1: "G1 = map2 (map2 (\<lambda>g w. (g + lam * w) / real n)) G (rows W)"
    by (simp add: acc_reg_def split: if_splits)
  have w: "mat_shape r c (rows W)" using W by (simp add: is_arr_def)
  have l: "length (concat G) = length (concat (rows W))"
    using G w by (simp add: length_concat_shape)
  have "concat (map2 (map2 (\<lambda>g w. (g + lam' * w) / real n)) G (rows W)) =
        map2 (\<lambda>g w. (g + lam' * w) / real n) (concat G) (concat (rows W))"
    by (rule concat_map2_map2 [OF G w])
  also have "\<dots> = map2 (\<lambda>a p. a + (lam' - lam) * p / real n)
                 (map2 (\<lambda>g w. (g + lam * w) / real n) (concat G) (concat (rows W))) (concat (rows W))"
    by (rule map2_reg_shift [OF l])
  also have "map2 (\<lambda>g w. (g + lam * w) / real n) (concat G) (concat (rows W)) = concat G1"
    by (simp add: g1 concat_map2_map2 [OF G w])
  finally show "concat (map2 (map2 (\<lambda>g w. (g + lam' * w) / real n)) G (rows W)) =
       map2 (\<lambda>a p. a + (lam' - lam) * p / real n) (concat G1) (concat (rows W))" .
qed

lemma nnObj_finish_lambda:
  assumes w1: "is_arr nh (ni + 1) w1" and w2: "is_arr nc (nh + 1) w2"
    and inv: "acc_inv nh ni nc acc" and fin: "nnObj_finish args w1 w2 acc = Inr (v, g)"
  defines "n \<equiv> length (rows (training_data args))" and "lam \<equiv> lambdaval args"
  shows "n \<noteq> 0"
    "nnObj_finish (args\<lparr>lambdaval := lam'\<rparr>) w1 w2 acc =
       Inr (v + (lam' - lam) * sum_list (map (\<lambda>p. p\<^sup>2) (pack_params w1 w2)) / real n,
            map2 (\<lambda>a p. a + (lam' - lam) * p / real n) g (pack_params w1 w2))"
proof -
  from fin obtain g1 g2 where
    r2: "acc_reg lam n (grad_w2 acc) w2 = Inr g2" and
    r1: "acc_reg lam n (grad_w1 acc) w1 = Inr g1" and
    n: "n \<noteq> 0" and
    v: "v = obj_val acc / (2 * real n) + (sum_sq (rows w1) + sum_sq (rows w2)) * (lam / real n)" and
    g: "g = concat g1 @ concat g2"
    by (auto simp: nnObj_finish_def Let_def sbind_eq_Inr n_def lam_def split: if_splits)
  show "n \<noteq> 0" by (rule n)
  have s1: "mat_shape nh (ni + 1) (grad_w1 acc)" and s2: "mat_shape nc (nh + 1) (grad_w2 acc)"
    using inv by (simp_all add: acc_inv_def)
  note a1 = concat_acc_reg_shift [OF s1 w1 r1, of lam']
  note a2 = concat_acc_reg_shift [OF s2 w2 r2, of lam']
  have lg1: "length (concat g1) = length (flatten w1)"
    using acc_reg_Inr_shape [OF s1 w1 r1] w1 by (simp add: length_concat_shape length_flatten)
  have sq: "sum_sq (rows w1) + sum_sq (rows w2) = sum_list (map (\<lambda>p. p\<^sup>2) (pack_params w1 w2))"
    by (simp add: sum_sq_concat pack_params_def flatten_def)
  have "obj_val acc / (2 * real n) + sum_list (map (\<lambda>p. p\<^sup>2) (pack_params w1 w2)) * (lam' / real n) =
        v + (lam' - lam) * sum_list (map (\<lambda>p. p\<^sup>2) (pack_params w1 w2)) / real n"
    by (simp add: v sq add_divide_distrib diff_divide_distrib algebra_simps)
  then show "nnObj_finish (args\<lparr>lambdaval := lam'\<rparr>) w1 w2 acc =
       Inr (v + (lam' - lam) * sum_list (map (\<lambda>p. p\<^sup>2) (pack_params w1 w2)) / real n,
            map2 (\<lambda>a p. a + (lam' - lam) * p / real n) g (pack_params w1 w2))"
    using a1 a2 n lg1
    by (simp add: nnObj_finish_def Let_def n_def [symmetric] sq g pack_params_def flatten_def zip_append)
qed

text \<open>How the result moves with \<open>lambdaval\<close>: the loss by \<open>\<Delta>\<lambda> * \<Sum>p\<^sup>2 / N\<close>,
  each gradient entry by \<open>\<Delta>\<lambda> * p / N\<close>; nothing else changes and no new error
  arises.\<close>

lemma nnObjFunction_lambda_change:
  assumes "nnObjFunction params args = Inr (v, g)"
  defines "n \<equiv> length (rows (training_data args))" and "lam \<equiv> lambdaval args"
  shows "n \<noteq> 0"
    "nnObjFunction params (args\<lparr>lambdaval := lam'\<rparr>) =
       Inr (v + (lam' - lam) * sum_list (map (\<lambda>p. p\<^sup>2) params) / real n,
            map2 (\<lambda>a p. a + (lam' - lam) * p / real n) g params)"
proof -
  let ?ni = "n_input args" and ?nh = "n_hidden args" and ?nc = "n_class args"
  obtain w1 w2 acc where u: "unpack_params ?ni ?nh ?nc params = Inr (w1, w2)"
    and l: "nnObj_loop ?nc w1 w2 (drop_last_col w2) (training_label args) 0
      (rows (training_data args)) (obj_acc0 ?ni ?nh ?nc) = Inr acc"
    and f: "nnObj_finish args w1 w2 acc = Inr (v, g)"
    using assms(1) by (rule nnObjFunction_Inr_parts)
  have w1: "is_arr ?nh (?ni + 1) w1" and w2: "is_arr ?nc (?nh + 1) w2"
    and p: "pack_params w1 w2 = params"
    using unpack_params_Inr [OF u] by auto
  have inv: "acc_inv ?nh ?ni ?nc acc" using nnObj_loop_Inr [OF w1 w2 acc_inv_acc0 l] .
  note fl1 = nnObj_finish_lambda(1) [OF w1 w2 inv f]
  note fl2 = nnObj_finish_lambda(2) [OF w1 w2 inv f, of lam']
  show "n \<noteq> 0" using fl1 by (simp add: n_def)
  show "nnObjFunction params (args\<lparr>lambdaval := lam'\<rparr>) =
       Inr (v + (lam' - lam) * sum_list (map (\<lambda>p. p\<^sup>2) params) / real n,
            map2 (\<lambda>a p. a + (lam' - lam) * p / real n) g params)"
    using u l fl2 p by (simp add: nnObjFunction_def n_def lam_def)
qed

lemma nnObjFunction_Inr_length:
  assumes "nnObjFunction params args = Inr (v, g)"
  shows "length g = length params"
proof -
  let ?ni = "n_input args" and ?nh = "n_hidden args" and ?nc = "n_class args"
  obtain w1 w2 acc where u: "unpack_params ?ni ?nh ?nc params = Inr (w1, w2)"
    and l: "nnObj_loop ?nc w1 w2 (drop_last_col w2) (training_label args) 0
      (rows (training_data args)) (obj_acc0 ?ni ?nh ?nc) = Inr acc"
    and f: "nnObj_finish args w1 w2 acc = Inr (v, g)"
    using assms by (rule nnObjFunction_Inr_parts)
  have w1: "is_arr ?nh (?ni + 1) w1" and w2: "is_arr ?nc (?nh + 1) w2"
    and p: "pack_params w1 w2 = params"
    using unpack_params_Inr [OF u] by auto
  have "acc_inv ?nh ?ni ?nc acc" using nnObj_loop_Inr [OF w1 w2 acc_inv_acc0 l] .
  then have "length g = n_params ?ni ?nh ?nc"
    using nnObj_finish_Inr_length [OF w1 w2 _ f] by (simp add: n_params_def)
  with p length_pack_params [OF w1 w2] show ?thesis by simp
qed

lemma map2_shift_cancel:
  fixes g ps :: "real list"
  shows "length g = length ps \<Longrightarrow>
    map2 (\<lambda>a p. a + c * p / n) (map2 (\<lambda>a p. a - c * p / n) g ps) ps = g"
  by (induction g ps rule: list_induct2) simp_all

lemma sum_squares_pos:
  fixes ps :: "real list"
  shows "\<exists>p \<in> set ps. p \<noteq> 0 \<Longrightarrow> 0 < sum_list (map (\<lambda>p. p\<^sup>2) ps)"
  using sum_sq_pos [of "[ps]"] by (simp add: sum_sq_def)
lemma nnObjFunction_ok:
  assumes len: "length params = n_params (n_input args) (n_hidden args) (n_class args)"
    and nh: "0 < n_hidden args"
    and ne: "rows (training_data args) \<noteq> []"
    and lx: "\<forall>x \<in> set (rows (training_data args)). length x = n_input args"
    and ll: "length (rows (training_data args)) \<le> length (training_label args)"
    and vl: "\<forall>i < length (rows (training_data args)). valid_label (n_class args) (training_label args ! i)"
  shows "\<exists>v g. nnObjFunction params args = Inr (v, g)"
proof -
  let ?ni = "n_input args" and ?nh = "n_hidden args" and ?nc = "n_class args"
  obtain w1 w2 where u: "unpack_params ?ni ?nh ?nc params = Inr (w1, w2)"
    and w1: "is_arr ?nh (?ni + 1) w1" and w2: "is_arr ?nc (?nh + 1) w2"
    using len by (rule unpack_params_args_ok)
  obtain acc where l: "nnObj_loop ?nc w1 w2 (drop_last_col w2) (training_label args) 0
      (rows (training_data args)) (obj_acc0 ?ni ?nh ?nc) = Inr acc"
    using nnObj_loop_ok [OF w1 w2 nh acc_inv_acc0] lx ll vl by fastforce
  have inv: "acc_inv ?nh ?ni ?nc acc"
    using nnObj_loop_Inr [OF w1 w2 acc_inv_acc0 l] .
  have "0 < ?nc" using vl ne by (auto simp: valid_label_def)
  then have "grad_w1 acc \<noteq> []" "grad_w2 acc \<noteq> []"
    using acc_inv_nonempty [OF inv] nh by auto
  with ne have "\<exists>r. nnObj_finish args w1 w2 acc = Inr r"
    by (simp add: nnObj_finish_def acc_reg_ok Let_def)
  with u l show ?thesis by (auto simp: nnObjFunction_def)
qed


section \<open>Properties of nnObjFunction\<close>

text \<open>C1: On a well-formed call (a parameter vector of the right length, a hidden layer,
  at least one training row, every row of \<open>n_input\<close> features, a label for every row
  and every label a valid index into \<open>n_class\<close> classes) \<open>nnObjFunction\<close> returns a
  loss and a gradient and raises nothing.\<close>

theorem nnObjFunction_returns:
  assumes len: "length params = n_params (n_input args) (n_hidden args) (n_class args)"
    and nh: "0 < n_hidden args"
    and ne: "rows (training_data args) \<noteq> []"
    and lx: "\<forall>x \<in> set (rows (training_data args)). length x = n_input args"
    and ll: "length (rows (training_data args)) \<le> length (training_label args)"
    and vl: "\<forall>i < length (rows (training_data args)). valid_label (n_class args) (training_label args ! i)"
  shows "\<exists>v g. nnObjFunction params args = Inr (v, g)"
  using assms by (rule nnObjFunction_ok)

theorem nnObjFunction_returns_witness:
  "length demo_params = n_params 1 1 2 \<and> (\<exists>v g. nnObjFunction demo_params (demo_args 1) = Inr (v, g))"
  using nnObjFunction_returns [of demo_params "demo_args 1"]
  by (simp add: demo_args_def demo_params_def n_params_def valid_label_def)

text \<open>C3: The gradient \<open>nnObjFunction\<close> returns has exactly as many entries as the
  parameter vector it was given.\<close>

theorem nnObjFunction_grad_length:
  "nnObjFunction params args = Inr (v, g) \<Longrightarrow> length g = length params"
  by (rule nnObjFunction_Inr_length)

theorem nnObjFunction_grad_length_witness:
  "nnObjFunction demo_params (demo_args 1) = Inr (29/4, [17/16, -15/16, 33/16, -7/8, -1/16, -1/8])
   \<and> length [17/16, -15/16, 33/16, -7/8, -1/16, -1/8 :: real] = length demo_params"
  using nnObjFunction_grad_length [OF demo_eval] demo_eval by simp

text \<open>C4: What the regularisation adds.  Whenever \<open>nnObjFunction\<close> returns, its loss is
  the loss without regularisation plus \<open>\<lambda> * \<Sum>p\<^sup>2 / N\<close>, and each gradient entry
  is the unregularised entry plus \<open>\<lambda> * p / N\<close> (\<open>N\<close> the number of training rows,
  \<open>p\<close> the parameter).\<close>

theorem nnObjFunction_regularization:
  assumes "nnObjFunction params args = Inr (v, g)"
  defines "n \<equiv> real (length (rows (training_data args)))"
  shows "\<exists>v0 g0. nnObjFunction params (args\<lparr>lambdaval := 0\<rparr>) = Inr (v0, g0) \<and>
           v = v0 + lambdaval args * sum_list (map (\<lambda>p. p\<^sup>2) params) / n \<and>
           g = map2 (\<lambda>a p. a + lambdaval args * p / n) g0 params"
proof -
  let ?lam = "lambdaval args"
  let ?g0 = "map2 (\<lambda>a p. a + (0 - ?lam) * p / n) g params"
  have r: "nnObjFunction params (args\<lparr>lambdaval := 0\<rparr>) =
      Inr (v + (0 - ?lam) * sum_list (map (\<lambda>p. p\<^sup>2) params) / n, ?g0)"
    using nnObjFunction_lambda_change(2) [OF assms(1), of 0] by (simp add: n_def)
  have "length g = length params" using nnObjFunction_Inr_length [OF assms(1)] .
  then have g: "g = map2 (\<lambda>a p. a + ?lam * p / n) ?g0 params"
    by (simp add: map2_shift_cancel)
  have v: "v = (v + (0 - ?lam) * sum_list (map (\<lambda>p. p\<^sup>2) params) / n)
              + ?lam * sum_list (map (\<lambda>p. p\<^sup>2) params) / n"
    by (simp add: diff_divide_distrib)
  from r g v show ?thesis by blast
qed

theorem nnObjFunction_regularization_witness:
  "nnObjFunction demo_params ((demo_args 1)\<lparr>lambdaval := 0\<rparr>) =
     Inr (1/4, [1/16, 1/16, 1/16, 1/8, -1/16, -1/8]) \<and>
   (29/4 :: real) = 1/4 + 1 * sum_list (map (\<lambda>p. p\<^sup>2) demo_params) / 1"
  using nnObjFunction_regularization [OF demo_eval] demo_eval_lambda [of 0]
  by (simp add: demo_args_def demo_params_def)

text \<open>C5: For a fixed parameter vector with a nonzero weight and fixed data, raising
  \<open>lambdaval\<close> strictly raises the loss \<open>nnObjFunction\<close> returns (and does not make
  it fail).\<close>

theorem nnObjFunction_lambda_strict_mono:
  assumes "nnObjFunction params args = Inr (v, g)" and "lambdaval args < lam'"
    and "\<exists>p \<in> set params. p \<noteq> 0"
  shows "\<exists>v' g'. nnObjFunction params (args\<lparr>lambdaval := lam'\<rparr>) = Inr (v', g') \<and> v < v'"
proof -
  let ?n = "real (length (rows (training_data args)))"
  let ?s = "sum_list (map (\<lambda>p. p\<^sup>2) params)"
  have "0 < ?n" using nnObjFunction_lambda_change(1) [OF assms(1)] by simp
  moreover have "0 < ?s" using assms(3) by (rule sum_squares_pos)
  moreover have "0 < lam' - lambdaval args" using assms(2) by simp
  ultimately have "0 < (lam' - lambdaval args) * ?s / ?n" by simp
  then show ?thesis using nnObjFunction_lambda_change(2) [OF assms(1), of lam'] by auto
qed

theorem nnObjFunction_lambda_strict_mono_witness:
  "(1::real) < 2 \<and> (\<exists>p \<in> set demo_params. p \<noteq> 0) \<and>
   (\<exists>v' g'. nnObjFunction demo_params ((demo_args 1)\<lparr>lambdaval := 2\<rparr>) = Inr (v', g') \<and> 29/4 < v')"
  using nnObjFunction_lambda_strict_mono [OF demo_eval, of 2]
  by (simp add: demo_args_def demo_params_def)

text \<open>C29: A parameter vector whose length is not
  \<open>n_hidden * (n_input + 1) + n_class * (n_hidden + 1)\<close> makes \<open>nnObjFunction\<close> raise
  \<open>ValueError\<close> (from \<open>reshape\<close>), before any training row is read.\<close>

theorem nnObjFunction_params_err:
  assumes "length params \<noteq> n_params (n_input args) (n_hidden args) (n_class args)"
  shows "nnObjFunction params args = Inl ValueError"
  using assms by (simp add: nnObjFunction_def unpack_params_err)

theorem nnObjFunction_params_err_witness:
  "length [0::real] \<noteq> n_params 1 1 2 \<and> nnObjFunction [0] (demo_args 1) = Inl ValueError"
  using nnObjFunction_params_err [of "[0]" "demo_args 1"] by (simp add: demo_args_def n_params_def)

text \<open>C30: With no training rows, \<open>nnObjFunction\<close> raises: \<open>ZeroDivisionError\<close> at
  \<open>obj_val/(2*len(training_data))\<close>, unless an empty gradient accumulator (no
  classes, or no hidden units) fails to broadcast against its weights first, which
  raises \<open>ValueError\<close>.  It never returns a loss.\<close>

theorem nnObjFunction_no_rows:
  assumes "length params = n_params (n_input args) (n_hidden args) (n_class args)"
    and "rows (training_data args) = []"
  shows "nnObjFunction params args =
    Inl (if (n_class args = 0 \<and> n_hidden args \<noteq> 0) \<or> (n_hidden args = 0 \<and> n_input args \<noteq> 0)
         then ValueError else ZeroDivisionError)"
proof -
  let ?ni = "n_input args" and ?nh = "n_hidden args" and ?nc = "n_class args"
  obtain w1 w2 where u: "unpack_params ?ni ?nh ?nc params = Inr (w1, w2)"
    and w1: "is_arr ?nh (?ni + 1) w1" and w2: "is_arr ?nc (?nh + 1) w2"
    using assms(1) by (rule unpack_params_args_ok)
  have c: "ncols w1 = ?ni + 1" "ncols w2 = ?nh + 1" "length (rows w1) = ?nh" "length (rows w2) = ?nc"
    using w1 w2 by (simp_all add: is_arr_def mat_shape_def)
  show ?thesis
    using u c assms(2)
    by (simp add: nnObjFunction_def nnObj_finish_def obj_acc0_def acc_reg_def zeros_def Let_def)
qed

theorem nnObjFunction_no_rows_witness:
  "nnObjFunction demo_params ((demo_args 1)\<lparr>training_data := \<lparr>ncols = 1, rows = []\<rparr>\<rparr>)
     = Inl ZeroDivisionError"
  using nnObjFunction_no_rows [of demo_params "(demo_args 1)\<lparr>training_data := \<lparr>ncols = 1, rows = []\<rparr>\<rparr>"]
  by (simp add: demo_args_def demo_params_def n_params_def)

text \<open>C31: A first training row whose length is not \<open>n_input\<close> makes
  \<open>nnObjFunction\<close> raise \<open>ValueError\<close> (at \<open>value.dot(w1.T)\<close>).\<close>

theorem nnObjFunction_row_err:
  assumes "length params = n_params (n_input args) (n_hidden args) (n_class args)"
    and "rows (training_data args) = x # xs" and "length x \<noteq> n_input args"
  shows "nnObjFunction params args = Inl ValueError"
proof -
  let ?ni = "n_input args" and ?nh = "n_hidden args" and ?nc = "n_class args"
  obtain w1 w2 where u: "unpack_params ?ni ?nh ?nc params = Inr (w1, w2)"
    and w1: "is_arr ?nh (?ni + 1) w1"
    using assms(1) by (rule unpack_params_args_ok)
  have "length (x @ [1]) \<noteq> ncols w1" using w1 assms(3) by (simp add: is_arr_def)
  then have "nn_forward w1 w2 (x @ [1]) = Inl ValueError" for w2 by (rule nn_forward_err)
  with u assms(2) show ?thesis by (simp add: nnObjFunction_def nnObj_example_def)
qed

theorem nnObjFunction_row_err_witness:
  "nnObjFunction demo_params ((demo_args 1)\<lparr>training_data := \<lparr>ncols = 2, rows = [[1, 2]]\<rparr>\<rparr>)
     = Inl ValueError"
  using nnObjFunction_row_err [of demo_params "(demo_args 1)\<lparr>training_data := \<lparr>ncols = 2, rows = [[1, 2]]\<rparr>\<rparr>"]
  by (simp add: demo_args_def demo_params_def n_params_def)

text \<open>C32: If the first \<open>k\<close> rows are well formed and labelled, and row \<open>k\<close> has no
  label or a label outside \<open>[-n_class, n_class)\<close>, \<open>nnObjFunction\<close> raises
  \<open>IndexError\<close> (at \<open>training_label[i]\<close> or \<open>y[int(label)] = 1\<close>).\<close>

theorem nnObjFunction_label_err:
  assumes "length params = n_params (n_input args) (n_hidden args) (n_class args)"
    and "0 < n_hidden args"
    and "\<forall>x \<in> set (rows (training_data args)). length x = n_input args"
    and "k < length (rows (training_data args))"
    and "\<forall>m < k. m < length (training_label args) \<and> valid_label (n_class args) (training_label args ! m)"
    and "\<not> (k < length (training_label args) \<and> valid_label (n_class args) (training_label args ! k))"
  shows "nnObjFunction params args = Inl IndexError"
proof -
  let ?ni = "n_input args" and ?nh = "n_hidden args" and ?nc = "n_class args"
  obtain w1 w2 where u: "unpack_params ?ni ?nh ?nc params = Inr (w1, w2)"
    and w1: "is_arr ?nh (?ni + 1) w1" and w2: "is_arr ?nc (?nh + 1) w2"
    using assms(1) by (rule unpack_params_args_ok)
  have "nnObj_loop ?nc w1 w2 (drop_last_col w2) (training_label args) 0
      (rows (training_data args)) (obj_acc0 ?ni ?nh ?nc) = Inl IndexError"
    using nnObj_loop_label_err [OF w1 w2 assms(2) acc_inv_acc0] assms(3-6) by simp
  with u show ?thesis by (simp add: nnObjFunction_def)
qed

theorem nnObjFunction_label_err_witness:
  "nnObjFunction demo_params ((demo_args 1)\<lparr>training_label := [2]\<rparr>) = Inl IndexError"
  using nnObjFunction_label_err [of demo_params "(demo_args 1)\<lparr>training_label := [2]\<rparr>" 0]
  by (simp add: demo_args_def demo_params_def n_params_def valid_label_def)

text \<open>C33: With \<open>n_hidden = 0\<close>, a well-formed labelled first row makes
  \<open>nnObjFunction\<close> raise \<open>ValueError\<close>: the gradient accumulator
  \<open>np.array([[0.0]*(n_input+1)]*0)\<close> is one-dimensional and \<open>grad_w1 +=\<close> cannot
  broadcast into it.\<close>

theorem nnObjFunction_no_hidden_err:
  assumes "length params = n_params (n_input args) (n_hidden args) (n_class args)"
    and "n_hidden args = 0"
    and "rows (training_data args) = x # xs" and "length x = n_input args"
    and "0 < length (training_label args)" and "valid_label (n_class args) (training_label args ! 0)"
  shows "nnObjFunction params args = Inl ValueError"
proof -
  let ?ni = "n_input args" and ?nh = "n_hidden args" and ?nc = "n_class args"
  obtain w1 w2 where u: "unpack_params ?ni ?nh ?nc params = Inr (w1, w2)"
    and w1: "is_arr ?nh (?ni + 1) w1" and w2: "is_arr ?nc (?nh + 1) w2"
    using assms(1) by (rule unpack_params_args_ok)
  obtain j where j: "py_index ?nc (training_label args ! 0) = Inr j"
    using assms(6) py_index_ok_iff by (auto simp: valid_label_def)
  have nc: "0 < ?nc" using assms(6) by (simp add: valid_label_def)
  let ?z1 = "sigmoid_vec (map (dotp (x @ [1])) (rows w1))"
  let ?z2 = "sigmoid_vec (map (dotp (?z1 @ [1])) (rows w2))"
  let ?y = "(replicate ?nc 0)[j := 1]"
  have fw: "nn_forward w1 w2 (x @ [1]) = Inr (?z1, ?z2)"
    using w1 w2 assms(4) by (simp add: nn_forward_ok)
  have "length (map2 (\<lambda>a b. (a - b) * (1 - b) * b) ?y ?z2) = ?nc" using w2 by (simp add: is_arr_rows)
  then obtain d where d: "vec_dot_arr (map2 (\<lambda>a b. (a - b) * (1 - b) * b) ?y ?z2) (drop_last_col w2) = Inr d"
    using vec_dot_arr_shape [OF drop_last_col_shape [OF w2]] by blast
  have "nnObj_example ?nc w1 w2 (drop_last_col w2) (training_label args) 0 x (obj_acc0 ?ni ?nh ?nc)
          = Inl ValueError"
    using fw j d nc assms(2,5)
    by (simp add: nnObj_example_def onehot_ok acc_iadd_def obj_acc0_def zeros_def Let_def)
  with u assms(3) show ?thesis by (simp add: nnObjFunction_def)
qed

theorem nnObjFunction_no_hidden_err_witness:
  "nnObjFunction [0, 0] ((demo_args 1)\<lparr>n_hidden := 0\<rparr>) = Inl ValueError"
  using nnObjFunction_no_hidden_err [of "[0, 0]" "(demo_args 1)\<lparr>n_hidden := 0\<rparr>"]
  by (simp add: demo_args_def n_params_def valid_label_def)

end
