(* ===== verification/Predict.thy ===== *)
theory Predict
  imports Objective
begin

text \<open>
  The predictor \<open>nnPredict\<close> of \<open>src/nnScript.py\<close> (lines 198--229): one forward
  pass per row with \<open>w1.dot(value.T)\<close> and \<open>w2.dot(z1.T)\<close>, and \<open>np.argmax\<close> of the
  output activations, appended to the label array.  \<open>np.argmax\<close> returns the index
  of the first maximum and raises \<open>ValueError\<close> on an empty array.  The lemmas: the
  scan that computes \<open>argmax\<close> meets its specification \<open>is_first_max\<close>; the
  predictor's forward pass is the engine's \<open>nn_forward\<close>; it returns one label
  per row, each a class index, on every well-formed input, and raises otherwise.
\<close>

section \<open>Definitions\<close>

text \<open>The specification of \<open>np.argmax\<close>: \<open>k\<close> holds a maximum of \<open>xs\<close> and no
  earlier entry is as large.\<close>

definition is_first_max :: "real list \<Rightarrow> nat \<Rightarrow> bool" where
  "is_first_max xs k \<longleftrightarrow>
     k < length xs \<and> (\<forall>j < length xs. xs ! j \<le> xs ! k) \<and> (\<forall>j < k. xs ! j < xs ! k)"

text \<open>\<open>np.argmax\<close>: a scan with the index \<open>i\<close> of the next entry and the best
  index \<open>b\<close> and value \<open>m\<close> so far; a later entry replaces the best only when it is
  strictly larger.\<close>

fun argmax_scan :: "real list \<Rightarrow> nat \<Rightarrow> nat \<Rightarrow> real \<Rightarrow> nat" where
  "argmax_scan [] i b m = b"
| "argmax_scan (x # xs) i b m =
     (if m < x then argmax_scan xs (Suc i) i x else argmax_scan xs (Suc i) b m)"

definition np_argmax :: "real list \<Rightarrow> nat result" where
  "np_argmax xs = (case xs of [] \<Rightarrow> Inl ValueError | x # xs' \<Rightarrow> Inr (argmax_scan xs' 1 0 x))"

text \<open>Lines 218--228, the body of the loop for one row \<open>data[i]\<close>.\<close>

definition predict_row :: "ndarr \<Rightarrow> ndarr \<Rightarrow> vec \<Rightarrow> nat result" where
  "predict_row w1 w2 x =
     (let value = x @ [1] in
      sbind (arr_dot_vec w1 value) (\<lambda>a1.
      let z1 = sigmoid_vec a1 @ [1] in
      sbind (arr_dot_vec w2 z1) (\<lambda>a2.
      np_argmax (sigmoid_vec a2))))"

text \<open>The loop of line 217, appending each label (\<open>labels = np.append(labels, ...)\<close>).\<close>

fun nnPredict_loop :: "ndarr \<Rightarrow> ndarr \<Rightarrow> vec list \<Rightarrow> nat list \<Rightarrow> nat list result" where
  "nnPredict_loop w1 w2 [] labels = Inr labels"
| "nnPredict_loop w1 w2 (x # xs) labels =
     sbind (predict_row w1 w2 x) (\<lambda>l. nnPredict_loop w1 w2 xs (labels @ [l]))"

text \<open>\<open>nnPredict(w1, w2, data)\<close>, lines 198--229.\<close>

definition nnPredict :: "ndarr \<Rightarrow> ndarr \<Rightarrow> ndarr \<Rightarrow> nat list result" where
  "nnPredict w1 w2 data = nnPredict_loop w1 w2 (rows data) []"

text \<open>Weights for the witnesses: the W1 and W2 that \<open>demo_params\<close> unpacks to,
  under which every pre-activation of the row \<open>[1]\<close> is 0.\<close>

definition demo_w1 :: ndarr where
  "demo_w1 = \<lparr>ncols = 2, rows = [[1, -1]]\<rparr>"

definition demo_w2 :: ndarr where
  "demo_w2 = \<lparr>ncols = 2, rows = [[2, -1], [0, 0]]\<rparr>"

section \<open>Lemmas\<close>

subsection \<open>argmax\<close>

lemma is_first_max_snoc_gt:
  assumes "is_first_max ys b" and "ys ! b < x"
  shows "is_first_max (ys @ [x]) (length ys)"
proof -
  have "\<forall>j < length ys. ys ! j < x"
    using assms by (auto simp: is_first_max_def intro: le_less_trans)
  then show ?thesis by (auto simp: is_first_max_def nth_append less_Suc_eq)
qed

lemma is_first_max_snoc_le:
  assumes "is_first_max ys b" and "\<not> ys ! b < x"
  shows "is_first_max (ys @ [x]) b"
  using assms by (auto simp: is_first_max_def nth_append less_Suc_eq)

lemma argmax_scan_first_max:
  "is_first_max ys b \<Longrightarrow> m = ys ! b \<Longrightarrow> is_first_max (ys @ xs) (argmax_scan xs (length ys) b m)"
proof (induction xs arbitrary: ys b m)
  case Nil
  then show ?case by simp
next
  case (Cons x xs)
  show ?case
  proof (cases "m < x")
    case True
    with Cons.prems have "is_first_max (ys @ [x]) (length ys)"
      by (simp add: is_first_max_snoc_gt)
    moreover have "(ys @ [x]) ! length ys = x" by simp
    ultimately show ?thesis
      using Cons.IH [of "ys @ [x]" "length ys" x] True by simp
  next
    case False
    with Cons.prems have f: "is_first_max (ys @ [x]) b"
      by (simp add: is_first_max_snoc_le)
    moreover have "(ys @ [x]) ! b = m"
      using Cons.prems f by (simp add: is_first_max_def nth_append)
    ultimately show ?thesis
      using Cons.IH [of "ys @ [x]" b m] False by simp
  qed
qed

lemma is_first_max_unique: "is_first_max xs k \<Longrightarrow> is_first_max xs k' \<Longrightarrow> k = k'"
  by (metis is_first_max_def linorder_neqE_nat not_less)

text \<open>\<open>np.argmax\<close> meets its specification, and the specification determines it.\<close>

lemma np_argmax_iff: "np_argmax xs = Inr k \<longleftrightarrow> xs \<noteq> [] \<and> is_first_max xs k"
proof (cases xs)
  case Nil
  then show ?thesis by (simp add: np_argmax_def)
next
  case (Cons x xs')
  have "is_first_max [x] 0" by (simp add: is_first_max_def)
  then have "is_first_max (x # xs') (argmax_scan xs' 1 0 x)"
    using argmax_scan_first_max [of "[x]" 0 x xs'] by simp
  with Cons show ?thesis by (auto simp: np_argmax_def dest: is_first_max_unique)
qed

lemma np_argmax_Nil: "np_argmax [] = Inl ValueError"
  by (simp add: np_argmax_def)


subsection \<open>One row\<close>

text \<open>The predictor's forward pass is the engine's: \<open>w1.dot(value.T)\<close> and
  \<open>value.dot(w1.T)\<close> agree, so a row is labelled by the first maximum of the
  output activations \<open>nn_forward\<close> computes.\<close>

lemma predict_row_forward:
  "predict_row w1 w2 x =
     sbind (nn_forward w1 w2 (x @ [1])) (\<lambda>(z1, z2). np_argmax z2)"
  by (simp add: predict_row_def nn_forward_def arr_dot_vec_eq_vec_dot_arrT Let_def
      sbind_def split: sum.splits)

lemma predict_row_Inr:
  "predict_row w1 w2 x = Inr l \<longleftrightarrow>
     (\<exists>z1 z2. nn_forward w1 w2 (x @ [1]) = Inr (z1, z2) \<and> z2 \<noteq> [] \<and> is_first_max z2 l)"
  by (auto simp: predict_row_forward sbind_eq_Inr np_argmax_iff)

subsection \<open>The loop\<close>

lemma nnPredict_loop_Inr:
  "nnPredict_loop w1 w2 xs acc = Inr ls \<longleftrightarrow>
     (\<exists>ls'. ls = acc @ ls' \<and> length ls' = length xs \<and>
        (\<forall>i < length xs. predict_row w1 w2 (xs ! i) = Inr (ls' ! i)))"
proof (induction xs arbitrary: acc)
  case Nil
  then show ?case by auto
next
  case (Cons x xs)
  show ?case
  proof
    assume "nnPredict_loop w1 w2 (x # xs) acc = Inr ls"
    then obtain l where l: "predict_row w1 w2 x = Inr l"
      and r: "nnPredict_loop w1 w2 xs (acc @ [l]) = Inr ls"
      by (auto simp: sbind_eq_Inr)
    from r Cons.IH obtain ls' where "ls = acc @ [l] @ ls'" "length ls' = length xs"
      "\<forall>i < length xs. predict_row w1 w2 (xs ! i) = Inr (ls' ! i)" by auto
    with l show "\<exists>ls'. ls = acc @ ls' \<and> length ls' = length (x # xs) \<and>
        (\<forall>i < length (x # xs). predict_row w1 w2 ((x # xs) ! i) = Inr (ls' ! i))"
      by (intro exI [of _ "l # ls'"]) (auto simp: nth_Cons split: nat.splits)
  next
    assume "\<exists>ls'. ls = acc @ ls' \<and> length ls' = length (x # xs) \<and>
        (\<forall>i < length (x # xs). predict_row w1 w2 ((x # xs) ! i) = Inr (ls' ! i))"
    then obtain l ls' where ls: "ls = acc @ l # ls'" "length ls' = length xs"
      and p: "\<forall>i < length (x # xs). predict_row w1 w2 ((x # xs) ! i) = Inr ((l # ls') ! i)"
      by (metis length_Suc_conv)
    from p have "predict_row w1 w2 x = Inr l" by (metis nth_Cons_0 zero_less_Suc length_Cons)
    moreover from p have "\<forall>i < length xs. predict_row w1 w2 (xs ! i) = Inr (ls' ! i)" by auto
    with ls Cons.IH have "nnPredict_loop w1 w2 xs (acc @ [l]) = Inr ls" by auto
    ultimately show "nnPredict_loop w1 w2 (x # xs) acc = Inr ls" by simp
  qed
qed

lemma nnPredict_Inr:
  "nnPredict w1 w2 data = Inr ls \<longleftrightarrow>
     length ls = length (rows data) \<and>
     (\<forall>i < length ls. predict_row w1 w2 (rows data ! i) = Inr (ls ! i))"
  by (auto simp: nnPredict_def nnPredict_loop_Inr)

lemma nnPredict_loop_err:
  "predict_row w1 w2 x = Inl e \<Longrightarrow> nnPredict_loop w1 w2 (x # xs) acc = Inl e"
  by simp

lemma demo_predict: "nnPredict demo_w1 demo_w2 \<lparr>ncols = 1, rows = [[1]]\<rparr> = Inr [0]"
  by (simp add: nnPredict_def predict_row_def demo_w1_def demo_w2_def arr_dot_vec_def
      sigmoid_vec_def sigmoid_zero np_argmax_def dotp_def Let_def)

lemma nnPredict_ok:
  assumes w1: "is_arr nh (ni + 1) w1" and w2: "is_arr nc (nh + 1) w2" and nc: "0 < nc"
    and lx: "\<forall>x \<in> set (rows data). length x = ni"
  shows "\<exists>ls. nnPredict w1 w2 data = Inr ls"
proof -
  have "\<forall>x \<in> set (rows data). \<exists>l. predict_row w1 w2 x = Inr l"
  proof
    fix x assume "x \<in> set (rows data)"
    with lx have "length (x @ [1]) = ni + 1" by simp
    then have fw: "nn_forward w1 w2 (x @ [1]) =
        Inr (sigmoid_vec (map (dotp (x @ [1])) (rows w1)),
             sigmoid_vec (map (dotp (sigmoid_vec (map (dotp (x @ [1])) (rows w1)) @ [1])) (rows w2)))"
      by (rule nn_forward_ok [OF w1 w2])
    have "rows w2 \<noteq> []" using w2 nc by (auto simp: is_arr_def mat_shape_def)
    then show "\<exists>l. predict_row w1 w2 x = Inr l"
      using fw by (cases "rows w2") (simp_all add: predict_row_forward np_argmax_def sigmoid_vec_def)
  qed
  then have "\<forall>i < length (rows data). \<exists>l. predict_row w1 w2 (rows data ! i) = Inr l"
    by simp
  then obtain f where "\<forall>i < length (rows data). predict_row w1 w2 (rows data ! i) = Inr (f i)"
    by metis
  then have "nnPredict w1 w2 data = Inr (map f [0..<length (rows data)])"
    by (simp add: nnPredict_Inr)
  then show ?thesis by blast
qed

section \<open>Properties of nnPredict\<close>

text \<open>C18: When \<open>nnPredict\<close> returns, it returns one label per row of \<open>data\<close>, in
  row order, and label \<open>i\<close> is the index of the first maximum of the output
  activations of row \<open>i\<close> computed by the same forward pass as \<open>nnObjFunction\<close>
  (\<open>nn_forward\<close>): ties go to the lowest index.\<close>

theorem nnPredict_labels:
  assumes "nnPredict w1 w2 data = Inr ls"
  shows "length ls = length (rows data) \<and>
    (\<forall>i < length ls. \<exists>z1 z2. nn_forward w1 w2 (rows data ! i @ [1]) = Inr (z1, z2) \<and>
                              is_first_max z2 (ls ! i))"
  using assms by (auto simp: nnPredict_Inr predict_row_Inr)

theorem nnPredict_labels_witness:
  "length [0::nat] = length [[1::real]] \<and>
   (\<exists>z1 z2. nn_forward demo_w1 demo_w2 [1, 1] = Inr (z1, z2) \<and> is_first_max z2 0)"
  using nnPredict_labels [OF demo_predict] by simp



text \<open>C19: On weights of shapes \<open>(n_hidden, n_input+1)\<close> and \<open>(n_class, n_hidden+1)\<close>
  with \<open>n_class > 0\<close>, and data whose rows have \<open>n_input\<close> entries, \<open>nnPredict\<close>
  returns (raises nothing).\<close>

theorem nnPredict_returns:
  assumes w1: "is_arr nh (ni + 1) w1" and w2: "is_arr nc (nh + 1) w2" and nc: "0 < nc"
    and lx: "\<forall>x \<in> set (rows data). length x = ni"
  shows "\<exists>ls. nnPredict w1 w2 data = Inr ls"
  using assms by (rule nnPredict_ok)

theorem nnPredict_returns_witness: "\<exists>ls. nnPredict demo_w1 demo_w2 \<lparr>ncols = 1, rows = [[1]]\<rparr> = Inr ls"
  using nnPredict_returns [of 1 1 demo_w1 2 demo_w2 "\<lparr>ncols = 1, rows = [[1]]\<rparr>"]
  by (simp add: demo_w1_def demo_w2_def is_arr_def mat_shape_def)

text \<open>C28: \<open>nnPredict\<close> raises \<open>ValueError\<close> on a first row of the wrong length
  (\<open>w1.dot(value.T)\<close>) and, when W2 has no rows, on any well-formed first row
  (\<open>np.argmax\<close> of an empty array).\<close>

theorem nnPredict_err:
  assumes w1: "is_arr nh (ni + 1) w1" and w2: "is_arr nc (nh + 1) w2"
    and r: "rows data = x # xs" and bad: "length x \<noteq> ni \<or> nc = 0"
  shows "nnPredict w1 w2 data = Inl ValueError"
proof (cases "length x = ni")
  case True
  with bad have "nc = 0" by simp
  with w2 have "rows w2 = []" by (simp add: is_arr_def mat_shape_def)
  with True w1 w2 show ?thesis
    by (simp add: nnPredict_def r predict_row_forward nn_forward_ok np_argmax_def sigmoid_vec_def)
next
  case False
  then have "length (x @ [1]) \<noteq> ncols w1" using w1 by (simp add: is_arr_def)
  then show ?thesis by (simp add: nnPredict_def r predict_row_forward nn_forward_err)
qed

theorem nnPredict_err_witness:
  "nnPredict demo_w1 demo_w2 \<lparr>ncols = 2, rows = [[1, 1]]\<rparr> = Inl ValueError"
  using nnPredict_err [of 1 1 demo_w1 2 demo_w2 "\<lparr>ncols = 2, rows = [[1, 1]]\<rparr>" "[1, 1]" "[]"]
  by (simp add: demo_w1_def demo_w2_def is_arr_def mat_shape_def)

end
