(* ===== verification/Accuracy.thy ===== *)
theory Accuracy
  imports NN_Prelude
begin

text \<open>
  The accuracy the script prints (\<open>src/nnScript.py\<close> lines 283, 287, 291):
  \<open>100*np.mean((predicted_label == label).astype(float))\<close>.  numpy compares two
  one-dimensional arrays elementwise when their lengths agree, broadcasts one of
  length 1 against the other, and raises \<open>ValueError\<close> otherwise; the mean of an
  empty array is NaN (with a warning, no exception), here \<open>None\<close>.  Predicted labels
  are the \<open>nat\<close> indices \<open>nnPredict\<close> returns, the true labels integers.
\<close>

section \<open>Definitions\<close>

text \<open>\<open>predicted_label == label\<close>.\<close>

definition np_eq :: "nat list \<Rightarrow> int list \<Rightarrow> bool list result" where
  "np_eq ps ls =
     (if length ps = length ls then Inr (map2 (\<lambda>p l. int p = l) ps ls)
      else if length ps = 1 then Inr (map (\<lambda>l. int (hd ps) = l) ls)
      else if length ls = 1 then Inr (map (\<lambda>p. int p = hd ls) ps)
      else Inl ValueError)"

text \<open>\<open>np.mean(mask.astype(float))\<close>; \<open>None\<close> is NaN.\<close>

definition np_mean_mask :: "bool list \<Rightarrow> real option" where
  "np_mean_mask m =
     (if m = [] then None else Some (real (length (filter id m)) / real (length m)))"

text \<open>Line 283: \<open>100*np.mean((predicted_label == train_label).astype(float))\<close>.\<close>

definition accuracy :: "nat list \<Rightarrow> int list \<Rightarrow> real option result" where
  "accuracy ps ls = sbind (np_eq ps ls) (\<lambda>m. Inr (map_option (\<lambda>r. 100 * r) (np_mean_mask m)))"

section \<open>Lemmas\<close>

lemma np_mean_mask_bounds: "np_mean_mask m = Some r \<Longrightarrow> 0 \<le> r \<and> r \<le> 1"
  by (auto simp: np_mean_mask_def split: if_splits)

lemma length_filter_id_all: "\<forall>b \<in> set m. b \<Longrightarrow> length (filter id m) = length m"
  by (induction m) auto

lemma length_filter_id_none: "\<forall>b \<in> set m. \<not> b \<Longrightarrow> length (filter id m) = 0"
  by (induction m) auto

lemma accuracy_eq_len:
  "length ps = length ls \<Longrightarrow>
   accuracy ps ls = Inr (map_option (\<lambda>r. 100 * r) (np_mean_mask (map2 (\<lambda>p l. int p = l) ps ls)))"
  by (simp add: accuracy_def np_eq_def)

lemma accuracy_same_length:
  assumes "length ps = length ls"
  shows "\<exists>a. accuracy ps ls = Inr a \<and> (a = None \<longleftrightarrow> ps = []) \<and>
             (\<forall>r \<in> set_option a. 0 \<le> r \<and> r \<le> 100)"
proof -
  let ?a = "map_option (\<lambda>r. 100 * r) (np_mean_mask (map2 (\<lambda>p l. int p = l) ps ls))"
  have "\<forall>r \<in> set_option ?a. 0 \<le> r \<and> r \<le> 100"
    using np_mean_mask_bounds by fastforce
  moreover have "?a = None \<longleftrightarrow> ps = []"
    using assms by (auto simp: np_mean_mask_def)
  ultimately show ?thesis
    using assms by (simp add: accuracy_eq_len)
qed

text \<open>On two empty sequences the expression raises nothing and yields NaN.\<close>

lemma accuracy_empty: "accuracy [] [] = Inr None"
  by (simp add: accuracy_def np_eq_def np_mean_mask_def)

lemma length_filter_map2_card:
  assumes "length ps = length ls"
  shows "length (filter id (map2 (\<lambda>p l. int p = l) ps ls)) =
    card {i. i < length ps \<and> int (ps ! i) = ls ! i}"
proof -
  have "{i. i < length (map2 (\<lambda>p l. int p = l) ps ls) \<and> map2 (\<lambda>p l. int p = l) ps ls ! i} =
      {i. i < length ps \<and> int (ps ! i) = ls ! i}"
    using assms by auto
  then show ?thesis by (simp only: length_filter_conv_card id_apply)
qed

section \<open>Properties of the accuracy\<close>

text \<open>C22: The accuracy of two sequences of the same nonzero length is exactly 100
  times the share of the positions where they agree.\<close>

theorem accuracy_exact:
  assumes "length ps = length ls" and "ps \<noteq> []"
  shows "accuracy ps ls =
    Inr (Some (100 * (real (card {i. i < length ps \<and> int (ps ! i) = ls ! i}) / real (length ps))))"
proof -
  have "np_mean_mask (map2 (\<lambda>p l. int p = l) ps ls) =
      Some (real (card {i. i < length ps \<and> int (ps ! i) = ls ! i}) / real (length ps))"
    unfolding np_mean_mask_def length_filter_map2_card [OF assms(1)] using assms
    by (cases ls) simp_all
  then show ?thesis using accuracy_eq_len [OF assms(1)] by simp
qed

text \<open>Two of three labels right.\<close>

theorem accuracy_exact_witness:
  "accuracy [1, 2, 3] [1, 0, 3] =
    Inr (Some (100 * (real (card {i. i < length [1, 2, 3::nat] \<and> int ([1, 2, 3] ! i) = [1, 0, 3] ! i}) /
      real (length [1, 2, 3::nat]))))"
  by (rule accuracy_exact) simp_all

text \<open>C23: Predicting every label right gives exactly 100.\<close>

theorem accuracy_all_correct:
  assumes "ps \<noteq> []"
  shows "accuracy ps (map int ps) = Inr (Some 100)"
proof -
  have "\<forall>b \<in> set (map2 (\<lambda>p l. int p = l) ps (map int ps)). b"
    by (auto simp: set_zip)
  then show ?thesis
    using assms by (simp add: accuracy_eq_len np_mean_mask_def length_filter_id_all)
qed

theorem accuracy_all_correct_witness: "accuracy [3, 1, 4] [3, 1, 4] = Inr (Some 100)"
  using accuracy_all_correct [of "[3, 1, 4]"] by simp

text \<open>C24: Two sequences of the same nonzero length that agree nowhere give exactly 0.\<close>

theorem accuracy_none_correct:
  assumes "length ps = length ls" and "ps \<noteq> []" and "\<forall>i < length ps. int (ps ! i) \<noteq> ls ! i"
  shows "accuracy ps ls = Inr (Some 0)"
proof -
  have "\<forall>b \<in> set (map2 (\<lambda>p l. int p = l) ps ls). \<not> b"
    using assms(1,3) by (auto simp: set_zip)
  moreover have "ls \<noteq> []" using assms(1,2) by auto
  ultimately show ?thesis
    using assms(1,2) by (simp add: accuracy_eq_len np_mean_mask_def length_filter_id_none)
qed

theorem accuracy_none_correct_witness: "accuracy [1, 2] [0, 0] = Inr (Some 0)"
  using accuracy_none_correct [of "[1, 2]" "[0, 0]"] by (simp add: less_Suc_eq)

text \<open>C25: Sequences whose lengths differ, neither of length 1, make the accuracy
  expression raise \<open>ValueError\<close>.\<close>

theorem accuracy_length_err:
  assumes "length ps \<noteq> length ls" and "length ps \<noteq> 1" and "length ls \<noteq> 1"
  shows "accuracy ps ls = Inl ValueError"
  using assms by (simp add: accuracy_def np_eq_def)

theorem accuracy_length_err_witness: "accuracy [1, 2] [1, 2, 3] = Inl ValueError"
  using accuracy_length_err [of "[1, 2]" "[1, 2, 3]"] by simp

text \<open>C26: numpy broadcasts a single prediction against all labels: the expression
  does not raise on sequences of lengths 1 and \<open>n\<close>, and gives the share of
  labels equal to that one prediction.\<close>

theorem accuracy_broadcast:
  assumes "ls \<noteq> []" and "length ls \<noteq> 1"
  shows "accuracy [p] ls =
    Inr (Some (100 * (real (length (filter (\<lambda>l. int p = l) ls)) / real (length ls))))"
  using assms by (simp add: accuracy_def np_eq_def np_mean_mask_def filter_map comp_def)

theorem accuracy_broadcast_witness: "accuracy [1] [1, 2, 1, 3] = Inr (Some 50)"
  using accuracy_broadcast [of "[1, 2, 1, 3]" 1] by simp

end
