(* ===== verification/Init.thy ===== *)
theory Init
  imports Params
begin

text \<open>
  The weight initializer \<open>initializeWeights\<close> of \<open>src/nnScript.py\<close> (lines 9--23).
  The random source is explicit state: an infinite stream of the draws
  \<open>np.random.rand\<close> would produce, each in \<open>[0, 1)\<close>.  \<open>np.random.rand(r, c)\<close>
  consumes the next \<open>r * c\<close> draws and lays them out row-major; the rest of the
  stream is returned for the next call.  The lemmas: the result has shape
  \<open>(n_out, n_in + 1)\<close>, every weight lies in \<open>[-\<epsilon>, \<epsilon>)\<close> for
  \<open>\<epsilon> = sqrt 6 / sqrt (n_in + n_out + 1)\<close>, and exactly \<open>n_out * (n_in + 1)\<close>
  draws are consumed.
\<close>

section \<open>Definitions\<close>

text \<open>\<open>np.random.rand(r, c)\<close> on a stream of draws.\<close>

definition np_random_rand :: "nat \<Rightarrow> nat \<Rightarrow> real stream \<Rightarrow> ndarr \<times> real stream" where
  "np_random_rand r c rs = (\<lparr>ncols = c, rows = chunks r c (stake (r * c) rs)\<rparr>, sdrop (r * c) rs)"

text \<open>Lines 21--23: \<open>epsilon = sqrt(6) / sqrt(n_in + n_out + 1)\<close>,
  \<open>W = (np.random.rand(n_out, n_in + 1)*2* epsilon) - epsilon\<close>.\<close>

definition initializeWeights :: "nat \<Rightarrow> nat \<Rightarrow> real stream \<Rightarrow> ndarr \<times> real stream" where
  "initializeWeights n_in n_out rs =
     (let epsilon = sqrt 6 / sqrt (real (n_in + n_out + 1));
          (R, rs') = np_random_rand n_out (n_in + 1) rs
      in (\<lparr>ncols = ncols R, rows = map (map (\<lambda>r. r * 2 * epsilon - epsilon)) (rows R)\<rparr>, rs'))"

section \<open>Lemmas\<close>

lemma initializeWeights_eq:
  "initializeWeights n_in n_out rs =
     (\<lparr>ncols = n_in + 1,
       rows = map (map (\<lambda>r. r * 2 * (sqrt 6 / sqrt (real (n_in + n_out + 1)))
                          - sqrt 6 / sqrt (real (n_in + n_out + 1))))
                (chunks n_out (n_in + 1) (stake (n_out * (n_in + 1)) rs))\<rparr>,
      sdrop (n_out * (n_in + 1)) rs)"
  by (simp add: initializeWeights_def np_random_rand_def Let_def)

lemma initializeWeights_shape:
  "is_arr n_out (n_in + 1) (fst (initializeWeights n_in n_out rs))"
  using chunks_shape [of "stake (n_out * (n_in + 1)) rs" n_out "n_in + 1"]
  by (simp add: initializeWeights_eq is_arr_def mat_shape_iff)

lemma initializeWeights_rest:
  "snd (initializeWeights n_in n_out rs) = sdrop (n_out * (n_in + 1)) rs"
  by (simp add: initializeWeights_eq)

lemma set_chunks_concat: "x \<in> set row \<Longrightarrow> row \<in> set (chunks r c xs) \<Longrightarrow> x \<in> set xs"
proof (induction r arbitrary: xs)
  case 0
  then show ?case by simp
next
  case (Suc r)
  then show ?case by (auto dest: in_set_takeD in_set_dropD)
qed

lemma scale_draw_bounds:
  fixes r e :: real
  assumes "0 \<le> r" "r < 1" "0 < e"
  shows "- e \<le> r * 2 * e - e \<and> r * 2 * e - e < e"
proof -
  have "0 \<le> r * 2 * e" using assms by simp
  moreover have "r * 2 * e < 1 * 2 * e" using assms by simp
  ultimately show ?thesis by simp
qed

section \<open>Properties of the initializer\<close>

text \<open>C21: Given random draws in \<open>[0, 1)\<close>, \<open>initializeWeights n_in n_out\<close> returns an
  array of shape \<open>(n_out, n_in + 1)\<close> whose every entry lies in \<open>[-\<epsilon>, \<epsilon>)\<close>,
  \<open>\<epsilon> = sqrt 6 / sqrt (n_in + n_out + 1)\<close>.\<close>

theorem initializeWeights_bounds:
  fixes n_in n_out :: nat and rs :: "real stream"
  assumes "sset rs \<subseteq> {0..<1}"
  defines "W \<equiv> fst (initializeWeights n_in n_out rs)"
    and "e \<equiv> sqrt 6 / sqrt (real (n_in + n_out + 1))"
  shows "is_arr n_out (n_in + 1) W \<and> (\<forall>row \<in> set (rows W). \<forall>w \<in> set row. - e \<le> w \<and> w < e)"
proof -
  have e: "0 < e" by (simp add: e_def)
  have "\<forall>row \<in> set (rows W). \<forall>w \<in> set row. - e \<le> w \<and> w < e"
  proof (intro ballI)
    fix row w assume row: "row \<in> set (rows W)" and w: "w \<in> set row"
    from row obtain row0 where r0: "row0 \<in> set (chunks n_out (n_in + 1) (stake (n_out * (n_in + 1)) rs))"
      and "row = map (\<lambda>r. r * 2 * e - e) row0"
      by (auto simp: W_def e_def initializeWeights_eq)
    with w obtain r where r: "r \<in> set row0" and "w = r * 2 * e - e" by auto
    from r r0 have "r \<in> set (stake (n_out * (n_in + 1)) rs)" by (rule set_chunks_concat)
    with assms(1) set_stake_sset have "0 \<le> r" "r < 1" by fastforce+
    with e \<open>w = r * 2 * e - e\<close> show "- e \<le> w \<and> w < e" by (simp add: scale_draw_bounds)
  qed
  with initializeWeights_shape show ?thesis by (simp add: W_def)
qed

theorem initializeWeights_bounds_witness:
  "sset (sconst (1/2 :: real)) \<subseteq> {0..<1} \<and>
   is_arr 3 3 (fst (initializeWeights 2 3 (sconst (1/2)))) \<and>
   list_all (list_all (\<lambda>w. - 1 \<le> w \<and> w < 1)) (rows (fst (initializeWeights 2 3 (sconst (1/2)))))"
  using initializeWeights_bounds [where n_in = 2 and n_out = 3 and rs = "sconst (1/2)"]
  by (simp add: list_all_iff)

end
