(* ===== verification/Script.thy ===== *)
theory Script
  imports Predict Accuracy Init
begin

text \<open>
  The module-level training script of \<open>src/nnScript.py\<close> (lines 234--294) as one
  function \<open>nnScript\<close> of the random stream and the six arrays \<open>preprocess\<close>
  returns.  Its constants are the code's: 88 hidden units, \<open>lambdaval = 0.4\<close>, 10
  classes, 50 iterations.  \<open>scipy.optimize.minimize(..., method='CG')\<close> is not
  code of this repository: it enters as a parameter \<open>minimize\<close> of type
  \<open>optimizer\<close>, and the one property of it the script needs is the interface
  \<open>opt_contract\<close>: when the objective returns a loss and a gradient of the right
  length on every vector of the initial vector's length, the minimiser returns a
  vector of that length.  The printing of the accuracies and \<open>pickle.dump\<close> are not
  modelled; the result carries the fitted arrays and the three accuracies.
\<close>

section \<open>Definitions\<close>

text \<open>\<open>minimize(fun, x0, ..., options={'maxiter': n}).x\<close>.\<close>

type_synonym optimizer = "(vec \<Rightarrow> (real \<times> vec) result) \<Rightarrow> vec \<Rightarrow> nat \<Rightarrow> vec result"

definition opt_contract :: "optimizer \<Rightarrow> bool" where
  "opt_contract minimize \<longleftrightarrow>
     (\<forall>f x0 n. (\<forall>x. length x = length x0 \<longrightarrow> (\<exists>v g. f x = Inr (v, g) \<and> length g = length x))
               \<longrightarrow> (\<exists>x. minimize f x0 n = Inr x \<and> length x = length x0))"

text \<open>The six arrays of line 235.\<close>

record dataset =
  train_data :: ndarr
  train_label :: "int list"
  validation_data :: ndarr
  validation_label :: "int list"
  test_data :: ndarr
  test_label :: "int list"

record script_out =
  out_w1 :: ndarr
  out_w2 :: ndarr
  train_accuracy :: "real option"
  validation_accuracy :: "real option"
  test_accuracy :: "real option"

text \<open>The contract of the dataset provider (section 6 of the specification) in the
  form the script needs: every row of every split has the training set's number of
  features, every split has one label per row, the training set is not empty, and
  its labels are valid class indices for the script's 10 classes.\<close>

definition dataset_ok :: "dataset \<Rightarrow> bool" where
  "dataset_ok ds \<longleftrightarrow>
     rows (train_data ds) \<noteq> [] \<and>
     list_all (\<lambda>x. length x = ncols (train_data ds)) (rows (train_data ds)) \<and>
     list_all (\<lambda>x. length x = ncols (train_data ds)) (rows (validation_data ds)) \<and>
     list_all (\<lambda>x. length x = ncols (train_data ds)) (rows (test_data ds)) \<and>
     length (train_label ds) = length (rows (train_data ds)) \<and>
     length (validation_label ds) = length (rows (validation_data ds)) \<and>
     length (test_label ds) = length (rows (test_data ds)) \<and>
     list_all (valid_label 10) (train_label ds)"

text \<open>Lines 241--250 and 259: the hyperparameters and the \<open>args\<close> tuple;
  \<open>lambdaval = 0.4\<close> is the real \<open>2/5\<close>.\<close>

definition script_args :: "dataset \<Rightarrow> nn_args" where
  "script_args ds =
     (let ni = ncols (train_data ds); nh = 88; lam = 2 / 5; nc = 10 in
      \<lparr>n_input = ni, n_hidden = nh, n_class = nc, training_data = train_data ds,
       training_label = train_label ds, lambdaval = lam\<rparr>)"

text \<open>Lines 253--257: the initial weights and the initial parameter vector.\<close>

definition script_x0 :: "nat \<Rightarrow> real stream \<Rightarrow> vec" where
  "script_x0 ni rs =
     (let (initial_w1, rs1) = initializeWeights ni 88 rs;
          (initial_w2, rs2) = initializeWeights 88 10 rs1
      in pack_params initial_w1 initial_w2)"

text \<open>Lines 270--291: the reshape of the optimiser's result and the three accuracies.\<close>

definition script_eval :: "dataset \<Rightarrow> vec \<Rightarrow> script_out result" where
  "script_eval ds x =
     sbind (unpack_params (ncols (train_data ds)) 88 10 x) (\<lambda>(w1, w2).
     sbind (nnPredict w1 w2 (train_data ds)) (\<lambda>p1.
     sbind (accuracy p1 (train_label ds)) (\<lambda>a1.
     sbind (nnPredict w1 w2 (validation_data ds)) (\<lambda>p2.
     sbind (accuracy p2 (validation_label ds)) (\<lambda>a2.
     sbind (nnPredict w1 w2 (test_data ds)) (\<lambda>p3.
     sbind (accuracy p3 (test_label ds)) (\<lambda>a3.
     Inr \<lparr>out_w1 = w1, out_w2 = w2, train_accuracy = a1,
          validation_accuracy = a2, test_accuracy = a3\<rparr>)))))))"

text \<open>Line 264: the objective the minimiser calls, \<open>nnObjFunction\<close> with
  \<open>args=args\<close> and \<open>jac=True\<close> (it returns the loss and the gradient).\<close>

definition script_objective :: "dataset \<Rightarrow> vec \<Rightarrow> (real \<times> vec) result" where
  "script_objective ds p = nnObjFunction p (script_args ds)"

text \<open>Lines 241--291: the call of \<open>minimize\<close> at line 264 with
  \<open>maxiter = 50\<close> (line 263), then the evaluation.\<close>

definition nnScript :: "optimizer \<Rightarrow> real stream \<Rightarrow> dataset \<Rightarrow> script_out result" where
  "nnScript minimize rs ds =
     sbind (minimize (script_objective ds) (script_x0 (ncols (train_data ds)) rs) 50)
       (script_eval ds)"

text \<open>The minimiser that stops at once (\<open>maxiter = 0\<close>): it meets the contract.\<close>

definition opt_stop :: optimizer where
  "opt_stop f x0 n = Inr x0"

text \<open>A dataset for the witnesses: one feature, one row labelled 1 in every split.\<close>

definition demo_dataset :: dataset where
  "demo_dataset = \<lparr>train_data = \<lparr>ncols = 1, rows = [[1]]\<rparr>, train_label = [1],
     validation_data = \<lparr>ncols = 1, rows = [[1]]\<rparr>, validation_label = [1],
     test_data = \<lparr>ncols = 1, rows = [[1]]\<rparr>, test_label = [1]\<rparr>"

section \<open>Lemmas\<close>

lemma opt_contract_stop: "opt_contract opt_stop"
  by (simp add: opt_contract_def opt_stop_def)

lemma predict_accuracy:
  assumes w1: "is_arr nh (ni + 1) w1" and w2: "is_arr nc (nh + 1) w2" and nc: "0 < nc"
    and lx: "\<forall>x \<in> set (rows data). length x = ni" and ll: "length labels = length (rows data)"
  shows "\<exists>ps a. nnPredict w1 w2 data = Inr ps \<and> accuracy ps labels = Inr a \<and>
           (a = None \<longleftrightarrow> rows data = []) \<and> (\<forall>r \<in> set_option a. 0 \<le> r \<and> r \<le> 100)"
proof -
  obtain ps where p: "nnPredict w1 w2 data = Inr ps"
    using nnPredict_ok [OF w1 w2 nc lx] by blast
  then have "length ps = length labels" using ll by (simp add: nnPredict_Inr)
  then obtain a where "accuracy ps labels = Inr a" "a = None \<longleftrightarrow> ps = []"
    "\<forall>r \<in> set_option a. 0 \<le> r \<and> r \<le> 100"
    using accuracy_same_length by blast
  moreover have "ps = [] \<longleftrightarrow> rows data = []" using p by (auto simp: nnPredict_Inr)
  ultimately show ?thesis using p by auto
qed

lemma script_args_simps [simp]:
  "n_input (script_args ds) = ncols (train_data ds)" "n_hidden (script_args ds) = 88"
  "n_class (script_args ds) = 10" "training_data (script_args ds) = train_data ds"
  "training_label (script_args ds) = train_label ds" "lambdaval (script_args ds) = 2 / 5"
  by (simp_all add: script_args_def)

lemma length_script_x0: "length (script_x0 ni rs) = n_params ni 88 10"
  using length_pack_params [OF initializeWeights_shape initializeWeights_shape]
  by (simp add: script_x0_def split_beta)

text \<open>On a well-formed dataset the objective the script passes to the minimiser
  returns a loss and a gradient of matching length on every vector of the initial
  vector's length: the premise of \<open>opt_contract\<close>.\<close>

lemma script_objective_ok:
  assumes ds: "dataset_ok ds" and lx: "length x = n_params (ncols (train_data ds)) 88 10"
  shows "\<exists>v g. script_objective ds x = Inr (v, g) \<and> length g = length x"
proof -
  have "length x = n_params (n_input (script_args ds)) (n_hidden (script_args ds)) (n_class (script_args ds))"
    using lx by simp
  moreover have "\<forall>i < length (rows (train_data ds)). valid_label 10 (train_label ds ! i)"
    using ds by (auto simp: dataset_ok_def list_all_length)
  ultimately obtain v g where "nnObjFunction x (script_args ds) = Inr (v, g)"
    using nnObjFunction_ok [of x "script_args ds"] ds by (fastforce simp: dataset_ok_def list_all_iff)
  then show ?thesis using nnObjFunction_Inr_length by (fastforce simp: script_objective_def)
qed

lemma script_eval_ok:
  assumes ds: "dataset_ok ds" and lx: "length x = n_params (ncols (train_data ds)) 88 10"
  shows "\<exists>out. script_eval ds x = Inr out \<and> pack_params (out_w1 out) (out_w2 out) = x \<and>
           train_accuracy out \<noteq> None \<and>
           (validation_accuracy out = None \<longleftrightarrow> rows (validation_data ds) = []) \<and>
           (test_accuracy out = None \<longleftrightarrow> rows (test_data ds) = []) \<and>
           (\<forall>a \<in> set_option (train_accuracy out) \<union> set_option (validation_accuracy out)
                  \<union> set_option (test_accuracy out). 0 \<le> a \<and> a \<le> 100)"
proof -
  let ?ni = "ncols (train_data ds)"
  obtain w1 w2 where u: "unpack_params ?ni 88 10 x = Inr (w1, w2)"
    using unpack_params_ok [OF lx] by blast
  have w1: "is_arr 88 (?ni + 1) w1" and w2: "is_arr 10 (88 + 1) w2" and px: "pack_params w1 w2 = x"
    using unpack_params_Inr [OF u] by auto
  have ltr: "\<forall>x \<in> set (rows (train_data ds)). length x = ?ni"
    and lva: "\<forall>x \<in> set (rows (validation_data ds)). length x = ?ni"
    and lte: "\<forall>x \<in> set (rows (test_data ds)). length x = ?ni"
    using ds by (simp_all add: dataset_ok_def list_all_iff)
  obtain p1 a1 where p1: "nnPredict w1 w2 (train_data ds) = Inr p1" "accuracy p1 (train_label ds) = Inr a1"
    "a1 = None \<longleftrightarrow> rows (train_data ds) = []" "\<forall>r \<in> set_option a1. 0 \<le> r \<and> r \<le> 100"
    using predict_accuracy [OF w1 w2 _ ltr, where labels = "train_label ds"] ds by (auto simp: dataset_ok_def)
  obtain p2 a2 where p2: "nnPredict w1 w2 (validation_data ds) = Inr p2"
    "accuracy p2 (validation_label ds) = Inr a2"
    "a2 = None \<longleftrightarrow> rows (validation_data ds) = []" "\<forall>r \<in> set_option a2. 0 \<le> r \<and> r \<le> 100"
    using predict_accuracy [OF w1 w2 _ lva, where labels = "validation_label ds"] ds by (auto simp: dataset_ok_def)
  obtain p3 a3 where p3: "nnPredict w1 w2 (test_data ds) = Inr p3" "accuracy p3 (test_label ds) = Inr a3"
    "a3 = None \<longleftrightarrow> rows (test_data ds) = []" "\<forall>r \<in> set_option a3. 0 \<le> r \<and> r \<le> 100"
    using predict_accuracy [OF w1 w2 _ lte, where labels = "test_label ds"] ds by (auto simp: dataset_ok_def)
  have "script_eval ds x = Inr \<lparr>out_w1 = w1, out_w2 = w2, train_accuracy = a1,
          validation_accuracy = a2, test_accuracy = a3\<rparr>"
    using u p1(1,2) p2(1,2) p3(1,2) by (simp add: script_eval_def)
  with px p1(3,4) p2(3,4) p3(3,4) ds show ?thesis by (auto simp: dataset_ok_def)
qed

text \<open>With a minimiser meeting the contract the script runs to its end, and the
  fitted arrays pack to the vector the minimiser returned.\<close>

lemma nnScript_ok:
  assumes opt: "opt_contract minimize" and ds: "dataset_ok ds"
  shows "\<exists>x out. minimize (script_objective ds) (script_x0 (ncols (train_data ds)) rs) 50 = Inr x \<and>
           length x = n_params (ncols (train_data ds)) 88 10 \<and>
           nnScript minimize rs ds = Inr out \<and> script_eval ds x = Inr out"
proof -
  let ?f = "script_objective ds" and ?x0 = "script_x0 (ncols (train_data ds)) rs"
  have fok: "\<forall>x. length x = length ?x0 \<longrightarrow> (\<exists>v g. ?f x = Inr (v, g) \<and> length g = length x)"
    using script_objective_ok [OF ds] by (simp add: length_script_x0)
  obtain x where x: "minimize ?f ?x0 50 = Inr x" and lx: "length x = length ?x0"
    using opt [unfolded opt_contract_def, rule_format, OF fok [rule_format], where n = 50] by blast
  then obtain out where "script_eval ds x = Inr out"
    using script_eval_ok [OF ds] by (fastforce simp: length_script_x0)
  with x lx show ?thesis by (simp add: nnScript_def length_script_x0)
qed

section \<open>Properties of the script\<close>

text \<open>C9: For any minimiser meeting the interface contract, and data in which every
  row of every split has the training set's number of features, every split has one
  label per row, the training set is not empty and its labels are valid class
  indices for 10 classes, the script raises nothing: it reshapes the optimiser's
  result, labels the three splits and computes three accuracies, each a percentage
  between 0 and 100 (the training accuracy a number, the others NaN only for an
  empty split).\<close>

theorem nnScript_returns:
  assumes "opt_contract minimize" and "dataset_ok ds"
  shows "\<exists>out. nnScript minimize rs ds = Inr out \<and> train_accuracy out \<noteq> None \<and>
           (validation_accuracy out = None \<longleftrightarrow> rows (validation_data ds) = []) \<and>
           (test_accuracy out = None \<longleftrightarrow> rows (test_data ds) = []) \<and>
           (\<forall>a \<in> set_option (train_accuracy out) \<union> set_option (validation_accuracy out)
                  \<union> set_option (test_accuracy out). 0 \<le> a \<and> a \<le> 100)"
proof -
  obtain x out where "length x = n_params (ncols (train_data ds)) 88 10"
    and "nnScript minimize rs ds = Inr out" and "script_eval ds x = Inr out"
    using nnScript_ok [OF assms] by blast
  with script_eval_ok [OF assms(2)] show ?thesis by fastforce
qed

theorem nnScript_returns_witness:
  "\<exists>out. nnScript opt_stop (sconst (1/2)) demo_dataset = Inr out \<and> train_accuracy out \<noteq> None"
  using nnScript_returns [OF opt_contract_stop, of demo_dataset "sconst (1/2)"]
  by (simp add: demo_dataset_def dataset_ok_def valid_label_def) blast

end
