(* ===== verification/Preprocess.thy ===== *)
theory Preprocess
  imports Script
begin

text \<open>
  \<open>preprocess\<close> (\<open>src/nnScript.py\<close> lines 32--96) and the script's call of it
  (line 235).  \<open>loadmat\<close> is file I/O: its result, a dictionary from key strings
  to two-dimensional arrays, enters as an association list in the dictionary's
  iteration order.  \<open>np.random.permutation(60000)\<close> enters as the list of indices
  it returns.  The label arrays of the code are one-dimensional numpy arrays; they
  hold the integers \<open>val\<close> appended to them, kept here as \<open>int list\<close>.
  \<open>re.findall(r'\d+', key)\<close> is the list of maximal runs of ASCII digits.

  The lemmas show that \<open>preprocess\<close> raises on every input: the first key with a
  digit reaches \<open>np.append(..., axis=1)\<close> on a one-dimensional label array, which
  numpy rejects with \<open>AxisError\<close>; without such a key the training array stays
  empty and the first subscript of the split raises \<open>IndexError\<close>.  So the script
  never reaches training.
\<close>

section \<open>Definitions\<close>

subsection \<open>Keys\<close>

definition is_digit :: "char \<Rightarrow> bool" where
  "is_digit c \<longleftrightarrow> 48 \<le> (of_char c :: nat) \<and> (of_char c :: nat) \<le> 57"

text \<open>\<open>re.findall(r'\d+', s)\<close>: the scan keeps the digit run \<open>cur\<close> read so far.\<close>

fun digit_runs :: "string \<Rightarrow> string \<Rightarrow> string list" where
  "digit_runs [] cur = (if cur = [] then [] else [cur])"
| "digit_runs (c # cs) cur =
     (if is_digit c then digit_runs cs (cur @ [c])
      else if cur = [] then digit_runs cs [] else cur # digit_runs cs [])"

definition re_findall_digits :: "string \<Rightarrow> string list" where
  "re_findall_digits s = digit_runs s []"

text \<open>\<open>int(s)\<close> on a string of decimal digits.\<close>

definition digits_int :: "string \<Rightarrow> int" where
  "digits_int s = foldl (\<lambda>n c. 10 * n + (int (of_char c) - 48)) 0 s"

subsection \<open>numpy operations\<close>

text \<open>\<open>np.append(arr, values, axis)\<close> for a one-dimensional \<open>arr\<close>: \<open>axis = 0\<close>
  concatenates, any other axis is out of range.\<close>

definition np_append_1d :: "int list \<Rightarrow> int list \<Rightarrow> nat \<Rightarrow> int list result" where
  "np_append_1d arr values axis = (if axis = 0 then Inr (arr @ values) else Inl AxisError)"

text \<open>\<open>np.vstack((A, B))\<close> of two two-dimensional arrays.\<close>

definition np_vstack :: "ndarr \<Rightarrow> ndarr \<Rightarrow> ndarr result" where
  "np_vstack A B =
     (if ncols A = ncols B then Inr \<lparr>ncols = ncols A, rows = rows A @ rows B\<rparr> else Inl ValueError)"

text \<open>\<open>A / d\<close>, elementwise.\<close>

definition arr_div :: "ndarr \<Rightarrow> real \<Rightarrow> ndarr" where
  "arr_div A d = \<lparr>ncols = ncols A, rows = map (map (\<lambda>v. v / d)) (rows A)\<rparr>"

text \<open>\<open>np.delete(A, 0, axis=0)\<close>.\<close>

definition np_delete0 :: "ndarr \<Rightarrow> ndarr result" where
  "np_delete0 A = (if rows A = [] then Inl IndexError else Inr \<lparr>ncols = ncols A, rows = tl (rows A)\<rparr>)"

text \<open>\<open>[xs[i] for i in idx]\<close>, evaluated left to right.\<close>

fun py_gather :: "'a list \<Rightarrow> nat list \<Rightarrow> 'a list result" where
  "py_gather xs [] = Inr []"
| "py_gather xs (i # is) = sbind (py_nth xs i) (\<lambda>x. sbind (py_gather xs is) (\<lambda>ys. Inr (x # ys)))"

subsection \<open>The loop over the keys\<close>

text \<open>The four arrays the loop of lines 70--84 updates.\<close>

record prep_state =
  tr_data_tmp :: ndarr
  tr_label_tmp :: "int list"
  te_data :: ndarr
  te_label :: "int list"

text \<open>Lines 61--68: the accumulators before the loop (a zero row that line 87--88
  deletes afterwards, and empty label arrays).\<close>

definition prep_state0 :: prep_state where
  "prep_state0 = \<lparr>tr_data_tmp = \<lparr>ncols = 784, rows = [replicate 784 0]\<rparr>, tr_label_tmp = [],
     te_data = \<lparr>ncols = 784, rows = [replicate 784 0]\<rparr>, te_label = []\<rparr>"

text \<open>One iteration, lines 71--84, for the entry \<open>(key, value)\<close>.\<close>

definition prep_key :: "prep_state \<Rightarrow> string \<times> ndarr \<Rightarrow> prep_state result" where
  "prep_key st kv =
     (let (key, value) = kv; digData = re_findall_digits key in
      if digData = [] then Inr st
      else
        let val = digits_int (hd digData) in
        if take 5 key = ''train'' then
          sbind (np_append_1d (tr_label_tmp st) (replicate (length (rows value)) val) 1) (\<lambda>l.
          sbind (np_vstack (tr_data_tmp st) (arr_div value 255)) (\<lambda>d.
          Inr (st\<lparr>tr_label_tmp := l, tr_data_tmp := d\<rparr>)))
        else
          sbind (np_append_1d (te_label st) (replicate (length (rows value)) val) 1) (\<lambda>l.
          sbind (np_vstack (te_data st) (arr_div value 255)) (\<lambda>d.
          Inr (st\<lparr>te_label := l, te_data := d\<rparr>))))"

fun prep_loop :: "prep_state \<Rightarrow> (string \<times> ndarr) list \<Rightarrow> prep_state result" where
  "prep_loop st [] = Inr st"
| "prep_loop st (kv # kvs) = sbind (prep_key st kv) (\<lambda>st'. prep_loop st' kvs)"

subsection \<open>preprocess and the script\<close>

text \<open>Lines 59--96: the loop, the deletion of the zero rows, and the split of the
  training arrays by the permutation \<open>indices\<close>.\<close>

definition preprocess :: "(string \<times> ndarr) list \<Rightarrow> nat list \<Rightarrow> dataset result" where
  "preprocess mat indices =
     sbind (prep_loop prep_state0 mat) (\<lambda>st.
     sbind (np_delete0 (tr_data_tmp st)) (\<lambda>train_data_temp.
     sbind (np_delete0 (te_data st)) (\<lambda>tsd.
     let training_idx = take 50000 indices; validation_idx = drop 50000 indices in
     sbind (py_gather (rows train_data_temp) training_idx) (\<lambda>trd.
     sbind (py_gather (tr_label_tmp st) training_idx) (\<lambda>trl.
     sbind (py_gather (rows train_data_temp) validation_idx) (\<lambda>vad.
     sbind (py_gather (tr_label_tmp st) validation_idx) (\<lambda>val.
     Inr \<lparr>train_data = \<lparr>ncols = ncols train_data_temp, rows = trd\<rparr>, train_label = trl,
          validation_data = \<lparr>ncols = ncols train_data_temp, rows = vad\<rparr>, validation_label = val,
          test_data = tsd, test_label = te_label st\<rparr>)))))))"

text \<open>The whole module: line 235 followed by the script of lines 239--291.\<close>

definition nnScript_main ::
  "(string \<times> ndarr) list \<Rightarrow> nat list \<Rightarrow> optimizer \<Rightarrow> real stream \<Rightarrow> script_out result" where
  "nnScript_main mat indices minimize rs = sbind (preprocess mat indices) (nnScript minimize rs)"

text \<open>A dictionary shaped like \<open>mnist_all.mat\<close>, with one image per key and the
  metadata keys \<open>loadmat\<close> adds.\<close>

definition demo_mat :: "(string \<times> ndarr) list" where
  "demo_mat = [(''__header__'', \<lparr>ncols = 0, rows = []\<rparr>), (''__version__'', \<lparr>ncols = 0, rows = []\<rparr>),
     (''train0'', \<lparr>ncols = 784, rows = [replicate 784 255]\<rparr>),
     (''test0'', \<lparr>ncols = 784, rows = [replicate 784 0]\<rparr>)]"

section \<open>Lemmas\<close>

lemma re_findall_digits_train0: "re_findall_digits ''train0'' = [''0'']"
  by (simp add: re_findall_digits_def is_digit_def)

lemma digits_int_single: "is_digit c \<Longrightarrow> digits_int [c] = int (of_char c) - 48"
  by (simp add: digits_int_def)

lemma prep_key_skip: "re_findall_digits (fst kv) = [] \<Longrightarrow> prep_key st kv = Inr st"
  by (cases kv) (simp add: prep_key_def)

lemma prep_key_axis: "re_findall_digits (fst kv) \<noteq> [] \<Longrightarrow> prep_key st kv = Inl AxisError"
  by (cases kv) (simp add: prep_key_def Let_def np_append_1d_def)

lemma prep_loop_skip: "\<forall>kv \<in> set kvs. re_findall_digits (fst kv) = [] \<Longrightarrow> prep_loop st kvs = Inr st"
  by (induction kvs) (simp_all add: prep_key_skip)

lemma prep_loop_axis:
  "\<exists>kv \<in> set kvs. re_findall_digits (fst kv) \<noteq> [] \<Longrightarrow> prep_loop st kvs = Inl AxisError"
proof (induction kvs)
  case Nil
  then show ?case by simp
next
  case (Cons kv kvs)
  then show ?case
    by (cases "re_findall_digits (fst kv) = []") (auto simp: prep_key_skip prep_key_axis)
qed

lemma py_gather_Nil_Cons [simp]: "py_gather [] (i # is) = Inl IndexError"
  by (simp add: py_nth_def)

lemma preprocess_no_digit_key:
  assumes "\<forall>kv \<in> set mat. re_findall_digits (fst kv) = []" and "indices \<noteq> []"
  shows "preprocess mat indices = Inl IndexError"
proof -
  obtain i js where "indices = i # js" using assms(2) by (cases indices) auto
  then show ?thesis
    using prep_loop_skip [OF assms(1)]
    by (simp add: preprocess_def prep_state0_def np_delete0_def)
qed

lemma preprocess_raises:
  "indices \<noteq> [] \<Longrightarrow> preprocess mat indices = Inl AxisError \<or> preprocess mat indices = Inl IndexError"
  using preprocess_no_digit_key [of mat indices] prep_loop_axis [of mat prep_state0]
  by (cases "\<exists>kv \<in> set mat. re_findall_digits (fst kv) \<noteq> []") (auto simp: preprocess_def)

section \<open>Properties of preprocess\<close>

text \<open>C11: As soon as the dictionary has a key containing a digit (\<open>train0\<close> ...
  \<open>test9\<close> in \<open>mnist_all.mat\<close>), \<open>preprocess\<close> raises \<open>AxisError\<close>: the label
  arrays are one-dimensional and \<open>np.append(..., axis=1)\<close> (lines 80 and 83) has no
  axis 1.\<close>

theorem preprocess_axis_err:
  assumes "\<exists>kv \<in> set mat. re_findall_digits (fst kv) \<noteq> []"
  shows "preprocess mat indices = Inl AxisError"
  using prep_loop_axis [OF assms] by (simp add: preprocess_def)

theorem preprocess_axis_err_witness: "preprocess demo_mat [0, 1] = Inl AxisError"
  using preprocess_axis_err [of demo_mat "[0, 1]"]
  by (simp add: demo_mat_def re_findall_digits_train0)

text \<open>C12: A dictionary without such a key leaves the training array empty after
  the deletion of its zero row (line 87), and the first subscript of the split
  (line 94) raises \<open>IndexError\<close>.\<close>

theorem preprocess_index_err:
  assumes "\<forall>kv \<in> set mat. re_findall_digits (fst kv) = []" and "indices \<noteq> []"
  shows "preprocess mat indices = Inl IndexError"
  using assms by (rule preprocess_no_digit_key)

theorem preprocess_index_err_witness:
  "preprocess [(''__header__'', \<lparr>ncols = 0, rows = []\<rparr>)] [2, 0, 1] = Inl IndexError"
  using preprocess_index_err [of "[(''__header__'', \<lparr>ncols = 0, rows = []\<rparr>)]" "[2, 0, 1]"]
  by (simp add: re_findall_digits_def is_digit_def)

text \<open>C10: The module as written never trains: for every dictionary \<open>loadmat\<close> may
  return and every permutation of \<open>range(60000)\<close>, line 235 raises (\<open>AxisError\<close>
  or \<open>IndexError\<close>) before \<open>nnScript\<close> runs, whatever the optimiser and the random
  draws.\<close>

theorem nnScript_main_raises:
  assumes "set indices = {..<60000}"
  shows "nnScript_main mat indices minimize rs = Inl AxisError \<or>
         nnScript_main mat indices minimize rs = Inl IndexError"
proof -
  have "(0::nat) \<in> set indices" using assms by simp
  then have "indices \<noteq> []" by auto
  from preprocess_raises [OF this, of mat] show ?thesis
    by (auto simp: nnScript_main_def)
qed

theorem nnScript_main_raises_witness:
  "nnScript_main demo_mat [0..<60000] opt_stop (sconst 0) = Inl AxisError \<or>
   nnScript_main demo_mat [0..<60000] opt_stop (sconst 0) = Inl IndexError"
  using nnScript_main_raises [of "[0..<60000]" demo_mat opt_stop "sconst 0"]
  by (simp add: lessThan_atLeast0)

end
