(* ===== verification/Objective_Spec.thy ===== *)
theory Objective_Spec
  imports Objective
begin

text \<open>
  A reference specification of the objective, written from section 4.3 of the
  specification and independent of the code's loop and numpy operations: the loss
  \<open>loss_spec\<close> and the two gradients \<open>grad_w1_spec\<close>, \<open>grad_w2_spec\<close> as whole-batch
  sums over the rows, each entry given by its formula.  The refinement theorem says
  that \<open>nnObjFunction\<close> (the loop \<open>nnObj_loop\<close> of \<open>src/nnScript.py\<close> lines 150--179
  and the finish of lines 181--194) returns exactly this loss and the concatenation
  of these gradients on every call with valid input.  Its proof goes through the
  loop: one iteration adds the row's contributions (\<open>nnObj_example_spec\<close>), the loop
  folds them (\<open>nnObj_loop_spec\<close>), and the fold of outer products is the entrywise
  sum (\<open>foldl_madd\<close>).
\<close>

section \<open>Definitions\<close>

text \<open>The forward pass, section 4.3 steps 1--2 of the specification: hidden
  activations \<open>z1\<close> and output activations \<open>z2\<close> of one input row \<open>x\<close>.\<close>

definition fwd_spec :: "real list list \<Rightarrow> real list list \<Rightarrow> vec \<Rightarrow> vec \<times> vec" where
  "fwd_spec W1 W2 x =
     (let z1 = map (\<lambda>w. sigmoid (dotp (x @ [1]) w)) W1 in
      (z1, map (\<lambda>w. sigmoid (dotp (z1 @ [1]) w)) W2))"

text \<open>The one-hot target of a class index \<open>l\<close> (step 3).\<close>

definition target :: "nat \<Rightarrow> nat \<Rightarrow> vec" where
  "target nc l = map (\<lambda>k. if k = l then 1 else 0) [0..<nc]"

text \<open>The output delta \<open>(y - z2)(1 - z2) z2\<close> (step 5) and the hidden delta
  \<open>(1 - z1) z1 (-\<delta> W2\<^sub>n\<^sub>o\<^sub>b\<^sub>i\<^sub>a\<^sub>s)\<close> (step 6) of one row.\<close>

definition out_delta :: "nat \<Rightarrow> real list list \<Rightarrow> real list list \<Rightarrow> vec \<Rightarrow> nat \<Rightarrow> vec" where
  "out_delta nc W1 W2 x l = map2 (\<lambda>a b. (a - b) * (1 - b) * b) (target nc l) (snd (fwd_spec W1 W2 x))"

definition hid_delta :: "nat \<Rightarrow> real list list \<Rightarrow> real list list \<Rightarrow> vec \<Rightarrow> nat \<Rightarrow> vec" where
  "hid_delta nc W1 W2 x l =
     (let z1 = fst (fwd_spec W1 W2 x); d = out_delta nc W1 W2 x l in
      map (\<lambda>j. (1 - z1 ! j) * z1 ! j * - sum_list (map2 (\<lambda>dk w. dk * w ! j) d W2)) [0..<length W1])"

text \<open>The contributions of one row to the two gradients.\<close>

definition contrib_w2 :: "nat \<Rightarrow> real list list \<Rightarrow> real list list \<Rightarrow> vec \<Rightarrow> nat \<Rightarrow> real list list" where
  "contrib_w2 nc W1 W2 x l = outer (map uminus (out_delta nc W1 W2 x l)) (fst (fwd_spec W1 W2 x) @ [1])"

definition contrib_w1 :: "nat \<Rightarrow> real list list \<Rightarrow> real list list \<Rightarrow> vec \<Rightarrow> nat \<Rightarrow> real list list" where
  "contrib_w1 nc W1 W2 x l = outer (hid_delta nc W1 W2 x l) (x @ [1])"

text \<open>The squared error of one row (step 4).\<close>

definition row_loss :: "nat \<Rightarrow> real list list \<Rightarrow> real list list \<Rightarrow> vec \<Rightarrow> nat \<Rightarrow> real" where
  "row_loss nc W1 W2 x l = sum_list (map2 (\<lambda>a b. (a - b)\<^sup>2) (target nc l) (snd (fwd_spec W1 W2 x)))"

text \<open>The regularised objective over the whole batch \<open>X\<close> with class labels \<open>L\<close>:
  \<open>\<Sigma>\<^sub>i \<parallel>y\<^sub>i - z2\<^sub>i\<parallel>\<^sup>2 / 2N + \<lambda> (\<parallel>W1\<parallel>\<^sup>2 + \<parallel>W2\<parallel>\<^sup>2) / N\<close>.\<close>

definition loss_spec :: "nat \<Rightarrow> real \<Rightarrow> real list list \<Rightarrow> real list list \<Rightarrow> vec list \<Rightarrow> nat list \<Rightarrow> real" where
  "loss_spec nc lam W1 W2 X L =
     sum_list (map2 (row_loss nc W1 W2) X L) / (2 * real (length X))
     + lam * (sum_sq W1 + sum_sq W2) / real (length X)"

text \<open>The gradients in whole-batch form (section 9 of the specification), entry
  by entry: \<open>(\<Sigma>\<^sub>i -\<delta>\<^sub>i\<^sub>k z1b\<^sub>i\<^sub>j + \<lambda> W2\<^sub>k\<^sub>j) / N\<close> and
  \<open>(\<Sigma>\<^sub>i hid\<^sub>i\<^sub>j xb\<^sub>i\<^sub>m + \<lambda> W1\<^sub>j\<^sub>m) / N\<close>.\<close>

definition grad_w2_spec ::
  "nat \<Rightarrow> real \<Rightarrow> real list list \<Rightarrow> real list list \<Rightarrow> vec list \<Rightarrow> nat list \<Rightarrow> real list list" where
  "grad_w2_spec nc lam W1 W2 X L =
     map (\<lambda>k. map (\<lambda>j.
       (sum_list (map2 (\<lambda>x l. - (out_delta nc W1 W2 x l ! k) * ((fst (fwd_spec W1 W2 x) @ [1]) ! j)) X L)
        + lam * (W2 ! k ! j)) / real (length X)) [0..<length (W2 ! k)]) [0..<length W2]"

definition grad_w1_spec ::
  "nat \<Rightarrow> real \<Rightarrow> real list list \<Rightarrow> real list list \<Rightarrow> vec list \<Rightarrow> nat list \<Rightarrow> real list list" where
  "grad_w1_spec nc lam W1 W2 X L =
     map (\<lambda>j. map (\<lambda>m.
       (sum_list (map2 (\<lambda>x l. hid_delta nc W1 W2 x l ! j * ((x @ [1]) ! m)) X L)
        + lam * (W1 ! j ! m)) / real (length X)) [0..<length (W1 ! j)]) [0..<length W1]"

section \<open>Lemmas\<close>

lemma target_eq: "l < nc \<Longrightarrow> (replicate nc 0)[l := 1] = target nc l"
  by (rule nth_equalityI) (auto simp: target_def nth_list_update)

lemma fwd_spec_eq:
  assumes "is_arr nh (ni + 1) w1" and "is_arr nc (nh + 1) w2" and "length x = ni"
  shows "nn_forward w1 w2 (x @ [1]) = Inr (fwd_spec (rows w1) (rows w2) x)"
  using assms by (simp add: nn_forward_ok fwd_spec_def sigmoid_vec_def Let_def comp_def)

lemma length_fwd_spec [simp]:
  "length (fst (fwd_spec W1 W2 x)) = length W1" "length (snd (fwd_spec W1 W2 x)) = length W2"
  by (simp_all add: fwd_spec_def Let_def)

lemma length_target [simp]: "length (target nc l) = nc"
  by (simp add: target_def)

lemma length_out_delta [simp]: "length W2 = nc \<Longrightarrow> length (out_delta nc W1 W2 x l) = nc"
  by (simp add: out_delta_def)

lemma vec_dot_arr_drop_last_col:
  assumes w2: "is_arr nc (nh + 1) w2" and d: "length d = nc"
  shows "vec_dot_arr d (drop_last_col w2) =
           Inr (map (\<lambda>j. sum_list (map2 (\<lambda>dk w. dk * w ! j) d (rows w2))) [0..<nh])"
proof -
  have "length (rows w2) = nc" using w2 by (simp add: is_arr_rows)
  moreover have "\<And>j. j < nh \<Longrightarrow> dotp d (arr_col (drop_last_col w2) j) =
                   sum_list (map2 (\<lambda>dk w. dk * w ! j) d (rows w2))"
  proof -
    fix j assume j: "j < nh"
    have "arr_col (drop_last_col w2) j = map (\<lambda>row. row ! j) (rows w2)"
      using w2 j by (auto simp: arr_col_def drop_last_col_def is_arr_def)
    then show "dotp d (arr_col (drop_last_col w2) j) = sum_list (map2 (\<lambda>dk w. dk * w ! j) d (rows w2))"
      by (simp add: dotp_def zip_map2 split_def comp_def)
  qed
  ultimately show ?thesis
    using w2 d by (simp add: vec_dot_arr_def drop_last_col_def is_arr_def)
qed


lemma hid_delta_eq:
  assumes "length W1 = nh"
  shows "map2 (*) (map (\<lambda>z. (1 - z) * z) (fst (fwd_spec W1 W2 x)))
           (map (\<lambda>t. -1 * t) (map (\<lambda>j. sum_list (map2 (\<lambda>dk w. dk * w ! j) (out_delta nc W1 W2 x l) W2)) [0..<nh]))
         = hid_delta nc W1 W2 x l"
  using assms by (intro nth_equalityI) (auto simp: hid_delta_def Let_def)

lemma nnObj_example_spec:
  assumes w1: "is_arr nh (ni + 1) w1" and w2: "is_arr nc (nh + 1) w2"
    and g1: "grad_w1 acc \<noteq> []" and g2: "grad_w2 acc \<noteq> []" and lx: "length x = ni"
    and li: "i < length labels" and l0: "0 \<le> labels ! i" and lc: "labels ! i < int nc"
  shows "nnObj_example nc w1 w2 (drop_last_col w2) labels i x acc =
    Inr \<lparr>obj_val = obj_val acc + row_loss nc (rows w1) (rows w2) x (nat (labels ! i)),
         grad_w1 = madd (grad_w1 acc) (contrib_w1 nc (rows w1) (rows w2) x (nat (labels ! i))),
         grad_w2 = madd (grad_w2 acc) (contrib_w2 nc (rows w1) (rows w2) x (nat (labels ! i)))\<rparr>"
proof -
  let ?l = "nat (labels ! i)" and ?W1 = "rows w1" and ?W2 = "rows w2"
  have lW1: "length ?W1 = nh" and lW2: "length ?W2 = nc"
    using w1 w2 by (simp_all add: is_arr_rows)
  have y: "onehot nc (labels ! i) = Inr (target nc ?l)"
    using l0 lc by (simp add: onehot_def py_index_nonneg target_eq nat_less_iff)
  have d: "vec_dot_arr (out_delta nc ?W1 ?W2 x ?l) (drop_last_col w2) =
      Inr (map (\<lambda>j. sum_list (map2 (\<lambda>dk w. dk * w ! j) (out_delta nc ?W1 ?W2 x ?l) ?W2)) [0..<nh])"
    using w2 lW2 by (simp add: vec_dot_arr_drop_last_col)
  show ?thesis
    using fwd_spec_eq [OF w1 w2 lx] y d li g1 g2 hid_delta_eq [OF lW1, of ?W2 x nc ?l]
    by (simp add: nnObj_example_def acc_iadd_ok Let_def contrib_w1_def contrib_w2_def
        row_loss_def out_delta_def case_prod_beta)
qed


lemma nth_map2_len:
  "k < length xs \<Longrightarrow> k < length ys \<Longrightarrow> map2 f xs ys ! k = f (xs ! k) (ys ! k)"
  by simp

lemma madd_nth:
  assumes "mat_shape r c M" and "mat_shape r c N" and "k < r" and "j < c"
  shows "madd M N ! k ! j = M ! k ! j + N ! k ! j"
proof -
  have "length (M ! k) = c" "length (N ! k) = c" using assms mat_shape_nth by blast+
  moreover have "length M = r" "length N = r" using assms(1,2) by (simp_all add: mat_shape_def)
  ultimately show ?thesis using assms(3,4) by (simp add: madd_def)
qed

lemma foldl_madd:
  assumes "mat_shape r c G" and "\<forall>T \<in> set Ts. mat_shape r c T"
  shows "mat_shape r c (foldl madd G Ts) \<and>
    (\<forall>k < r. \<forall>j < c. foldl madd G Ts ! k ! j = G ! k ! j + sum_list (map (\<lambda>T. T ! k ! j) Ts))"
  using assms
proof (induction Ts arbitrary: G)
  case Nil
  then show ?case by simp
next
  case (Cons T Ts)
  have "mat_shape r c (madd G T)" using Cons.prems by (simp add: mat_shape_madd)
  with Cons.IH [of "madd G T"] Cons.prems show ?case by (simp add: madd_nth)
qed

lemma take_drop_Cons:
  "i < length xs \<Longrightarrow> take (Suc n) (drop i xs) = xs ! i # take n (drop (Suc i) xs)"
  by (subst Cons_nth_drop_Suc [symmetric]) simp_all

lemma nnObj_loop_spec:
  assumes w1: "is_arr nh (ni + 1) w1" and w2: "is_arr nc (nh + 1) w2" and nh: "0 < nh"
  shows "acc_inv nh ni nc acc \<Longrightarrow> \<forall>x \<in> set xs. length x = ni \<Longrightarrow> i + length xs \<le> length labels
    \<Longrightarrow> \<forall>k < length xs. 0 \<le> labels ! (i + k) \<and> labels ! (i + k) < int nc
    \<Longrightarrow> nnObj_loop nc w1 w2 (drop_last_col w2) labels i xs acc =
      Inr \<lparr>obj_val = obj_val acc + sum_list (map2 (row_loss nc (rows w1) (rows w2)) xs
                                              (map nat (take (length xs) (drop i labels)))),
           grad_w1 = foldl madd (grad_w1 acc) (map2 (contrib_w1 nc (rows w1) (rows w2)) xs
                                              (map nat (take (length xs) (drop i labels)))),
           grad_w2 = foldl madd (grad_w2 acc) (map2 (contrib_w2 nc (rows w1) (rows w2)) xs
                                              (map nat (take (length xs) (drop i labels))))\<rparr>"
proof (induction xs arbitrary: i acc)
  case Nil
  then show ?case by simp
next
  case (Cons x xs)
  have li: "i < length labels" using Cons.prems(3) by simp
  have l0: "0 \<le> labels ! i" and lc: "labels ! i < int nc" using Cons.prems(4) [rule_format, of 0] by simp_all
  then have "0 < nc" by simp
  then have g: "grad_w1 acc \<noteq> []" "grad_w2 acc \<noteq> []"
    using acc_inv_nonempty [OF Cons.prems(1)] nh by auto
  have e: "nnObj_example nc w1 w2 (drop_last_col w2) labels i x acc =
    Inr \<lparr>obj_val = obj_val acc + row_loss nc (rows w1) (rows w2) x (nat (labels ! i)),
         grad_w1 = madd (grad_w1 acc) (contrib_w1 nc (rows w1) (rows w2) x (nat (labels ! i))),
         grad_w2 = madd (grad_w2 acc) (contrib_w2 nc (rows w1) (rows w2) x (nat (labels ! i)))\<rparr>"
    (is "_ = Inr ?acc1")
    using nnObj_example_spec [OF w1 w2 g] Cons.prems(2) li l0 lc by simp
  have inv1: "acc_inv nh ni nc ?acc1" using nnObj_example_Inr [OF w1 w2 Cons.prems(1) e] .
  have "\<forall>k < length xs. 0 \<le> labels ! (Suc i + k) \<and> labels ! (Suc i + k) < int nc"
    using Cons.prems(4) by (metis add_Suc add_Suc_shift length_Cons not_less_eq)
  then have ih: "nnObj_loop nc w1 w2 (drop_last_col w2) labels (Suc i) xs ?acc1 =
      Inr \<lparr>obj_val = obj_val ?acc1 + sum_list (map2 (row_loss nc (rows w1) (rows w2)) xs
                                              (map nat (take (length xs) (drop (Suc i) labels)))),
           grad_w1 = foldl madd (grad_w1 ?acc1) (map2 (contrib_w1 nc (rows w1) (rows w2)) xs
                                              (map nat (take (length xs) (drop (Suc i) labels)))),
           grad_w2 = foldl madd (grad_w2 ?acc1) (map2 (contrib_w2 nc (rows w1) (rows w2)) xs
                                              (map nat (take (length xs) (drop (Suc i) labels))))\<rparr>"
    using Cons.IH [OF inv1] Cons.prems(2,3) by simp
  show ?case
    using e ih li by (simp add: take_drop_Cons add.assoc)
qed


lemma outer_nth: "k < length u \<Longrightarrow> j < length v \<Longrightarrow> outer u v ! k ! j = u ! k * v ! j"
  by (simp add: outer_def)

lemma contrib_w2_shape:
  "length W1 = nh \<Longrightarrow> length W2 = nc \<Longrightarrow> mat_shape nc (nh + 1) (contrib_w2 nc W1 W2 x l)"
  using mat_shape_outer [of "map uminus (out_delta nc W1 W2 x l)" "fst (fwd_spec W1 W2 x) @ [1]"]
  by (simp add: contrib_w2_def)

lemma contrib_w1_shape:
  "length W1 = nh \<Longrightarrow> length x = ni \<Longrightarrow> mat_shape nh (ni + 1) (contrib_w1 nc W1 W2 x l)"
  using mat_shape_outer [of "hid_delta nc W1 W2 x l" "x @ [1]"]
  by (simp add: contrib_w1_def hid_delta_def Let_def)

lemma contrib_w2_nth:
  "length W1 = nh \<Longrightarrow> length W2 = nc \<Longrightarrow> k < nc \<Longrightarrow> j < nh + 1 \<Longrightarrow>
   contrib_w2 nc W1 W2 x l ! k ! j = - (out_delta nc W1 W2 x l ! k) * ((fst (fwd_spec W1 W2 x) @ [1]) ! j)"
  by (simp add: contrib_w2_def outer_nth)

lemma contrib_w1_nth:
  "length W1 = nh \<Longrightarrow> j < nh \<Longrightarrow> m < length x + 1 \<Longrightarrow>
   contrib_w1 nc W1 W2 x l ! j ! m = hid_delta nc W1 W2 x l ! j * ((x @ [1]) ! m)"
  by (simp add: contrib_w1_def outer_nth hid_delta_def Let_def)

lemma reg_foldl_madd:
  assumes W: "mat_shape r c W" and T: "\<forall>T \<in> set Ts. mat_shape r c T"
  shows "map2 (map2 (\<lambda>g w. (g + lam * w) / n)) (foldl madd (zeros r c) Ts) W =
    map (\<lambda>k. map (\<lambda>j. (sum_list (map (\<lambda>T. T ! k ! j) Ts) + lam * (W ! k ! j)) / n)
      [0..<length (W ! k)]) [0..<length W]"
proof -
  have F: "mat_shape r c (foldl madd (zeros r c) Ts)"
    "\<forall>k < r. \<forall>j < c. foldl madd (zeros r c) Ts ! k ! j = zeros r c ! k ! j + sum_list (map (\<lambda>T. T ! k ! j) Ts)"
    using foldl_madd [OF mat_shape_zeros T] by auto
  show ?thesis
  proof (rule nth_equalityI)
    show "length (map2 (map2 (\<lambda>g w. (g + lam * w) / n)) (foldl madd (zeros r c) Ts) W) =
      length (map (\<lambda>k. map (\<lambda>j. (sum_list (map (\<lambda>T. T ! k ! j) Ts) + lam * (W ! k ! j)) / n)
      [0..<length (W ! k)]) [0..<length W])"
      using F(1) W by (simp add: mat_shape_def)
  next
    fix k assume "k < length (map2 (map2 (\<lambda>g w. (g + lam * w) / n)) (foldl madd (zeros r c) Ts) W)"
    then have k: "k < r" using F(1) W by (simp add: mat_shape_def)
    have lk: "length (foldl madd (zeros r c) Ts ! k) = c" "length (W ! k) = c"
      using F(1) W k mat_shape_nth by blast+
    show "map2 (map2 (\<lambda>g w. (g + lam * w) / n)) (foldl madd (zeros r c) Ts) W ! k =
      map (\<lambda>k. map (\<lambda>j. (sum_list (map (\<lambda>T. T ! k ! j) Ts) + lam * (W ! k ! j)) / n)
      [0..<length (W ! k)]) [0..<length W] ! k"
      using F k lk W by (intro nth_equalityI) (auto simp: mat_shape_def zeros_def)
  qed
qed


lemma map_nth_map2: "map (\<lambda>T. T ! k ! j) (map2 f X L) = map2 (\<lambda>x l. f x l ! k ! j) X L"
  by (simp add: case_prod_beta)

lemma grad_w2_foldl:
  assumes W1: "length W1 = nh" and W2: "mat_shape nc (nh + 1) W2"
  shows "map2 (map2 (\<lambda>g w. (g + lam * w) / real (length X)))
           (foldl madd (zeros nc (nh + 1)) (map2 (contrib_w2 nc W1 W2) X L)) W2 =
         grad_w2_spec nc lam W1 W2 X L"
proof -
  have lW2: "length W2 = nc" using W2 by (simp add: mat_shape_def)
  have "\<forall>T \<in> set (map2 (contrib_w2 nc W1 W2) X L). mat_shape nc (nh + 1) T"
    using contrib_w2_shape [OF W1 lW2] by auto
  note R = reg_foldl_madd [OF W2 this, of lam "real (length X)"]
  have E: "\<And>k j. k < nc \<Longrightarrow> j < nh + 1 \<Longrightarrow>
      sum_list (map (\<lambda>T. T ! k ! j) (map2 (contrib_w2 nc W1 W2) X L)) =
      sum_list (map2 (\<lambda>x l. - (out_delta nc W1 W2 x l ! k) * ((fst (fwd_spec W1 W2 x) @ [1]) ! j)) X L)"
    unfolding map_nth_map2 by (simp add: contrib_w2_nth W1 lW2)
  show ?thesis
    unfolding R grad_w2_spec_def
    by (intro map_cong refl) (subst E, auto simp: lW2 mat_shape_nth [OF W2])
qed

lemma grad_w1_foldl:
  assumes W1: "mat_shape nh (ni + 1) W1" and X: "\<forall>x \<in> set X. length x = ni"
  shows "map2 (map2 (\<lambda>g w. (g + lam * w) / real (length X)))
           (foldl madd (zeros nh (ni + 1)) (map2 (contrib_w1 nc W1 W2) X L)) W1 =
         grad_w1_spec nc lam W1 W2 X L"
proof -
  have lW1: "length W1 = nh" using W1 by (simp add: mat_shape_def)
  have "\<forall>T \<in> set (map2 (contrib_w1 nc W1 W2) X L). mat_shape nh (ni + 1) T"
    using contrib_w1_shape [OF lW1] X by (auto dest: set_zip_leftD)
  note R = reg_foldl_madd [OF W1 this, of lam "real (length X)"]
  have E: "\<And>j m. j < nh \<Longrightarrow> m < ni + 1 \<Longrightarrow>
      sum_list (map (\<lambda>T. T ! j ! m) (map2 (contrib_w1 nc W1 W2) X L)) =
      sum_list (map2 (\<lambda>x l. hid_delta nc W1 W2 x l ! j * ((x @ [1]) ! m)) X L)"
    unfolding map_nth_map2 using X
    by (intro arg_cong [where f = sum_list] map_cong refl)
      (auto simp: contrib_w1_nth lW1 dest: set_zip_leftD)
  show ?thesis
    unfolding R grad_w1_spec_def
    by (intro map_cong refl) (subst E, auto simp: lW1 mat_shape_nth [OF W1])
qed


lemma nnObjFunction_spec:
  assumes u: "unpack_params (n_input args) (n_hidden args) (n_class args) params = Inr (w1, w2)"
    and nh: "0 < n_hidden args" and ne: "rows (training_data args) \<noteq> []"
    and lx: "\<forall>x \<in> set (rows (training_data args)). length x = n_input args"
    and ll: "length (training_label args) = length (rows (training_data args))"
    and vl: "\<forall>l \<in> set (training_label args). 0 \<le> l \<and> l < int (n_class args)"
  shows "nnObjFunction params args =
    Inr (loss_spec (n_class args) (lambdaval args) (rows w1) (rows w2) (rows (training_data args))
           (map nat (training_label args)),
         concat (grad_w1_spec (n_class args) (lambdaval args) (rows w1) (rows w2) (rows (training_data args))
           (map nat (training_label args))) @
         concat (grad_w2_spec (n_class args) (lambdaval args) (rows w1) (rows w2) (rows (training_data args))
           (map nat (training_label args))))"
proof -
  let ?ni = "n_input args" and ?nh = "n_hidden args" and ?nc = "n_class args"
  let ?X = "rows (training_data args)" and ?ls = "training_label args"
  let ?L = "map nat ?ls" and ?W1 = "rows w1" and ?W2 = "rows w2"
  have w1: "is_arr ?nh (?ni + 1) w1" and w2: "is_arr ?nc (?nh + 1) w2"
    using unpack_params_Inr [OF u] by auto
  have "?ls \<noteq> []" using ne ll by auto
  then have nc: "0 < ?nc" using vl by (cases ?ls) auto
  have vk: "\<forall>k < length ?X. 0 \<le> ?ls ! (0 + k) \<and> ?ls ! (0 + k) < int ?nc"
    using vl ll by (simp add: all_set_conv_all_nth)
  let ?acc = "\<lparr>obj_val = 0 + sum_list (map2 (row_loss ?nc ?W1 ?W2) ?X ?L),
     grad_w1 = foldl madd (zeros ?nh (?ni + 1)) (map2 (contrib_w1 ?nc ?W1 ?W2) ?X ?L),
     grad_w2 = foldl madd (zeros ?nc (?nh + 1)) (map2 (contrib_w2 ?nc ?W1 ?W2) ?X ?L)\<rparr>"
  have loop: "nnObj_loop ?nc w1 w2 (drop_last_col w2) ?ls 0 ?X (obj_acc0 ?ni ?nh ?nc) = Inr ?acc"
    using nnObj_loop_spec [OF w1 w2 nh acc_inv_acc0, of ?X 0 ?ls] lx ll vk
    by (simp add: obj_acc0_def)
  have inv: "acc_inv ?nh ?ni ?nc ?acc" using nnObj_loop_Inr [OF w1 w2 acc_inv_acc0 loop] .
  then have g: "grad_w1 ?acc \<noteq> []" "grad_w2 ?acc \<noteq> []"
    using acc_inv_nonempty nh nc by blast+
  have W1: "mat_shape ?nh (?ni + 1) ?W1" and W2: "mat_shape ?nc (?nh + 1) ?W2"
    using w1 w2 by (simp_all add: is_arr_def)
  have lW1: "length ?W1 = ?nh" using W1 by (simp add: mat_shape_def)
  have fin: "nnObj_finish args w1 w2 ?acc =
    Inr (loss_spec ?nc (lambdaval args) ?W1 ?W2 ?X ?L,
         concat (grad_w1_spec ?nc (lambdaval args) ?W1 ?W2 ?X ?L) @
         concat (grad_w2_spec ?nc (lambdaval args) ?W1 ?W2 ?X ?L))"
    using g ne grad_w1_foldl [OF W1 lx, of "lambdaval args" ?nc ?W2 ?L]
      grad_w2_foldl [OF lW1 W2, of "lambdaval args" ?X ?L]
    by (simp add: nnObj_finish_def acc_reg_ok Let_def loss_spec_def)
  show ?thesis using u loop fin by (simp add: nnObjFunction_def)
qed

section \<open>Properties of the objective against its specification\<close>

text \<open>C2: Refinement of the specification.  On every call with valid input (the
  parameter vector splits into W1 and W2, a hidden layer, at least one row, rows of
  \<open>n_input\<close> features, one label per row, every label a class index in
  \<open>[0, n_class)\<close>), \<open>nnObjFunction\<close> returns the reference loss \<open>loss_spec\<close> and
  the gradient \<open>grad_w1_spec\<close> flattened, followed by \<open>grad_w2_spec\<close> flattened.\<close>

theorem nnObjFunction_refines_spec:
  assumes "unpack_params (n_input args) (n_hidden args) (n_class args) params = Inr (w1, w2)"
    and "0 < n_hidden args" and "rows (training_data args) \<noteq> []"
    and "\<forall>x \<in> set (rows (training_data args)). length x = n_input args"
    and "length (training_label args) = length (rows (training_data args))"
    and "\<forall>l \<in> set (training_label args). 0 \<le> l \<and> l < int (n_class args)"
  shows "nnObjFunction params args =
    Inr (loss_spec (n_class args) (lambdaval args) (rows w1) (rows w2) (rows (training_data args))
           (map nat (training_label args)),
         concat (grad_w1_spec (n_class args) (lambdaval args) (rows w1) (rows w2) (rows (training_data args))
           (map nat (training_label args))) @
         concat (grad_w2_spec (n_class args) (lambdaval args) (rows w1) (rows w2) (rows (training_data args))
           (map nat (training_label args))))"
  using assms by (rule nnObjFunction_spec)

theorem nnObjFunction_refines_spec_witness:
  "nnObjFunction demo_params (demo_args 1) =
    Inr (loss_spec 2 1 [[1, -1]] [[2, -1], [0, 0]] [[1]] [1],
         concat (grad_w1_spec 2 1 [[1, -1]] [[2, -1], [0, 0]] [[1]] [1]) @
         concat (grad_w2_spec 2 1 [[1, -1]] [[2, -1], [0, 0]] [[1]] [1]))"
  using nnObjFunction_refines_spec [of "demo_args 1" demo_params
      "\<lparr>ncols = 2, rows = [[1, -1]]\<rparr>" "\<lparr>ncols = 2, rows = [[2, -1], [0, 0]]\<rparr>"]
  by (simp add: demo_args_def demo_params_def unpack_params_def reshape_def numeral_eq_Suc)

end
