(* ===== verification/Loss_Deriv.thy ===== *)
theory Loss_Deriv
  imports Objective_Spec
begin

text \<open>
  The partial derivatives of the reference loss \<open>loss_spec\<close> of
  \<open>Objective_Spec\<close> in one entry of W1 or W2.  The list lemmas describe how a
  dot product, a sum of squares and a row sum change when one entry of a list is
  updated; the row lemmas differentiate \<open>row_loss\<close> by the chain rule through
  \<open>sigmoid\<close>; \<open>loss_spec_deriv_w1\<close> and \<open>loss_spec_deriv_w2\<close> show that the
  derivative of the loss in the entry \<open>(k, j)\<close> is the entry \<open>(k, j)\<close> of
  \<open>grad_w1_spec\<close> / \<open>grad_w2_spec\<close> plus \<open>\<lambda> * w / N\<close>.
\<close>

section \<open>Updating one entry of a list\<close>


lemma DERIV_sum_list_map2:
  assumes "\<forall>(a, b) \<in> set (zip As Bs). ((\<lambda>s. F s a b) has_real_derivative F' a b) (at t)"
  shows "((\<lambda>s. sum_list (map2 (F s) As Bs)) has_real_derivative sum_list (map2 F' As Bs)) (at t)"
  using assms
proof (induction As arbitrary: Bs)
  case Nil
  then show ?case by simp
next
  case (Cons a As)
  then show ?case by (cases Bs) (auto intro!: derivative_eq_intros)
qed

lemma dotp_update:
  assumes "j < length u" and "j < length v"
  shows "dotp u (v[j := s]) = dotp u v - u ! j * v ! j + u ! j * s"
  using assms
proof (induction u arbitrary: v j)
  case Nil
  then show ?case by simp
next
  case (Cons a u)
  then obtain b v' where v: "v = b # v'" by (cases v) auto
  show ?case
  proof (cases j)
    case 0
    then show ?thesis by (simp add: v algebra_simps)
  next
    case (Suc i)
    then show ?thesis using Cons.IH [of i v'] Cons.prems by (simp add: v algebra_simps)
  qed
qed

lemma dotp_update_left:
  assumes "j < length u" and "j < length v"
  shows "dotp (u[j := s]) v = dotp u v - u ! j * v ! j + s * v ! j"
proof -
  have "dotp (u[j := s]) v = dotp v (u[j := s])" by (rule dotp_commute)
  also have "\<dots> = dotp v u - v ! j * u ! j + v ! j * s" using assms by (simp add: dotp_update)
  finally show ?thesis by (simp add: dotp_commute [of v u] algebra_simps)
qed

lemma DERIV_dotp_update:
  "j < length u \<Longrightarrow> j < length v \<Longrightarrow> ((\<lambda>s. dotp u (v[j := s])) has_real_derivative u ! j) (at t)"
  by (simp add: dotp_update) (auto intro!: derivative_eq_intros)

lemma sum_list_update_group:
  fixes xs :: "'a::ab_group_add list"
  shows "k < length xs \<Longrightarrow> sum_list (xs[k := y]) = sum_list xs - xs ! k + y"
proof (induction xs arbitrary: k)
  case Nil
  then show ?case by simp
next
  case (Cons a xs)
  then show ?case by (cases k) (simp_all add: algebra_simps)
qed

lemma sum_sq_update:
  assumes "k < length W" and "j < length (W ! k)"
  shows "sum_sq (W[k := (W ! k)[j := s]]) = sum_sq W - (W ! k ! j)\<^sup>2 + s\<^sup>2"
proof -
  have r: "sum_list (map (\<lambda>x. x\<^sup>2) ((W ! k)[j := s])) = sum_list (map (\<lambda>x. x\<^sup>2) (W ! k)) - (W ! k ! j)\<^sup>2 + s\<^sup>2"
    using assms(2) by (simp add: map_update sum_list_update_group)
  show ?thesis
    using assms(1) r by (simp add: sum_sq_def map_update sum_list_update_group)
qed

lemma DERIV_sum_sq_update:
  "k < length W \<Longrightarrow> j < length (W ! k) \<Longrightarrow>
   ((\<lambda>s. sum_sq (W[k := (W ! k)[j := s]])) has_real_derivative 2 * t) (at t)"
  by (simp add: sum_sq_update) (auto intro!: derivative_eq_intros)

lemma map2_update2:
  "k < length xs \<Longrightarrow> k < length ys \<Longrightarrow> map2 f xs (ys[k := y]) = (map2 f xs ys)[k := f (xs ! k) y]"
  by (rule nth_equalityI) (auto simp: nth_list_update)

lemma map2_cong_zip:
  "\<forall>(a, b) \<in> set (zip As Bs). f a b = g a b \<Longrightarrow> map2 f As Bs = map2 g As Bs"
  by (auto intro: map_cong)

lemma sum_list_map2_mult:
  fixes c :: real
  shows "sum_list (map2 (\<lambda>a b. c * f a b) As Bs) = c * sum_list (map2 f As Bs)"
proof (induction As arbitrary: Bs)
  case Nil
  then show ?case by simp
next
  case (Cons a As)
  then show ?case by (cases Bs) (simp_all add: algebra_simps)
qed

lemma sum_list_map2_map2_map:
  "sum_list (map2 (\<lambda>dk w. dk * w ! j) (map2 g T (map h W)) W) =
   sum_list (map2 (\<lambda>a w. g a (h w) * w ! j) T W)"
proof (induction T arbitrary: W)
  case Nil
  then show ?case by simp
next
  case (Cons a T)
  then show ?case by (cases W) simp_all
qed

lemma z1b_update:
  "j < length z1 \<Longrightarrow> (z1[j := v]) @ [1] = (z1 @ [1])[j := v]"
  by (simp add: list_update_append)

lemma DERIV_sq_err_sigmoid:
  assumes "((\<lambda>s. a s) has_real_derivative a') (at t)"
  shows "((\<lambda>s. (c - sigmoid (a s))\<^sup>2) has_real_derivative
           2 * (- ((c - sigmoid (a t)) * (1 - sigmoid (a t)) * sigmoid (a t)) * a')) (at t)"
  using assms by (auto intro!: derivative_eq_intros simp: power2_eq_square algebra_simps)

section \<open>Derivatives of the row loss and of the loss\<close>

lemma row_loss_w2_update:
  assumes "k < length W2" and "length W2 = nc"
  shows "row_loss nc W1 (W2[k := r]) x l =
    row_loss nc W1 W2 x l - (target nc l ! k - snd (fwd_spec W1 W2 x) ! k)\<^sup>2
    + (target nc l ! k - sigmoid (dotp (fst (fwd_spec W1 W2 x) @ [1]) r))\<^sup>2"
  using assms
  by (simp add: row_loss_def fwd_spec_def Let_def map_update map2_update2 sum_list_update_group)

lemma DERIV_row_loss_w2:
  assumes k: "k < length W2" and nc: "length W2 = nc"
    and j: "j < length (W2 ! k)" and j1: "j < length W1 + 1"
  shows "((\<lambda>s. row_loss nc W1 (W2[k := (W2 ! k)[j := s]]) x l) has_real_derivative
           2 * (- (out_delta nc W1 W2 x l ! k) * ((fst (fwd_spec W1 W2 x) @ [1]) ! j))) (at (W2 ! k ! j))"
proof -
  let ?u = "fst (fwd_spec W1 W2 x) @ [1]" and ?v = "W2 ! k"
  have d: "((\<lambda>s. dotp ?u (?v[j := s])) has_real_derivative ?u ! j) (at (?v ! j))"
    using j j1 by (intro DERIV_dotp_update) simp_all
  have "snd (fwd_spec W1 W2 x) ! k = sigmoid (dotp ?u (?v[j := ?v ! j]))"
    using k by (simp add: fwd_spec_def Let_def)
  moreover have "out_delta nc W1 W2 x l ! k =
      (target nc l ! k - snd (fwd_spec W1 W2 x) ! k) * (1 - snd (fwd_spec W1 W2 x) ! k) * snd (fwd_spec W1 W2 x) ! k"
    using k nc by (simp add: out_delta_def)
  ultimately show ?thesis
    using DERIV_add [OF DERIV_const DERIV_sq_err_sigmoid [OF d, of "target nc l ! k"],
        of "row_loss nc W1 W2 x l - (target nc l ! k - snd (fwd_spec W1 W2 x) ! k)\<^sup>2"] k nc
    by (simp add: row_loss_w2_update)
qed

lemma loss_spec_deriv_w2:
  assumes W2: "mat_shape nc (length W1 + 1) W2" and k: "k < nc" and j: "j < length W1 + 1"
  shows "((\<lambda>s. loss_spec nc lam W1 (W2[k := (W2 ! k)[j := s]]) X L) has_real_derivative
           grad_w2_spec nc lam W1 W2 X L ! k ! j + lam * (W2 ! k ! j) / real (length X)) (at (W2 ! k ! j))"
proof -
  have lW2: "length W2 = nc" and lk: "length (W2 ! k) = length W1 + 1"
    using W2 k by (simp_all add: mat_shape_def mat_shape_nth)
  let ?g = "\<lambda>x l. - (out_delta nc W1 W2 x l ! k) * ((fst (fwd_spec W1 W2 x) @ [1]) ! j)"
  have rows: "((\<lambda>s. sum_list (map2 (\<lambda>x l. row_loss nc W1 (W2[k := (W2 ! k)[j := s]]) x l) X L))
      has_real_derivative sum_list (map2 (\<lambda>x l. 2 * ?g x l) X L)) (at (W2 ! k ! j))"
    using DERIV_row_loss_w2 [of k W2 nc j W1] k lW2 lk j
    by (intro DERIV_sum_list_map2) auto
  have sq: "((\<lambda>s. sum_sq (W2[k := (W2 ! k)[j := s]])) has_real_derivative 2 * (W2 ! k ! j)) (at (W2 ! k ! j))"
    using k lW2 lk j by (intro DERIV_sum_sq_update) simp_all
  have D: "((\<lambda>s. loss_spec nc lam W1 (W2[k := (W2 ! k)[j := s]]) X L) has_real_derivative
      sum_list (map2 (\<lambda>x l. 2 * ?g x l) X L) / (2 * real (length X))
      + lam * (0 + 2 * (W2 ! k ! j)) / real (length X)) (at (W2 ! k ! j))"
    unfolding loss_spec_def by (intro DERIV_add DERIV_cdivide DERIV_cmult DERIV_const rows sq)
  have G: "grad_w2_spec nc lam W1 W2 X L ! k ! j =
      (sum_list (map2 ?g X L) + lam * (W2 ! k ! j)) / real (length X)"
    using k lW2 lk j by (simp add: grad_w2_spec_def del: upt_Suc)
  note D' = D [unfolded sum_list_map2_mult [of 2 ?g]]
  show ?thesis
    unfolding G by (rule DERIV_cong [OF D']) (cases "length X = 0"; simp add: field_simps)
qed

lemma row_loss_w1_update:
  assumes j: "j < length W1" and W2: "\<forall>w \<in> set W2. length w = length W1 + 1"
  shows "row_loss nc (W1[j := r]) W2 x l =
    sum_list (map2 (\<lambda>a w. (a - sigmoid (dotp (fst (fwd_spec W1 W2 x) @ [1]) w
        - (fst (fwd_spec W1 W2 x) @ [1]) ! j * w ! j + sigmoid (dotp (x @ [1]) r) * w ! j))\<^sup>2)
      (target nc l) W2)"
proof -
  let ?z1 = "fst (fwd_spec W1 W2 x)" and ?v = "sigmoid (dotp (x @ [1]) r)"
  have z2: "snd (fwd_spec (W1[j := r]) W2 x) = map (\<lambda>w. sigmoid (dotp ((?z1 @ [1])[j := ?v]) w)) W2"
    using j by (simp add: fwd_spec_def Let_def map_update z1b_update)
  have "\<And>w. w \<in> set W2 \<Longrightarrow> dotp ((?z1 @ [1])[j := ?v]) w =
      dotp (?z1 @ [1]) w - (?z1 @ [1]) ! j * w ! j + ?v * w ! j"
    using W2 j by (simp add: dotp_update_left)
  then show ?thesis
    unfolding row_loss_def z2
    by (auto simp: zip_map2 split_def dest: set_zip_rightD intro!: arg_cong [where f = sum_list] map_cong)
qed

lemma DERIV_row_loss_w1:
  assumes j: "j < length W1" and m: "m < length x + 1" and lj: "length (W1 ! j) = length x + 1"
    and W2: "\<forall>w \<in> set W2. length w = length W1 + 1"
  shows "((\<lambda>s. row_loss nc (W1[j := (W1 ! j)[m := s]]) W2 x l) has_real_derivative
           2 * (hid_delta nc W1 W2 x l ! j * ((x @ [1]) ! m))) (at (W1 ! j ! m))"
proof -
  let ?xb = "x @ [1]" and ?z1 = "fst (fwd_spec W1 W2 x)"
  let ?z1b = "?z1 @ [1]" and ?t = "W1 ! j ! m"
  let ?A = "\<lambda>s. dotp ?xb ((W1 ! j)[m := s])"
  let ?c = "sigmoid (?A ?t) * (1 - sigmoid (?A ?t)) * ?xb ! m"
  have z1j: "?z1b ! j = sigmoid (?A ?t)"
    using j by (simp add: fwd_spec_def Let_def nth_append)
  have dA: "(?A has_real_derivative ?xb ! m) (at ?t)"
    using m lj by (intro DERIV_dotp_update) simp_all
  have dS: "((\<lambda>s. sigmoid (?A s)) has_real_derivative ?c) (at ?t)"
    using sigmoid_has_derivative_chain [OF dA] by simp
  let ?B = "\<lambda>w s. dotp ?z1b w - ?z1b ! j * w ! j + sigmoid (?A s) * w ! j"
  have dB: "\<And>w. (?B w has_real_derivative ?c * w ! j) (at ?t)"
    using DERIV_add [OF DERIV_const DERIV_cmult_right [OF dS]] by simp
  have Bt: "\<And>w. ?B w ?t = dotp ?z1b w" using z1j by simp
  let ?D = "\<lambda>a w. (a - sigmoid (dotp ?z1b w)) * (1 - sigmoid (dotp ?z1b w)) * sigmoid (dotp ?z1b w)"
  have terms: "((\<lambda>s. sum_list (map2 (\<lambda>a w. (a - sigmoid (?B w s))\<^sup>2) (target nc l) W2)) has_real_derivative
      sum_list (map2 (\<lambda>a w. (- 2 * ?c) * (?D a w * w ! j)) (target nc l) W2)) (at ?t)"
  proof (rule DERIV_sum_list_map2, intro ballI, clarify)
    fix a w
    show "((\<lambda>s. (a - sigmoid (?B w s))\<^sup>2) has_real_derivative (- 2 * ?c) * (?D a w * w ! j)) (at ?t)"
      using DERIV_sq_err_sigmoid [OF dB [of w], of a] unfolding Bt by (simp add: algebra_simps)
  qed
  have eq: "(\<lambda>s. row_loss nc (W1[j := (W1 ! j)[m := s]]) W2 x l) =
      (\<lambda>s. sum_list (map2 (\<lambda>a w. (a - sigmoid (?B w s))\<^sup>2) (target nc l) W2))"
    using row_loss_w1_update [OF j W2] by simp
  define Sg where "Sg = sum_list (map2 (\<lambda>a w. ?D a w * w ! j) (target nc l) W2)"
  have H: "hid_delta nc W1 W2 x l ! j = (1 - sigmoid (?A ?t)) * sigmoid (?A ?t) * - Sg"
    using j z1j by (simp add: Sg_def hid_delta_def Let_def out_delta_def fwd_spec_def
        sum_list_map2_map2_map nth_append)
  note T = terms [unfolded sum_list_map2_mult [of "- 2 * ?c"], folded Sg_def]
  show ?thesis
    unfolding eq H by (rule DERIV_cong [OF T]) (simp add: algebra_simps)
qed


lemma loss_spec_deriv_w1:
  assumes W1: "mat_shape nh (ni + 1) W1" and X: "\<forall>x \<in> set X. length x = ni"
    and W2: "\<forall>w \<in> set W2. length w = nh + 1" and j: "j < nh" and m: "m < ni + 1"
  shows "((\<lambda>s. loss_spec nc lam (W1[j := (W1 ! j)[m := s]]) W2 X L) has_real_derivative
           grad_w1_spec nc lam W1 W2 X L ! j ! m + lam * (W1 ! j ! m) / real (length X)) (at (W1 ! j ! m))"
proof -
  have lW1: "length W1 = nh" and lj: "length (W1 ! j) = ni + 1"
    using W1 j by (simp_all add: mat_shape_def mat_shape_nth)
  let ?g = "\<lambda>x l. hid_delta nc W1 W2 x l ! j * ((x @ [1]) ! m)"
  have rows: "((\<lambda>s. sum_list (map2 (\<lambda>x l. row_loss nc (W1[j := (W1 ! j)[m := s]]) W2 x l) X L))
      has_real_derivative sum_list (map2 (\<lambda>x l. 2 * ?g x l) X L)) (at (W1 ! j ! m))"
  proof (rule DERIV_sum_list_map2, intro ballI, clarify)
    fix x l assume "(x, l) \<in> set (zip X L)"
    then have "length x = ni" using X by (auto dest: set_zip_leftD)
    then show "((\<lambda>s. row_loss nc (W1[j := (W1 ! j)[m := s]]) W2 x l) has_real_derivative 2 * ?g x l)
        (at (W1 ! j ! m))"
      using DERIV_row_loss_w1 [of j W1 m x W2 nc l] j m lW1 lj W2 by simp
  qed
  have sq: "((\<lambda>s. sum_sq (W1[j := (W1 ! j)[m := s]])) has_real_derivative 2 * (W1 ! j ! m)) (at (W1 ! j ! m))"
    using j m lW1 lj by (intro DERIV_sum_sq_update) simp_all
  have D: "((\<lambda>s. loss_spec nc lam (W1[j := (W1 ! j)[m := s]]) W2 X L) has_real_derivative
      sum_list (map2 (\<lambda>x l. 2 * ?g x l) X L) / (2 * real (length X))
      + lam * (2 * (W1 ! j ! m) + 0) / real (length X)) (at (W1 ! j ! m))"
    unfolding loss_spec_def by (intro DERIV_add DERIV_cdivide DERIV_cmult DERIV_const rows sq)
  have G: "grad_w1_spec nc lam W1 W2 X L ! j ! m =
      (sum_list (map2 ?g X L) + lam * (W1 ! j ! m)) / real (length X)"
    using j m lW1 lj by (simp add: grad_w1_spec_def del: upt_Suc)
  note D' = D [unfolded sum_list_map2_mult [of 2 ?g]]
  show ?thesis
    unfolding G by (rule DERIV_cong [OF D']) (cases "length X = 0"; simp add: field_simps)
qed

end
