(* ===== verification/Gradient.thy ===== *)
theory Gradient
  imports Loss_Deriv
begin

text \<open>
  The gradient check of the objective.  The gradient \<open>nnObjFunction\<close> returns is
  compared with the derivative of the loss it returns, entry by entry of the
  parameter vector.  The parameter vector is the concatenation of the rows of W1
  and W2 (\<open>pack_params\<close>), so entry \<open>q\<close> is entry \<open>(q div (n_input + 1),
  q mod (n_input + 1))\<close> of W1 or, past \<open>n_hidden * (n_input + 1)\<close>, an entry of
  W2; updating it updates exactly that weight (\<open>unpack_params_update_w1\<close>,
  \<open>unpack_params_update_w2\<close>).  With the refinement \<open>nnObjFunction_spec\<close> and
  the derivatives of \<open>Loss_Deriv\<close> this gives: the partial derivative of the
  returned loss in every parameter \<open>p\<close> is the returned gradient entry plus
  \<open>\<lambda> * p / N\<close>.  The data term of the gradient is exact, and the
  regularisation term is half the derivative of \<open>\<lambda> * \<Sigma>p\<^sup>2 / N\<close>: lines
  181--182 add \<open>\<lambda> * w / N\<close>, lines 184--185 add \<open>\<lambda> * \<Sigma>w\<^sup>2 / N\<close> to the loss.
\<close>

section \<open>Definitions\<close>

text \<open>The arguments of the one-unit network (no input feature, one hidden unit, one
  class, one training row), with regularisation \<open>lam\<close>.\<close>

definition grad_args :: "real \<Rightarrow> nn_args" where
  "grad_args lam = \<lparr>n_input = 0, n_hidden = 1, n_class = 1,
     training_data = \<lparr>ncols = 0, rows = [[]]\<rparr>, training_label = [0], lambdaval = lam\<rparr>"

section \<open>Matrices as flat parameter vectors\<close>


lemma nth_concat_shape:
  assumes M: "mat_shape r c M" and q: "q < r * c"
  shows "concat M ! q = M ! (q div c) ! (q mod c)"
proof -
  have c: "0 < c" using q by (cases c) auto
  have "chunks r c (concat M) ! (q div c) ! (q mod c) = concat M ! (q div c * c + q mod c)"
    using M q c by (intro nth_chunks) (simp_all add: length_concat_shape less_mult_imp_div_less)
  then show ?thesis using M by (simp add: chunks_concat)
qed

lemma mat_shape_update:
  "mat_shape r c M \<Longrightarrow> i < r \<Longrightarrow> mat_shape r c (M[i := (M ! i)[j := s]])"
  by (auto simp: mat_shape_def list_all_length nth_list_update)

lemma concat_update_shape:
  assumes M: "mat_shape r c M" and q: "q < r * c"
  shows "concat (M[q div c := (M ! (q div c))[q mod c := s]]) = (concat M)[q := s]"
proof -
  have c: "0 < c" using q by (cases c) auto
  have qr: "q div c < r" using q by (simp add: less_mult_imp_div_less)
  let ?M = "M[q div c := (M ! (q div c))[q mod c := s]]"
  have M': "mat_shape r c ?M" using M qr by (rule mat_shape_update)
  show ?thesis
  proof (rule nth_equalityI)
    show "length (concat ?M) = length ((concat M)[q := s])"
      using M M' by (simp add: length_concat_shape)
  next
    fix p assume "p < length (concat ?M)"
    then have p: "p < r * c" using M' by (simp add: length_concat_shape)
    have pr: "p div c < r" using p by (simp add: less_mult_imp_div_less)
    have lq: "length (M ! (q div c)) = c" using M qr by (simp add: mat_shape_nth)
    have "p = q \<longleftrightarrow> p div c = q div c \<and> p mod c = q mod c"
      by (metis div_mult_mod_eq)
    moreover have "length M = r" using M by (simp add: mat_shape_def)
    moreover have "q mod c < c" "p mod c < c" using c by simp_all
    ultimately show "concat ?M ! p = (concat M)[q := s] ! p"
      using nth_concat_shape [OF M' p] nth_concat_shape [OF M p] M q p lq qr pr
      by (auto simp: nth_list_update length_concat_shape)
  qed
qed


lemma grad_w1_spec_shape: "mat_shape r c W1 \<Longrightarrow> mat_shape r c (grad_w1_spec nc lam W1 W2 X L)"
  by (auto simp: grad_w1_spec_def mat_shape_def list_all_length)

lemma grad_w2_spec_shape: "mat_shape r c W2 \<Longrightarrow> mat_shape r c (grad_w2_spec nc lam W1 W2 X L)"
  by (auto simp: grad_w2_spec_def mat_shape_def list_all_length)

lemma unpack_params_update_w1:
  assumes u: "unpack_params ni nh nc params = Inr (w1, w2)" and q: "q < nh * (ni + 1)"
  shows "unpack_params ni nh nc (params[q := s]) =
    Inr (\<lparr>ncols = ni + 1, rows = (rows w1)[q div (ni + 1) := (rows w1 ! (q div (ni + 1)))[q mod (ni + 1) := s]]\<rparr>, w2)"
proof -
  have w1: "is_arr nh (ni + 1) w1" and w2: "is_arr nc (nh + 1) w2" and p: "pack_params w1 w2 = params"
    using unpack_params_Inr [OF u] by auto
  let ?w1 = "\<lparr>ncols = ni + 1, rows = (rows w1)[q div (ni + 1) := (rows w1 ! (q div (ni + 1)))[q mod (ni + 1) := s]]\<rparr>"
  have M: "mat_shape nh (ni + 1) (rows w1)" using w1 by (simp add: is_arr_def)
  have "params[q := s] = pack_params ?w1 w2"
    using q M by (simp add: p [symmetric] pack_params_def flatten_def list_update_append
        length_concat_shape concat_update_shape)
  moreover have "is_arr nh (ni + 1) ?w1"
    using M q by (simp add: is_arr_def mat_shape_update less_mult_imp_div_less)
  ultimately show ?thesis using w2 by (simp add: unpack_pack_params)
qed

lemma unpack_params_update_w2:
  assumes u: "unpack_params ni nh nc params = Inr (w1, w2)" and q1: "nh * (ni + 1) \<le> q"
    and q2: "q < length params"
  shows "unpack_params ni nh nc (params[q := s]) =
    Inr (w1, \<lparr>ncols = nh + 1, rows = (rows w2)[(q - nh * (ni + 1)) div (nh + 1) :=
            (rows w2 ! ((q - nh * (ni + 1)) div (nh + 1)))[(q - nh * (ni + 1)) mod (nh + 1) := s]]\<rparr>)"
proof -
  have w1: "is_arr nh (ni + 1) w1" and w2: "is_arr nc (nh + 1) w2" and p: "pack_params w1 w2 = params"
    using unpack_params_Inr [OF u] by auto
  let ?q = "q - nh * (ni + 1)"
  let ?w2 = "\<lparr>ncols = nh + 1, rows = (rows w2)[?q div (nh + 1) := (rows w2 ! (?q div (nh + 1)))[?q mod (nh + 1) := s]]\<rparr>"
  have M1: "mat_shape nh (ni + 1) (rows w1)" and M: "mat_shape nc (nh + 1) (rows w2)"
    using w1 w2 by (simp_all add: is_arr_def)
  have lq: "?q < nc * (nh + 1)"
    using q2 q1 M1 M by (simp add: p [symmetric] pack_params_def flatten_def length_concat_shape)
  have "params[q := s] = pack_params w1 ?w2"
    using q1 lq M1 M by (simp add: p [symmetric] pack_params_def flatten_def list_update_append
        length_concat_shape concat_update_shape)
  moreover have "is_arr nc (nh + 1) ?w2"
    using M lq by (simp add: is_arr_def mat_shape_update less_mult_imp_div_less)
  ultimately show ?thesis using w1 by (simp add: unpack_pack_params)
qed

text \<open>The rows of the two matrices a successful split returns, and the parameter
  vector as their concatenation.\<close>

lemma unpack_params_Inr_rows:
  assumes u: "unpack_params ni nh nc params = Inr (w1, w2)"
  shows "mat_shape nh (ni + 1) (rows w1)" and "mat_shape nc (nh + 1) (rows w2)"
    and "params = concat (rows w1) @ concat (rows w2)"
proof -
  have w1: "is_arr nh (ni + 1) w1" and w2: "is_arr nc (nh + 1) w2" and p: "pack_params w1 w2 = params"
    using unpack_params_Inr [OF u] by auto
  show "mat_shape nh (ni + 1) (rows w1)" "mat_shape nc (nh + 1) (rows w2)"
    using w1 w2 by (simp_all add: is_arr_def)
  show "params = concat (rows w1) @ concat (rows w2)"
    using p by (simp add: pack_params_def flatten_def)
qed

section \<open>The gradient check in one matrix\<close>

text \<open>A parameter of W1: entry \<open>q\<close> of the vector is entry
  \<open>(q div (n_input + 1), q mod (n_input + 1))\<close> of W1.\<close>

lemma gradient_check_w1:
  assumes u: "unpack_params (n_input args) (n_hidden args) (n_class args) params = Inr (w1, w2)"
    and nh: "0 < n_hidden args" and ne: "rows (training_data args) \<noteq> []"
    and lx: "\<forall>x \<in> set (rows (training_data args)). length x = n_input args"
    and ll: "length (training_label args) = length (rows (training_data args))"
    and vl: "\<forall>l \<in> set (training_label args). 0 \<le> l \<and> l < int (n_class args)"
    and q: "q < n_hidden args * (n_input args + 1)"
  shows "\<exists>v g L. nnObjFunction params args = Inr (v, g) \<and> L (params ! q) = v \<and>
     (\<forall>s. \<exists>g'. nnObjFunction (params[q := s]) args = Inr (L s, g')) \<and>
     (L has_real_derivative g ! q + lambdaval args * params ! q / real (length (rows (training_data args))))
       (at (params ! q))"
proof -
  let ?ni = "n_input args" and ?nh = "n_hidden args" and ?nc = "n_class args" and ?lam = "lambdaval args"
  let ?X = "rows (training_data args)" and ?L = "map nat (training_label args)"
  let ?i = "q div (?ni + 1)" and ?j = "q mod (?ni + 1)"
  let ?G1 = "grad_w1_spec ?nc ?lam (rows w1) (rows w2) ?X ?L"
  let ?G2 = "grad_w2_spec ?nc ?lam (rows w1) (rows w2) ?X ?L"
  let ?Lf = "\<lambda>s. loss_spec ?nc ?lam ((rows w1)[?i := (rows w1 ! ?i)[?j := s]]) (rows w2) ?X ?L"
  note M = unpack_params_Inr_rows [OF u]
  note spec = nnObjFunction_spec [OF _ nh ne lx ll vl]
  have W2r: "\<forall>w \<in> set (rows w2). length w = ?nh + 1" using M(2) by (simp add: mat_shape_def list_all_iff)
  have i: "?i < ?nh" and j: "?j < ?ni + 1" using q by (simp_all add: less_mult_imp_div_less)
  have pq: "params ! q = rows w1 ! ?i ! ?j"
    using q M by (simp add: nth_append length_concat_shape nth_concat_shape)
  have S1: "mat_shape ?nh (?ni + 1) ?G1" by (rule grad_w1_spec_shape [OF M(1)])
  have gq: "(concat ?G1 @ concat ?G2) ! q = ?G1 ! ?i ! ?j"
    using q S1 by (simp add: nth_append length_concat_shape nth_concat_shape)
  have upd: "\<forall>s. \<exists>g'. nnObjFunction (params[q := s]) args = Inr (?Lf s, g')"
    using spec [OF unpack_params_update_w1 [OF u q]] by simp
  have "?Lf (params ! q) = loss_spec ?nc ?lam (rows w1) (rows w2) ?X ?L" by (simp add: pq)
  then show ?thesis using spec [OF u] upd loss_spec_deriv_w1 [OF M(1) lx W2r i j] gq pq
    by (intro exI [of _ "loss_spec ?nc ?lam (rows w1) (rows w2) ?X ?L"]
          exI [of _ "concat ?G1 @ concat ?G2"] exI [of _ ?Lf]) simp
qed

text \<open>A parameter of W2: entry \<open>q\<close> of the vector, past the
  \<open>k = n_hidden * (n_input + 1)\<close> entries of W1, is entry
  \<open>((q - k) div (n_hidden + 1), (q - k) mod (n_hidden + 1))\<close> of W2.\<close>

lemma gradient_check_w2:
  assumes u: "unpack_params (n_input args) (n_hidden args) (n_class args) params = Inr (w1, w2)"
    and nh: "0 < n_hidden args" and ne: "rows (training_data args) \<noteq> []"
    and lx: "\<forall>x \<in> set (rows (training_data args)). length x = n_input args"
    and ll: "length (training_label args) = length (rows (training_data args))"
    and vl: "\<forall>l \<in> set (training_label args). 0 \<le> l \<and> l < int (n_class args)"
    and k: "n_hidden args * (n_input args + 1) \<le> q" and q: "q < length params"
  shows "\<exists>v g L. nnObjFunction params args = Inr (v, g) \<and> L (params ! q) = v \<and>
     (\<forall>s. \<exists>g'. nnObjFunction (params[q := s]) args = Inr (L s, g')) \<and>
     (L has_real_derivative g ! q + lambdaval args * params ! q / real (length (rows (training_data args))))
       (at (params ! q))"
proof -
  let ?ni = "n_input args" and ?nh = "n_hidden args" and ?nc = "n_class args" and ?lam = "lambdaval args"
  let ?X = "rows (training_data args)" and ?L = "map nat (training_label args)"
  let ?q = "q - ?nh * (?ni + 1)"
  let ?i = "?q div (?nh + 1)" and ?j = "?q mod (?nh + 1)"
  let ?G1 = "grad_w1_spec ?nc ?lam (rows w1) (rows w2) ?X ?L"
  let ?G2 = "grad_w2_spec ?nc ?lam (rows w1) (rows w2) ?X ?L"
  let ?Lf = "\<lambda>s. loss_spec ?nc ?lam (rows w1) ((rows w2)[?i := (rows w2 ! ?i)[?j := s]]) ?X ?L"
  note M = unpack_params_Inr_rows [OF u]
  note spec = nnObjFunction_spec [OF _ nh ne lx ll vl]
  have lW1: "length (rows w1) = ?nh" using M(1) by (simp add: mat_shape_def)
  have lq: "?q < ?nc * (?nh + 1)" using q k M by (simp add: length_concat_shape)
  have i: "?i < ?nc" and j: "?j < length (rows w1) + 1"
    using lq lW1 by (simp_all add: less_mult_imp_div_less)
  have M2': "mat_shape ?nc (length (rows w1) + 1) (rows w2)" using M(2) lW1 by simp
  have S1: "mat_shape ?nh (?ni + 1) ?G1" by (rule grad_w1_spec_shape [OF M(1)])
  have S2: "mat_shape ?nc (?nh + 1) ?G2" by (rule grad_w2_spec_shape [OF M(2)])
  have pq: "params ! q = rows w2 ! ?i ! ?j"
    using k lq M by (simp add: nth_append length_concat_shape nth_concat_shape)
  have gq: "(concat ?G1 @ concat ?G2) ! q = ?G2 ! ?i ! ?j"
    using k lq S1 S2
    by (simp add: nth_append length_concat_shape nth_concat_shape)
  have upd: "\<forall>s. \<exists>g'. nnObjFunction (params[q := s]) args = Inr (?Lf s, g')"
    using spec [OF unpack_params_update_w2 [OF u k q]] by simp
  have "?Lf (params ! q) = loss_spec ?nc ?lam (rows w1) (rows w2) ?X ?L" by (simp add: pq)
  then show ?thesis using spec [OF u] upd loss_spec_deriv_w2 [OF M2' i j] gq pq
    by (intro exI [of _ "loss_spec ?nc ?lam (rows w1) (rows w2) ?X ?L"]
          exI [of _ "concat ?G1 @ concat ?G2"] exI [of _ ?Lf]) simp
qed

section \<open>Properties of the gradient\<close>

text \<open>C6: The gradient check.  On well-formed arguments (a parameter vector of the
  right length, at least one hidden unit, a non-empty training set whose rows have
  \<open>n_input\<close> features and whose labels are class indices), \<open>nnObjFunction\<close>
  returns a loss \<open>v\<close> and a gradient \<open>g\<close>; for every parameter index \<open>q\<close>,
  the loss as a function \<open>L\<close> of parameter \<open>q\<close> alone is what
  \<open>nnObjFunction\<close> returns at every updated vector, and its derivative at
  \<open>params ! q\<close> is \<open>g ! q + \<lambda> * params ! q / N\<close>.\<close>

theorem nnObjFunction_gradient_check:
  assumes len: "length params = n_params (n_input args) (n_hidden args) (n_class args)"
    and nh: "0 < n_hidden args" and ne: "rows (training_data args) \<noteq> []"
    and lx: "\<forall>x \<in> set (rows (training_data args)). length x = n_input args"
    and ll: "length (training_label args) = length (rows (training_data args))"
    and vl: "\<forall>l \<in> set (training_label args). 0 \<le> l \<and> l < int (n_class args)"
    and q: "q < length params"
  shows "\<exists>v g L. nnObjFunction params args = Inr (v, g) \<and> L (params ! q) = v \<and>
     (\<forall>s. \<exists>g'. nnObjFunction (params[q := s]) args = Inr (L s, g')) \<and>
     (L has_real_derivative g ! q + lambdaval args * params ! q / real (length (rows (training_data args))))
       (at (params ! q))"
proof -
  obtain w1 w2 where u: "unpack_params (n_input args) (n_hidden args) (n_class args) params = Inr (w1, w2)"
    using unpack_params_ok [OF len] by blast
  show ?thesis
  proof (cases "q < n_hidden args * (n_input args + 1)")
    case True
    then show ?thesis by (rule gradient_check_w1 [OF u nh ne lx ll vl])
  next
    case False
    then show ?thesis by (intro gradient_check_w2 [OF u nh ne lx ll vl _ q]) simp
  qed
qed

text \<open>The gradient check applied to the one-unit network at the zero vector, in the
  output bias.\<close>

theorem nnObjFunction_gradient_check_witness:
  "\<exists>v g L. nnObjFunction [0, 0, 0] (grad_args 1) = Inr (v, g) \<and> L ([0, 0, 0] ! 2) = v \<and>
     (\<forall>s. \<exists>g'. nnObjFunction ([0, 0, 0][2 := s]) (grad_args 1) = Inr (L s, g')) \<and>
     (L has_real_derivative g ! 2 + lambdaval (grad_args 1) * [0, 0, 0] ! 2 /
        real (length (rows (training_data (grad_args 1))))) (at ([0, 0, 0] ! 2))"
  by (rule nnObjFunction_gradient_check) (simp_all add: grad_args_def n_params_def)

end
