(* ===== verification/Optimizer.thy ===== *)
theory Optimizer
  imports Script
begin

text \<open>
  The optimiser driver of section 4.4 of the specification, the part of the script
  that \<open>scipy.optimize.minimize(nnObjFunction, initialWeights, jac=True,
  method='CG', options={'maxiter': 50})\<close> performs (\<open>src/nnScript.py\<close> line 264).
  scipy is a library the script only calls, so the driver is modelled from its
  contract as a step relation on configurations: a running state holds the current
  vector, its loss and gradient and the number of iterations so far.  One iteration
  evaluates the objective at a trial point \<open>x + \<alpha> d\<close> for any direction and step
  (the conjugate-gradient driver of theory \<open>CG\<close> or any other method of section 9); it
  accepts a point whose loss is not larger (the line search's decrease
  condition), stops at the current point when the line search finds none, and
  fails when the objective raises or returns a gradient of the wrong length.  The
  driver may stop at any time (its own convergence test) and must stop after
  \<open>maxiter\<close> iterations.

  The lemmas: an invariant of every reachable configuration (the vector keeps its
  length, its loss is the objective's and never above the initial loss); every run
  ends after at most \<open>maxiter + 1\<close> steps, and on a well-behaved objective every
  maximal run ends in a finished configuration.  The properties state these of the
  script's own call: \<open>nnObjFunction\<close> with the script's \<open>args\<close>
  (\<open>script_objective\<close>), started at \<open>initialWeights\<close> (\<open>script_x0\<close>) with the
  budget 50 of line 263; on a well-formed dataset the objective's success discharges
  the well-behavedness the general lemmas assume.
\<close>

section \<open>Definitions\<close>

record opt_state =
  xk :: vec
  fk :: real
  gk :: vec
  iters :: nat

datatype opt_cfg = Running opt_state | Finished vec | Failed py_error

text \<open>The first evaluation of the objective at \<open>x0\<close>.\<close>

definition opt_start :: "(vec \<Rightarrow> (real \<times> vec) result) \<Rightarrow> vec \<Rightarrow> opt_cfg" where
  "opt_start f x0 =
     (case f x0 of
        Inl e \<Rightarrow> Failed e
      | Inr (v, g) \<Rightarrow>
          if length g = length x0 then Running \<lparr>xk = x0, fk = v, gk = g, iters = 0\<rparr>
          else Failed ValueError)"

text \<open>One iteration ending at the trial point \<open>x'\<close>.\<close>

definition opt_eval :: "(vec \<Rightarrow> (real \<times> vec) result) \<Rightarrow> opt_state \<Rightarrow> vec \<Rightarrow> opt_cfg" where
  "opt_eval f s x' =
     (case f x' of
        Inl e \<Rightarrow> Failed e
      | Inr (v', g') \<Rightarrow>
          if length g' \<noteq> length x' then Failed ValueError
          else if v' \<le> fk s then Running \<lparr>xk = x', fk = v', gk = g', iters = Suc (iters s)\<rparr>
          else Finished (xk s))"

inductive opt_step :: "(vec \<Rightarrow> (real \<times> vec) result) \<Rightarrow> nat \<Rightarrow> opt_cfg \<Rightarrow> opt_cfg \<Rightarrow> bool"
  for f :: "vec \<Rightarrow> (real \<times> vec) result" and maxiter :: nat where
  iterate: "iters s < maxiter \<Longrightarrow> length d = length (xk s) \<Longrightarrow>
    opt_step f maxiter (Running s) (opt_eval f s (map2 (\<lambda>x y. x + \<alpha> * y) (xk s) d))"
| stop: "opt_step f maxiter (Running s) (Finished (xk s))"

inductive opt_reach :: "(vec \<Rightarrow> (real \<times> vec) result) \<Rightarrow> nat \<Rightarrow> vec \<Rightarrow> opt_cfg \<Rightarrow> bool"
  for f :: "vec \<Rightarrow> (real \<times> vec) result" and maxiter :: nat and x0 :: vec where
  start: "opt_reach f maxiter x0 (opt_start f x0)"
| step: "opt_reach f maxiter x0 c \<Longrightarrow> opt_step f maxiter c c' \<Longrightarrow> opt_reach f maxiter x0 c'"

text \<open>What every configuration of a run satisfies.\<close>

definition opt_inv :: "(vec \<Rightarrow> (real \<times> vec) result) \<Rightarrow> nat \<Rightarrow> vec \<Rightarrow> opt_cfg \<Rightarrow> bool" where
  "opt_inv f maxiter x0 c =
     (case c of
        Running s \<Rightarrow> length (xk s) = length x0 \<and> f (xk s) = Inr (fk s, gk s) \<and>
          length (gk s) = length x0 \<and> iters s \<le> maxiter \<and>
          (\<forall>v0 g0. f x0 = Inr (v0, g0) \<longrightarrow> fk s \<le> v0)
      | Finished x \<Rightarrow> length x = length x0 \<and>
          (\<exists>v g. f x = Inr (v, g) \<and> (\<forall>v0 g0. f x0 = Inr (v0, g0) \<longrightarrow> v \<le> v0))
      | Failed e \<Rightarrow> True)"

text \<open>The number of steps a configuration may still take.\<close>

definition opt_rank :: "nat \<Rightarrow> opt_cfg \<Rightarrow> nat" where
  "opt_rank maxiter c = (case c of Running s \<Rightarrow> Suc (maxiter - iters s) | _ \<Rightarrow> 0)"

text \<open>The descent contract: the result's loss is at most the initial loss.\<close>

definition opt_descent :: "optimizer \<Rightarrow> bool" where
  "opt_descent minimize \<longleftrightarrow>
     (\<forall>f x0 n x v0 g0. minimize f x0 n = Inr x \<longrightarrow> f x0 = Inr (v0, g0) \<longrightarrow>
        (\<exists>v g. f x = Inr (v, g) \<and> v \<le> v0))"

section \<open>Lemmas\<close>

inductive_cases opt_step_RunningE: "opt_step f m (Running s) c'"
inductive_cases opt_step_FinishedE [elim!]: "opt_step f m (Finished x) c'"
inductive_cases opt_step_FailedE [elim!]: "opt_step f m (Failed e) c'"

lemma opt_start_inv: "opt_inv f m x0 (opt_start f x0)"
  by (auto simp: opt_start_def opt_inv_def split: sum.splits)

lemma opt_eval_inv:
  assumes inv: "opt_inv f m x0 (Running s)" and it: "iters s < m" and lx: "length x' = length x0"
  shows "opt_inv f m x0 (opt_eval f s x')"
  using assms by (auto simp: opt_eval_def opt_inv_def split: sum.splits)

lemma opt_step_inv: "opt_step f m c c' \<Longrightarrow> opt_inv f m x0 c \<Longrightarrow> opt_inv f m x0 c'"
proof (induction rule: opt_step.induct)
  case (iterate s d \<alpha>)
  then show ?case by (intro opt_eval_inv) (auto simp: opt_inv_def)
next
  case (stop s)
  then show ?case by (auto simp: opt_inv_def)
qed

lemma opt_reach_inv: "opt_reach f m x0 c \<Longrightarrow> opt_inv f m x0 c"
  by (induction rule: opt_reach.induct) (auto intro: opt_start_inv opt_step_inv)

lemma opt_step_rank: "opt_step f m c c' \<Longrightarrow> opt_rank m c' < opt_rank m c"
proof (induction rule: opt_step.induct)
  case (iterate s d \<alpha>)
  then show ?case by (auto simp: opt_eval_def opt_rank_def split: sum.splits)
next
  case (stop s)
  then show ?case by (simp add: opt_rank_def)
qed

lemma opt_steps_rank: "(opt_step f m ^^ n) c c' \<Longrightarrow> n \<le> opt_rank m c"
proof (induction n arbitrary: c)
  case 0
  then show ?case by simp
next
  case (Suc n)
  from Suc.prems obtain b where "opt_step f m c b" and "(opt_step f m ^^ n) b c'"
    by (meson relpowp_Suc_D2)
  with Suc.IH opt_step_rank show ?case by fastforce
qed

lemma opt_rank_start: "opt_rank m (opt_start f x0) \<le> Suc m"
  by (auto simp: opt_start_def opt_rank_def split: sum.splits)

lemma opt_refines_descent:
  assumes "\<forall>f x0 n x. minimize f x0 n = Inr x \<longrightarrow> opt_reach f n x0 (Finished x)"
  shows "opt_descent minimize"
  using assms opt_reach_inv by (fastforce simp: opt_descent_def opt_inv_def)

lemma opt_steps_reach: "(opt_step f m ^^ n) c c' \<Longrightarrow> opt_reach f m x0 c \<Longrightarrow> opt_reach f m x0 c'"
proof (induction n arbitrary: c)
  case 0
  then show ?case by simp
next
  case (Suc n)
  from Suc.prems(1) obtain b where "opt_step f m c b" and "(opt_step f m ^^ n) b c'"
    by (meson relpowp_Suc_D2)
  with Suc.IH Suc.prems(2) opt_reach.step show ?case by blast
qed

lemma opt_reach_not_failed:
  assumes f: "\<forall>x. length x = length x0 \<longrightarrow> (\<exists>v g. f x = Inr (v, g) \<and> length g = length x)"
  shows "opt_reach f m x0 c \<Longrightarrow> c \<noteq> Failed e"
proof (induction rule: opt_reach.induct)
  case start
  then show ?case using f by (auto simp: opt_start_def split: sum.splits)
next
  case (step c c')
  from step.hyps(2) show ?case
  proof (cases rule: opt_step.cases)
    case (iterate s d \<alpha>)
    have "length (xk s) = length x0"
      using opt_reach_inv [OF step.hyps(1)] iterate(1) by (simp add: opt_inv_def)
    then have "length (map2 (\<lambda>x y. x + \<alpha> * y) (xk s) d) = length x0" using iterate(4) by simp
    then obtain v g where "f (map2 (\<lambda>x y. x + \<alpha> * y) (xk s) d) = Inr (v, g)"
      and "length g = length (map2 (\<lambda>x y. x + \<alpha> * y) (xk s) d)" using f by blast
    then show ?thesis using iterate(2) by (simp add: opt_eval_def)
  next
    case (stop s)
    then show ?thesis by simp
  qed
qed

lemma opt_maximal_run:
  assumes f: "\<forall>x. length x = length x0 \<longrightarrow> (\<exists>v g. f x = Inr (v, g) \<and> length g = length x)"
    and r: "(opt_step f maxiter ^^ n) (opt_start f x0) c"
    and stuck: "\<forall>c'. \<not> opt_step f maxiter c c'"
  shows "n \<le> maxiter + 1 \<and> (\<exists>x. c = Finished x \<and> length x = length x0)"
proof -
  have reach: "opt_reach f maxiter x0 c" by (rule opt_steps_reach [OF r opt_reach.start])
  have "n \<le> maxiter + 1" using opt_steps_rank [OF r] opt_rank_start [of maxiter f x0] by simp
  moreover have "\<exists>x. c = Finished x \<and> length x = length x0"
  proof (cases c)
    case (Running s)
    then show ?thesis using stuck opt_step.stop [of f maxiter s] by blast
  next
    case (Finished x)
    then show ?thesis using opt_reach_inv [OF reach] by (simp add: opt_inv_def)
  next
    case (Failed e)
    then show ?thesis using opt_reach_not_failed [OF f reach] by blast
  qed
  ultimately show ?thesis by blast
qed


text \<open>The script's call at line 264: the objective it passes returns a loss and a
  gradient of the right length at every vector of the initial vector's length, so
  the first evaluation starts a run at \<open>initialWeights\<close>.\<close>

lemma script_objective_wf:
  assumes "dataset_ok ds"
  shows "\<forall>x. length x = length (script_x0 (ncols (train_data ds)) rs) \<longrightarrow>
           (\<exists>v g. script_objective ds x = Inr (v, g) \<and> length g = length x)"
  using script_objective_ok [OF assms] by (simp add: length_script_x0)

lemma script_opt_start:
  assumes "dataset_ok ds"
  shows "\<exists>s. opt_start (script_objective ds) (script_x0 (ncols (train_data ds)) rs) = Running s"
proof -
  obtain v g where "script_objective ds (script_x0 (ncols (train_data ds)) rs) = Inr (v, g)"
    and "length g = length (script_x0 (ncols (train_data ds)) rs)"
    using script_objective_wf [OF assms] by blast
  then show ?thesis by (simp add: opt_start_def)
qed

lemma demo_dataset_ok: "dataset_ok demo_dataset"
  by (simp add: demo_dataset_def dataset_ok_def valid_label_def)

section \<open>Properties of the script's run of the driver\<close>

text \<open>C14: Invariant of the script's run.  In every running configuration of the
  driver on the script's call (\<open>nnObjFunction\<close> with the script's \<open>args\<close>, from
  \<open>initialWeights\<close>, \<open>maxiter = 50\<close>), on a well-formed dataset, the current vector
  has the length of the parameter vector, the cached loss and gradient are what
  \<open>nnObjFunction\<close> returns there, at most 50 iterations have been taken, and the
  loss is at most the loss at \<open>initialWeights\<close>.\<close>

theorem opt_reach_invariant:
  assumes ds: "dataset_ok ds"
    and r: "opt_reach (script_objective ds) 50 (script_x0 (ncols (train_data ds)) rs) (Running s)"
  shows "length (xk s) = n_params (ncols (train_data ds)) 88 10 \<and>
    script_objective ds (xk s) = Inr (fk s, gk s) \<and> length (gk s) = length (xk s) \<and> iters s \<le> 50 \<and>
    (\<exists>v0 g0. script_objective ds (script_x0 (ncols (train_data ds)) rs) = Inr (v0, g0) \<and> fk s \<le> v0)"
proof -
  obtain v0 g0 where "script_objective ds (script_x0 (ncols (train_data ds)) rs) = Inr (v0, g0)"
    using script_objective_wf [OF ds] by blast
  then show ?thesis using opt_reach_inv [OF r] by (simp add: opt_inv_def length_script_x0)
qed

text \<open>The first configuration of the run on the demonstration dataset.\<close>

theorem opt_reach_invariant_witness:
  "\<exists>s. opt_reach (script_objective demo_dataset) 50 (script_x0 (ncols (train_data demo_dataset)) (sconst (1/2)))
         (Running s) \<and> iters s \<le> 50 \<and>
       (\<exists>v0 g0. script_objective demo_dataset (script_x0 (ncols (train_data demo_dataset)) (sconst (1/2))) =
          Inr (v0, g0) \<and> fk s \<le> v0)"
proof -
  obtain s where "opt_start (script_objective demo_dataset)
      (script_x0 (ncols (train_data demo_dataset)) (sconst (1/2))) = Running s"
    using script_opt_start [OF demo_dataset_ok] by blast
  then have r: "opt_reach (script_objective demo_dataset) 50
      (script_x0 (ncols (train_data demo_dataset)) (sconst (1/2))) (Running s)"
    using opt_reach.start by metis
  show ?thesis using r opt_reach_invariant [OF demo_dataset_ok r] by blast
qed

text \<open>C13: Safety of the script's run.  On a well-formed dataset, every vector the
  driver finishes with on the script's call has the length of the parameter vector,
  and \<open>nnObjFunction\<close> returns there a loss no larger than at \<open>initialWeights\<close>.\<close>

theorem opt_run_safe:
  assumes ds: "dataset_ok ds"
    and r: "opt_reach (script_objective ds) 50 (script_x0 (ncols (train_data ds)) rs) (Finished x)"
  shows "length x = n_params (ncols (train_data ds)) 88 10 \<and>
    (\<exists>v0 g0 v g. script_objective ds (script_x0 (ncols (train_data ds)) rs) = Inr (v0, g0) \<and>
       script_objective ds x = Inr (v, g) \<and> v \<le> v0)"
proof -
  obtain v0 g0 where "script_objective ds (script_x0 (ncols (train_data ds)) rs) = Inr (v0, g0)"
    using script_objective_wf [OF ds] by blast
  then show ?thesis using opt_reach_inv [OF r] by (auto simp: opt_inv_def length_script_x0)
qed

text \<open>A run on the demonstration dataset that stops at once.\<close>

theorem opt_run_safe_witness:
  "\<exists>x. opt_reach (script_objective demo_dataset) 50 (script_x0 (ncols (train_data demo_dataset)) (sconst (1/2)))
         (Finished x) \<and> length x = n_params (ncols (train_data demo_dataset)) 88 10"
proof -
  obtain s where "opt_start (script_objective demo_dataset)
      (script_x0 (ncols (train_data demo_dataset)) (sconst (1/2))) = Running s"
    using script_opt_start [OF demo_dataset_ok] by blast
  then have "opt_reach (script_objective demo_dataset) 50
      (script_x0 (ncols (train_data demo_dataset)) (sconst (1/2))) (Running s)"
    using opt_reach.start by metis
  then have r: "opt_reach (script_objective demo_dataset) 50
      (script_x0 (ncols (train_data demo_dataset)) (sconst (1/2))) (Finished (xk s))"
    using opt_reach.step opt_step.stop by metis
  show ?thesis using r opt_run_safe [OF demo_dataset_ok r] by blast
qed



text \<open>C16: Liveness of the script's run.  On a well-formed dataset, every maximal run
  of the driver on the script's call (one that reaches a configuration with no
  successor) takes at most 51 steps and ends in a finished configuration with a
  vector of the parameter vector's length: the objective never makes it fail.\<close>

theorem opt_run_finishes:
  assumes ds: "dataset_ok ds"
    and r: "(opt_step (script_objective ds) 50 ^^ n)
              (opt_start (script_objective ds) (script_x0 (ncols (train_data ds)) rs)) c"
    and stuck: "\<forall>c'. \<not> opt_step (script_objective ds) 50 c c'"
  shows "n \<le> 51 \<and> (\<exists>x. c = Finished x \<and> length x = n_params (ncols (train_data ds)) 88 10)"
  using opt_maximal_run [OF script_objective_wf [OF ds] r stuck] by (simp add: length_script_x0)

text \<open>The run on the demonstration dataset that stops after the first evaluation.\<close>

theorem opt_run_finishes_witness:
  "\<exists>c. (opt_step (script_objective demo_dataset) 50 ^^ 1)
         (opt_start (script_objective demo_dataset) (script_x0 (ncols (train_data demo_dataset)) (sconst (1/2)))) c \<and>
       (1::nat) \<le> 51 \<and> (\<exists>x. c = Finished x \<and> length x = n_params (ncols (train_data demo_dataset)) 88 10)"
proof -
  let ?f = "script_objective demo_dataset" and ?x0 = "script_x0 (ncols (train_data demo_dataset)) (sconst (1/2))"
  obtain s where s: "opt_start ?f ?x0 = Running s"
    using script_opt_start [OF demo_dataset_ok] by blast
  have "opt_step ?f 50 (opt_start ?f ?x0) (Finished (xk s))" using opt_step.stop s by metis
  then have r: "(opt_step ?f 50 ^^ 1) (opt_start ?f ?x0) (Finished (xk s))" by (simp only: relpowp_1)
  have st: "\<forall>c'. \<not> opt_step ?f 50 (Finished (xk s)) c'" by blast
  show ?thesis using r opt_run_finishes [OF demo_dataset_ok r st] by blast
qed

end
