(* ===== verification/Loss_Bounds.thy ===== *)
theory Loss_Bounds
  imports Objective_Spec
begin

text \<open>
  Bounds on the loss \<open>nnObjFunction\<close> returns.  Each output of the network is a
  sigmoid, strictly between 0 and 1, and each target entry is 0 or 1, so each of
  the \<open>n_class\<close> squared errors of a row lies in \<open>[0, 1)\<close>; the data term
  \<open>\<Sigma> row_loss / 2N\<close> therefore lies in \<open>[0, n_class / 2)\<close>, and the loss is the
  regularisation term \<open>\<lambda> \<Sigma>p\<^sup>2 / N\<close> plus that.
\<close>

section \<open>Lemmas\<close>

lemma sum_list_map2_bounds:
  assumes "length A = length B" and "A \<noteq> []"
    and "\<forall>(a, b) \<in> set (zip A B). 0 \<le> h a b \<and> h a b < c"
  shows "0 \<le> sum_list (map2 h A B) \<and> sum_list (map2 h A B) < real (length A) * c"
  using assms
proof (induction A arbitrary: B)
  case Nil
  then show ?case by simp
next
  case (Cons a A)
  then obtain b B' where B: "B = b # B'" by (cases B) auto
  show ?case
  proof (cases "A = []")
    case True
    then show ?thesis using Cons.prems B by simp
  next
    case False
    then have "0 \<le> sum_list (map2 h A B') \<and> sum_list (map2 h A B') < real (length A) * c"
      using Cons.IH [of B'] Cons.prems B by simp
    then show ?thesis using Cons.prems B by (simp add: algebra_simps)
  qed
qed

lemma sq_err_sigmoid_bounds:
  assumes "t = 0 \<or> t = (1::real)"
  shows "0 \<le> (t - sigmoid z)\<^sup>2 \<and> (t - sigmoid z)\<^sup>2 < 1"
proof -
  have "\<bar>t - sigmoid z\<bar> < 1" using assms sigmoid_pos [of z] sigmoid_lt_1 [of z] by auto
  then have "\<bar>t - sigmoid z\<bar>\<^sup>2 < 1\<^sup>2" by (intro power_strict_mono) simp_all
  then show ?thesis by simp
qed

lemma row_loss_bounds:
  assumes "length W2 = nc" and "0 < nc"
  shows "0 \<le> row_loss nc W1 W2 x l \<and> row_loss nc W1 W2 x l < real nc"
proof -
  have "\<forall>(a, b) \<in> set (zip (target nc l) (snd (fwd_spec W1 W2 x))). 0 \<le> (a - b)\<^sup>2 \<and> (a - b)\<^sup>2 < 1"
    by (auto simp: target_def fwd_spec_def Let_def set_zip sq_err_sigmoid_bounds)
  moreover have "length (target nc l) = length (snd (fwd_spec W1 W2 x))" "target nc l \<noteq> []"
    using assms by (simp_all add: length_target length_fwd_spec target_def)
  ultimately show ?thesis
    using sum_list_map2_bounds [where h = "\<lambda>a b. (a - b)\<^sup>2" and c = 1 and A = "target nc l"
      and B = "snd (fwd_spec W1 W2 x)"] assms(1)
    by (simp add: row_loss_def length_target)
qed

lemma loss_spec_bounds:
  fixes W1 W2 :: "real list list" and lam :: real
  assumes "length W2 = nc" and "0 < nc" and "X \<noteq> []" and "length L = length X"
  defines "r \<equiv> lam * (sum_sq W1 + sum_sq W2) / real (length X)"
  shows "r \<le> loss_spec nc lam W1 W2 X L \<and> loss_spec nc lam W1 W2 X L < r + real nc / 2"
proof -
  let ?S = "sum_list (map2 (row_loss nc W1 W2) X L)"
  have N: "0 < real (length X)" using assms(3) by simp
  have "0 \<le> ?S \<and> ?S < real (length X) * real nc"
    using sum_list_map2_bounds [of X L "row_loss nc W1 W2"] row_loss_bounds [OF assms(1,2)] assms(3,4)
    by auto
  moreover have "?S / (2 * real (length X)) < real nc / 2 \<longleftrightarrow> ?S < real (length X) * real nc"
    using N by (simp add: divide_simps mult.commute)
  ultimately have "0 \<le> ?S / (2 * real (length X))" "?S / (2 * real (length X)) < real nc / 2"
    using N by simp_all
  then show ?thesis by (simp add: loss_spec_def r_def)
qed

lemma nnObjFunction_loss_range:
  assumes len: "length params = n_params (n_input args) (n_hidden args) (n_class args)"
    and nh: "0 < n_hidden args" and ne: "rows (training_data args) \<noteq> []"
    and lx: "\<forall>x \<in> set (rows (training_data args)). length x = n_input args"
    and ll: "length (training_label args) = length (rows (training_data args))"
    and vl: "\<forall>l \<in> set (training_label args). 0 \<le> l \<and> l < int (n_class args)"
  defines "r \<equiv> lambdaval args * sum_list (map (\<lambda>p. p\<^sup>2) params) / real (length (rows (training_data args)))"
  shows "\<exists>v g. nnObjFunction params args = Inr (v, g) \<and> r \<le> v \<and> v < r + real (n_class args) / 2"
proof -
  obtain w1 w2 where u: "unpack_params (n_input args) (n_hidden args) (n_class args) params = Inr (w1, w2)"
    using unpack_params_ok [OF len] by blast
  have w2: "is_arr (n_class args) (n_hidden args + 1) w2" and p: "pack_params w1 w2 = params"
    using unpack_params_Inr [OF u] by auto
  have nc: "0 < n_class args"
    using ne ll vl by (cases "training_label args") auto
  have "r = lambdaval args * (sum_sq (rows w1) + sum_sq (rows w2)) / real (length (rows (training_data args)))"
    unfolding r_def p [symmetric] by (simp add: sum_sq_concat pack_params_def flatten_def)
  then show ?thesis
    using nnObjFunction_spec [OF u nh ne lx ll vl] loss_spec_bounds [OF is_arr_rows [OF w2] nc ne]
      ll by simp
qed

section \<open>Properties of the loss\<close>

text \<open>C7: Range of the loss.  On every well-formed call \<open>nnObjFunction\<close> returns a
  loss \<open>v\<close> with \<open>r \<le> v < r + n_class / 2\<close>, where \<open>r = \<lambda> \<Sigma>p\<^sup>2 / N\<close> is the
  regularisation term: the squared-error term is never negative and, halved and
  averaged over the rows, stays below \<open>n_class / 2\<close>.\<close>

theorem nnObjFunction_loss_bounds:
  assumes "length params = n_params (n_input args) (n_hidden args) (n_class args)"
    and "0 < n_hidden args" and "rows (training_data args) \<noteq> []"
    and "\<forall>x \<in> set (rows (training_data args)). length x = n_input args"
    and "length (training_label args) = length (rows (training_data args))"
    and "\<forall>l \<in> set (training_label args). 0 \<le> l \<and> l < int (n_class args)"
  shows "\<exists>v g. nnObjFunction params args = Inr (v, g) \<and>
    lambdaval args * sum_list (map (\<lambda>p. p\<^sup>2) params) / real (length (rows (training_data args))) \<le> v \<and>
    v < lambdaval args * sum_list (map (\<lambda>p. p\<^sup>2) params) / real (length (rows (training_data args)))
        + real (n_class args) / 2"
  using nnObjFunction_loss_range [OF assms] by simp

text \<open>The bounds on the demonstration network, with \<open>\<lambda> = 1\<close>.\<close>

theorem nnObjFunction_loss_bounds_witness:
  "\<exists>v g. nnObjFunction demo_params (demo_args 1) = Inr (v, g) \<and>
    1 * sum_list (map (\<lambda>p. p\<^sup>2) demo_params) / real (length (rows (training_data (demo_args 1)))) \<le> v \<and>
    v < 1 * sum_list (map (\<lambda>p. p\<^sup>2) demo_params) / real (length (rows (training_data (demo_args 1))))
        + real (n_class (demo_args 1)) / 2"
  using nnObjFunction_loss_bounds [of demo_params "demo_args 1"]
  by (simp add: demo_args_def demo_params_def n_params_def)

end
