(* ===== verification/CG.thy ===== *)
theory CG
  imports Optimizer Loss_Bounds
begin

text \<open>
  A conjugate-gradient driver, the method line 264 names (\<open>method='CG'\<close>),
  written from sections 4.4 and 9 of the specification: scipy is not code of this
  repository.  Each iteration stops when the largest gradient entry is at most
  \<open>gtol = 10\<^sup>-\<^sup>5\<close> (scipy's default test, \<open>norm = Inf\<close>); otherwise a
  backtracking line search from step 1 halves the step until the Armijo condition
  \<open>f(x + \<alpha>d) \<le> f(x) + c\<^sub>1 \<alpha> g\<cdot>d\<close> holds (\<open>c\<^sub>1 = 10\<^sup>-\<^sup>4\<close>, at most
  \<open>ls_fuel = 30\<close> trials; a search that finds no step stops the run, as scipy's
  line-search failure does), and the new direction is the Polak--Ribiere+ one,
  \<open>d' = -g' + max(0, g'\<cdot>(g' - g) / g\<cdot>g) d\<close>, restarted to \<open>-g'\<close> when it is not
  a descent direction.  scipy's Wolfe line search with its descent condition is
  replaced by the Armijo search and the restart; the iteration budget and the
  stopping test are scipy's.

  The lemmas: each iteration is a step of the driver relation \<open>opt_step\<close>, so
  \<open>cg_minimize\<close> refines it and inherits its invariant and both interfaces of the
  script; each iteration that continues strictly decreases the loss and leaves a
  descent direction behind (the Armijo condition and the restart are what this
  rests on), stated as a property of the script's objective.
\<close>

section \<open>Definitions\<close>

text \<open>The stopping tolerance, the Armijo constant and the line search's budget.\<close>

definition gtol :: real where "gtol = 1 / 100000"

definition armijo_c1 :: real where "armijo_c1 = 1 / 10000"

definition ls_fuel :: nat where "ls_fuel = 30"

text \<open>\<open>vecnorm(g, ord=Inf)\<close>: the largest absolute entry.\<close>

definition gnorm_inf :: "vec \<Rightarrow> real" where
  "gnorm_inf g = foldr (\<lambda>a m. max \<bar>a\<bar> m) g 0"

text \<open>The backtracking line search along \<open>d\<close> from step \<open>\<alpha>\<close>, \<open>slope = g\<cdot>d\<close>:
  the first step satisfying the Armijo condition, \<open>None\<close> when the budget runs
  out, the objective's exception when it raises at a trial point.\<close>

fun backtrack :: "(vec \<Rightarrow> (real \<times> vec) result) \<Rightarrow> real \<Rightarrow> vec \<Rightarrow> real \<Rightarrow> vec \<Rightarrow> real \<Rightarrow> nat \<Rightarrow>
    real option result" where
  "backtrack f fx x slope d \<alpha> 0 = Inr None"
| "backtrack f fx x slope d \<alpha> (Suc n) =
     (case f (map2 (\<lambda>a b. a + \<alpha> * b) x d) of
        Inl e \<Rightarrow> Inl e
      | Inr (v, g) \<Rightarrow>
          if v \<le> fx + armijo_c1 * \<alpha> * slope then Inr (Some \<alpha>)
          else backtrack f fx x slope d (\<alpha> / 2) n)"

text \<open>The Polak--Ribiere+ direction with restart.\<close>

definition cg_direction :: "vec \<Rightarrow> vec \<Rightarrow> vec \<Rightarrow> vec" where
  "cg_direction g' g d =
     (let beta = max 0 (dotp g' (map2 (-) g' g) / dotp g g);
          p = map2 (\<lambda>a b. - a + beta * b) g' d
      in if dotp g' p < 0 then p else map uminus g')"

text \<open>One iteration: continue from a new state and direction, stop with a vector, or
  fail with the objective's exception.\<close>

datatype cg_cfg = CgRun opt_state vec | CgDone vec | CgFail py_error

definition cg_iter :: "(vec \<Rightarrow> (real \<times> vec) result) \<Rightarrow> opt_state \<Rightarrow> vec \<Rightarrow> cg_cfg" where
  "cg_iter f s d =
     (if gnorm_inf (gk s) \<le> gtol then CgDone (xk s)
      else case backtrack f (fk s) (xk s) (dotp (gk s) d) d 1 ls_fuel of
        Inl e \<Rightarrow> CgFail e
      | Inr None \<Rightarrow> CgDone (xk s)
      | Inr (Some \<alpha>) \<Rightarrow>
          (case opt_eval f s (map2 (\<lambda>a b. a + \<alpha> * b) (xk s) d) of
             Running s' \<Rightarrow> CgRun s' (cg_direction (gk s') (gk s) d)
           | Finished x \<Rightarrow> CgDone x
           | Failed e \<Rightarrow> CgFail e))"

text \<open>At most \<open>k\<close> iterations; the first direction is \<open>-g\<^sub>0\<close>.\<close>

fun cg_run :: "(vec \<Rightarrow> (real \<times> vec) result) \<Rightarrow> nat \<Rightarrow> opt_state \<Rightarrow> vec \<Rightarrow> vec result" where
  "cg_run f 0 s d = Inr (xk s)"
| "cg_run f (Suc k) s d =
     (case cg_iter f s d of
        CgRun s' d' \<Rightarrow> cg_run f k s' d'
      | CgDone x \<Rightarrow> Inr x
      | CgFail e \<Rightarrow> Inl e)"

definition cg_minimize :: optimizer where
  "cg_minimize f x0 maxiter =
     (case opt_start f x0 of
        Running s \<Rightarrow> cg_run f maxiter s (map uminus (gk s))
      | Finished x \<Rightarrow> Inr x
      | Failed e \<Rightarrow> Inl e)"

section \<open>Lemmas\<close>

lemma backtrack_Inl:
  "backtrack f fx x slope d \<alpha> n = Inl e \<Longrightarrow> \<exists>\<beta>. f (map2 (\<lambda>a b. a + \<beta> * b) x d) = Inl e"
  by (induction n arbitrary: \<alpha>) (auto split: sum.splits if_splits)

lemma backtrack_Some:
  "backtrack f fx x slope d \<alpha> n = Inr (Some \<beta>) \<Longrightarrow> 0 < \<alpha> \<Longrightarrow>
     0 < \<beta> \<and> (\<exists>v g. f (map2 (\<lambda>a b. a + \<beta> * b) x d) = Inr (v, g) \<and> v \<le> fx + armijo_c1 * \<beta> * slope)"
  by (induction n arbitrary: \<alpha>) (auto split: sum.splits if_splits)

lemma dotp_uminus_le: "dotp g (map uminus g) \<le> 0"
proof (induction g)
  case (Cons a g)
  have "0 \<le> a * a" by simp
  then show ?case using Cons.IH by (simp; linarith)
qed simp

lemma dotp_uminus_neg: "0 < gnorm_inf g \<Longrightarrow> dotp g (map uminus g) < 0"
proof (induction g)
  case Nil
  then show ?case by (simp add: gnorm_inf_def)
next
  case (Cons a g)
  show ?case
  proof (cases "a = 0")
    case True
    then have "0 < gnorm_inf g" using Cons.prems by (simp add: gnorm_inf_def)
    then show ?thesis using Cons.IH True by simp
  next
    case False
    then have "0 < a * a" using not_real_square_gt_zero by blast
    then show ?thesis using dotp_uminus_le [of g] by simp
  qed
qed

lemma cg_direction_descent:
  assumes "gtol < gnorm_inf g'"
  shows "dotp g' (cg_direction g' g d) < 0"
proof -
  have "0 < gnorm_inf g'" using assms by (simp add: gtol_def)
  then show ?thesis using dotp_uminus_neg [of g'] by (simp add: cg_direction_def Let_def)
qed

lemma length_cg_direction:
  "length d = length g' \<Longrightarrow> length (cg_direction g' g d) = length g'"
  by (simp add: cg_direction_def Let_def)

lemma cg_iter_CgRun:
  assumes "cg_iter f s d = CgRun s' d'"
  shows "\<exists>\<alpha> v g. gtol < gnorm_inf (gk s) \<and> 0 < \<alpha> \<and>
     backtrack f (fk s) (xk s) (dotp (gk s) d) d 1 ls_fuel = Inr (Some \<alpha>) \<and>
     f (map2 (\<lambda>a b. a + \<alpha> * b) (xk s) d) = Inr (v, g) \<and>
     v \<le> fk s + armijo_c1 * \<alpha> * dotp (gk s) d \<and>
     s' = \<lparr>xk = map2 (\<lambda>a b. a + \<alpha> * b) (xk s) d, fk = v, gk = g, iters = Suc (iters s)\<rparr> \<and>
     d' = cg_direction g (gk s) d"
proof -
  obtain \<alpha> where bt: "backtrack f (fk s) (xk s) (dotp (gk s) d) d 1 ls_fuel = Inr (Some \<alpha>)"
    and gn: "gtol < gnorm_inf (gk s)"
    and ev: "opt_eval f s (map2 (\<lambda>a b. a + \<alpha> * b) (xk s) d) = Running s'"
    and dd: "d' = cg_direction (gk s') (gk s) d"
    using assms by (auto simp: cg_iter_def split: if_splits sum.splits option.splits opt_cfg.splits)
  from backtrack_Some [OF bt] obtain v g where "0 < \<alpha>"
    and fv: "f (map2 (\<lambda>a b. a + \<alpha> * b) (xk s) d) = Inr (v, g)"
    and arm: "v \<le> fk s + armijo_c1 * \<alpha> * dotp (gk s) d" by auto
  then show ?thesis using bt gn ev dd
    by (auto simp: opt_eval_def split: if_splits)
qed


lemma cg_iter_step:
  assumes r: "opt_reach f m x0 (Running s)" and it: "iters s < m" and ld: "length d = length (xk s)"
  shows "(\<forall>s' d'. cg_iter f s d = CgRun s' d' \<longrightarrow> opt_reach f m x0 (Running s')) \<and>
         (\<forall>x. cg_iter f s d = CgDone x \<longrightarrow> opt_reach f m x0 (Finished x)) \<and>
         (\<forall>e. cg_iter f s d = CgFail e \<longrightarrow> opt_reach f m x0 (Failed e))"
proof -
  have stop: "opt_reach f m x0 (Finished (xk s))" using opt_reach.step [OF r opt_step.stop] .
  have trial: "opt_reach f m x0 (opt_eval f s (map2 (\<lambda>a b. a + \<alpha> * b) (xk s) d))" for \<alpha>
    using opt_reach.step [OF r opt_step.iterate [OF it ld]] .
  show ?thesis
  proof (cases "gtol < gnorm_inf (gk s)")
    case False
    then show ?thesis using stop by (simp add: cg_iter_def)
  next
    case True
    show ?thesis
    proof (cases "backtrack f (fk s) (xk s) (dotp (gk s) d) d 1 ls_fuel")
      case (Inl e)
      obtain \<beta> where "f (map2 (\<lambda>a b. a + \<beta> * b) (xk s) d) = Inl e" using backtrack_Inl [OF Inl] by blast
      then have "opt_eval f s (map2 (\<lambda>a b. a + \<beta> * b) (xk s) d) = Failed e" by (simp add: opt_eval_def)
      then show ?thesis using trial [of \<beta>] True Inl by (simp add: cg_iter_def)
    next
      case (Inr r)
      show ?thesis
      proof (cases r)
        case None
        then show ?thesis using stop True Inr by (simp add: cg_iter_def)
      next
        case (Some \<alpha>)
        then show ?thesis using trial [of \<alpha>] True Inr by (auto simp: cg_iter_def split: opt_cfg.splits)
      qed
    qed
  qed
qed

lemma cg_run_refines:
  assumes "opt_reach f m x0 (Running s)" and "iters s + k = m" and "length d = length (xk s)"
  shows "(\<forall>x. cg_run f k s d = Inr x \<longrightarrow> opt_reach f m x0 (Finished x)) \<and>
         (\<forall>e. cg_run f k s d = Inl e \<longrightarrow> opt_reach f m x0 (Failed e))"
  using assms
proof (induction k arbitrary: s d)
  case 0
  then show ?case using opt_reach.step [OF 0(1) opt_step.stop] by simp
next
  case (Suc k)
  note st = cg_iter_step [OF Suc.prems(1) _ Suc.prems(3)]
  show ?case
  proof (cases "cg_iter f s d")
    case (CgRun s' d')
    have r': "opt_reach f m x0 (Running s')" using st CgRun Suc.prems(2) by simp
    obtain \<alpha> v g where "s' = \<lparr>xk = map2 (\<lambda>a b. a + \<alpha> * b) (xk s) d, fk = v, gk = g, iters = Suc (iters s)\<rparr>"
      and dd: "d' = cg_direction g (gk s) d" using cg_iter_CgRun [OF CgRun] by blast
    moreover have "length (gk s') = length x0" "length (xk s') = length x0"
      using opt_reach_inv [OF r'] by (simp_all add: opt_inv_def)
    ultimately have "iters s' + k = m" "length d' = length (xk s')"
      using Suc.prems(2,3) by (simp_all add: length_cg_direction)
    then show ?thesis using Suc.IH [OF r'] CgRun by simp
  next
    case (CgDone x)
    then show ?thesis using st Suc.prems(2) by simp
  next
    case (CgFail e)
    then show ?thesis using st Suc.prems(2) by simp
  qed
qed

lemma cg_minimize_reach:
  "(\<forall>x. cg_minimize f x0 m = Inr x \<longrightarrow> opt_reach f m x0 (Finished x)) \<and>
   (\<forall>e. cg_minimize f x0 m = Inl e \<longrightarrow> opt_reach f m x0 (Failed e))"
proof (cases "opt_start f x0")
  case (Running s)
  have r: "opt_reach f m x0 (Running s)" using opt_reach.start [of f m x0] Running by simp
  have "iters s = 0" using Running by (auto simp: opt_start_def split: sum.splits if_splits)
  moreover have "length (map uminus (gk s)) = length (xk s)"
    using opt_reach_inv [OF r] by (simp add: opt_inv_def)
  ultimately show ?thesis
    using cg_run_refines [OF r, of m "map uminus (gk s)"] Running by (simp add: cg_minimize_def)
next
  case (Finished x)
  then show ?thesis using opt_reach.start [of f m x0] by (simp add: cg_minimize_def)
next
  case (Failed e)
  then show ?thesis using opt_reach.start [of f m x0] by (simp add: cg_minimize_def)
qed

lemma cg_minimize_contract: "opt_contract cg_minimize"
  unfolding opt_contract_def
proof (intro allI impI)
  fix f :: "vec \<Rightarrow> (real \<times> vec) result" and x0 :: vec and n :: nat
  assume f: "\<forall>x. length x = length x0 \<longrightarrow> (\<exists>v g. f x = Inr (v, g) \<and> length g = length x)"
  show "\<exists>x. cg_minimize f x0 n = Inr x \<and> length x = length x0"
  proof (cases "cg_minimize f x0 n")
    case (Inl e)
    then show ?thesis using cg_minimize_reach opt_reach_not_failed [OF f] by blast
  next
    case (Inr x)
    then have "opt_reach f n x0 (Finished x)" using cg_minimize_reach by blast
    then show ?thesis using Inr opt_reach_inv by (fastforce simp: opt_inv_def)
  qed
qed

lemma cg_minimize_descent: "opt_descent cg_minimize"
  using cg_minimize_reach by (intro opt_refines_descent) blast

lemma cg_iter_descent:
  assumes dsc: "dotp (gk s) d < 0" and run: "cg_iter f s d = CgRun s' d'"
  shows "fk s' < fk s \<and> iters s' = Suc (iters s) \<and> (gtol < gnorm_inf (gk s') \<longrightarrow> dotp (gk s') d' < 0)"
proof -
  obtain \<alpha> v g where a: "0 < \<alpha>" and arm: "v \<le> fk s + armijo_c1 * \<alpha> * dotp (gk s) d"
    and s': "s' = \<lparr>xk = map2 (\<lambda>a b. a + \<alpha> * b) (xk s) d, fk = v, gk = g, iters = Suc (iters s)\<rparr>"
    and d': "d' = cg_direction g (gk s) d"
    using cg_iter_CgRun [OF run] by blast
  have "armijo_c1 * \<alpha> * dotp (gk s) d < 0"
    using a dsc by (simp add: armijo_c1_def mult_pos_neg)
  then show ?thesis using arm s' d' cg_direction_descent by auto
qed

text \<open>The first iteration on \<open>\<parallel>x\<parallel>\<^sup>2\<close> from \<open>[1]\<close>: the step \<open>1/2\<close> lands on
  the minimum.\<close>

lemma gnorm_inf_replicate: "0 < k \<Longrightarrow> gnorm_inf (replicate k a) = \<bar>a\<bar>"
proof (induction k)
  case (Suc k)
  then show ?case by (cases k) (simp_all add: gnorm_inf_def)
qed simp

lemma map2_replicate: "map2 h (replicate k a) (replicate k b) = replicate k (h a b)"
  by (induction k) simp_all

lemma dotp_replicate: "dotp (replicate k a) (replicate k b) = real k * (a * b)"
  by (simp add: dotp_def map2_replicate sum_list_replicate)

text \<open>One iteration of the script's objective on the demonstration dataset, from the
  zero vector with a cached loss of 1000 and the all-ones gradient: the first trial
  step is accepted, because the loss there is below \<open>\<lambda> \<Sigma>p\<^sup>2 / N + 10/2\<close>.\<close>

lemma cg_iter_demo:
  defines "n \<equiv> n_params (ncols (train_data demo_dataset)) 88 10"
  shows "\<exists>s' d'. cg_iter (script_objective demo_dataset)
     \<lparr>xk = replicate n 0, fk = 1000, gk = replicate n 1, iters = 0\<rparr> (replicate n (-1)) = CgRun s' d'"
proof -
  let ?f = "script_objective demo_dataset" and ?x = "replicate n (-1::real)"
  have n: "n = 1066" by (simp add: n_def n_params_def demo_dataset_def)
  let ?a = "script_args demo_dataset"
  let ?r = "lambdaval ?a * sum_list (map (\<lambda>p. p\<^sup>2) ?x) / real (length (rows (training_data ?a)))"
  have "\<exists>v g. nnObjFunction ?x ?a = Inr (v, g) \<and> ?r \<le> v \<and> v < ?r + real (n_class ?a) / 2"
    by (rule nnObjFunction_loss_range) (simp_all add: n_def demo_dataset_def)
  then obtain v g where fv: "?f ?x = Inr (v, g)" and vb0: "v < ?r + real (n_class ?a) / 2"
    by (auto simp: script_objective_def)
  have vb: "v < 2 / 5 * 1066 + 5"
    using vb0 by (simp add: n sum_list_replicate demo_dataset_def)
  have lg: "length g = length ?x" using fv nnObjFunction_Inr_length by (simp add: script_objective_def)
  have trial: "map2 (\<lambda>a b. a + 1 * b) (replicate n 0) ?x = ?x" by (simp add: map2_replicate)
  have bt: "backtrack ?f 1000 (replicate n 0) (dotp (replicate n 1) ?x) ?x 1 ls_fuel = Inr (Some 1)"
    using fv vb by (simp add: ls_fuel_def numeral_eq_Suc trial dotp_replicate armijo_c1_def n)
  show ?thesis
    using bt fv vb lg gnorm_inf_replicate [of n 1] trial
    by (simp add: cg_iter_def gtol_def opt_eval_def n)
qed

section \<open>Properties of the conjugate-gradient driver\<close>

text \<open>C17: Descent on the script's objective.  A conjugate-gradient iteration on
  \<open>nnObjFunction\<close> with the script's \<open>args\<close>, started from a descent direction
  (\<open>g\<cdot>d < 0\<close>), that continues strictly decreases the loss, counts one iteration,
  and leaves a descent direction for the next iteration unless the new gradient
  passes the stopping test.\<close>

theorem cg_iter_decrease:
  assumes "dotp (gk s) d < 0" and "cg_iter (script_objective ds) s d = CgRun s' d'"
  shows "fk s' < fk s \<and> iters s' = Suc (iters s) \<and> (gtol < gnorm_inf (gk s') \<longrightarrow> dotp (gk s') d' < 0)"
  by (rule cg_iter_descent [OF assms])

text \<open>The first iteration on the demonstration dataset.\<close>

theorem cg_iter_decrease_witness:
  "\<exists>s' d'. dotp (replicate (n_params (ncols (train_data demo_dataset)) 88 10) 1)
        (replicate (n_params (ncols (train_data demo_dataset)) 88 10) (-1)) < 0 \<and>
     cg_iter (script_objective demo_dataset)
       \<lparr>xk = replicate (n_params (ncols (train_data demo_dataset)) 88 10) 0, fk = 1000,
        gk = replicate (n_params (ncols (train_data demo_dataset)) 88 10) 1, iters = 0\<rparr>
       (replicate (n_params (ncols (train_data demo_dataset)) 88 10) (-1)) = CgRun s' d' \<and>
     fk s' < 1000 \<and> iters s' = 1"
proof -
  let ?n = "n_params (ncols (train_data demo_dataset)) 88 10"
  let ?s = "\<lparr>xk = replicate ?n 0, fk = 1000, gk = replicate ?n (1::real), iters = 0\<rparr>"
  obtain s' d' where run: "cg_iter (script_objective demo_dataset) ?s (replicate ?n (-1)) = CgRun s' d'"
    using cg_iter_demo by blast
  have dsc: "dotp (gk ?s) (replicate ?n (-1)) < 0"
    by (simp add: dotp_replicate n_params_def demo_dataset_def)
  show ?thesis using dsc run cg_iter_decrease [OF dsc run] by auto
qed

end
