(* ===== verification/Persist.thy ===== *)
theory Persist
  imports Script
begin

text \<open>
  Parameter persistence, line 294 of \<open>src/nnScript.py\<close>:
  \<open>pickle.dump([n_hidden, w1, w2, lambdaval], open('params.pickle', 'wb'))\<close>.
  The file write is I/O; what is modelled is the Python object the script hands to
  \<open>pickle\<close>, a value of the datatype \<open>py_obj\<close> of the objects that occur in it,
  and its reloading, which section 7 of the specification describes (the
  parameters as one tuple \<open>(n_hidden, W1, W2, \<lambda>)\<close> for later use) and no code
  of the repository performs.  The lemmas: reloading returns what was dumped, so
  the script's file holds its fitted arrays with the hyperparameters 88 and 0.4.
  No property of the development rests on this theory: the reloading is written
  as the inverse of the dump, and the format of the file is not modelled.
\<close>

section \<open>Definitions\<close>

text \<open>The Python objects of the pickled list: \<open>int\<close>, \<open>float\<close>, a numpy
  array and a list.\<close>

datatype py_obj = PyInt int | PyFloat real | PyArray ndarr | PyList "py_obj list"

text \<open>The list of line 294.\<close>

definition params_obj :: "nat \<Rightarrow> ndarr \<Rightarrow> ndarr \<Rightarrow> real \<Rightarrow> py_obj" where
  "params_obj nhid w1 w2 lam =
     PyList [PyInt (int nhid), PyArray w1, PyArray w2, PyFloat lam]"

text \<open>What the script dumps: \<open>n_hidden = 88\<close> (line 244), the fitted \<open>w1\<close>,
  \<open>w2\<close> (lines 270--271) and \<open>lambdaval = 0.4\<close> (line 247).\<close>

definition script_persist :: "script_out \<Rightarrow> py_obj" where
  "script_persist out = params_obj 88 (out_w1 out) (out_w2 out) (2 / 5)"

text \<open>Reloading: a four-element list of an \<open>int\<close>, two arrays and a \<open>float\<close>
  is the parameter tuple; anything else is rejected.\<close>

fun load_params :: "py_obj \<Rightarrow> (nat \<times> ndarr \<times> ndarr \<times> real) option" where
  "load_params (PyList [PyInt nh, PyArray w1, PyArray w2, PyFloat lam]) =
     (if 0 \<le> nh then Some (nat nh, w1, w2, lam) else None)"
| "load_params _ = None"

section \<open>Lemmas\<close>

lemma load_params_obj [simp]: "load_params (params_obj nh w1 w2 lam) = Some (nh, w1, w2, lam)"
  by (simp add: params_obj_def)

lemma script_persist_load:
  "load_params (script_persist out) = Some (88, out_w1 out, out_w2 out, 2 / 5)"
  by (simp add: script_persist_def)

end
