(* ===== verification/Row_Order.thy ===== *)
theory Row_Order
  imports Objective_Spec "HOL-Library.Multiset"
begin

text \<open>
  The order of the training rows.  \<open>nnObjFunction\<close> visits the rows in order
  (line 150) and accumulates each row's loss and gradient contributions; over the
  reals the sums do not depend on that order.  Every sum of the reference
  specification \<open>Objective_Spec\<close> is a sum over the pairs (row, label), that is a
  sum over the multiset of those pairs, so reordering the rows together with their
  labels leaves the loss and the gradient unchanged.
\<close>

section \<open>Lemmas\<close>

lemma sum_list_map2_mset:
  "sum_list (map2 h X (map nat L)) = sum_mset (image_mset (\<lambda>(x, l). h x (nat l)) (mset (zip X L)))"
proof -
  have "map2 h X (map nat L) = map (\<lambda>(x, l). h x (nat l)) (zip X L)"
    by (induction X arbitrary: L) (auto simp: zip_Cons1 split: list.splits)
  then show ?thesis by (simp add: sum_mset_sum_list [symmetric])
qed

lemma mset_zip_length:
  assumes "mset (zip X' L') = mset (zip X L)" and "length L = length X" and "length L' = length X'"
  shows "length X' = length X"
  using arg_cong [OF assms(1), of size] assms(2,3) by simp

lemma mset_zip_set:
  assumes "mset (zip X' L') = mset (zip X L)" and "length L = length X" and "length L' = length X'"
  shows "set X' = set X" and "set L' = set L"
proof -
  have "set (zip X' L') = set (zip X L)" using arg_cong [OF assms(1), of set_mset] by simp
  then have "fst ` set (zip X' L') = fst ` set (zip X L)" "snd ` set (zip X' L') = snd ` set (zip X L)"
    by simp_all
  then show "set X' = set X" and "set L' = set L"
    using assms(2,3) by (simp_all add: set_map [symmetric] del: set_map)
qed


lemma spec_row_perm:
  assumes "mset (zip X' L') = mset (zip X L)" and "length L = length X" and "length L' = length X'"
  shows "loss_spec nc lam W1 W2 X' (map nat L') = loss_spec nc lam W1 W2 X (map nat L)"
    and "grad_w1_spec nc lam W1 W2 X' (map nat L') = grad_w1_spec nc lam W1 W2 X (map nat L)"
    and "grad_w2_spec nc lam W1 W2 X' (map nat L') = grad_w2_spec nc lam W1 W2 X (map nat L)"
  using mset_zip_length [OF assms] assms(1)
  by (simp_all add: loss_spec_def grad_w1_spec_def grad_w2_spec_def sum_list_map2_mset)

section \<open>Properties of the row order\<close>

text \<open>C8: Row order.  On a well-formed call, reordering the training rows together
  with their labels (any permutation of the pairs) changes neither the loss nor the
  gradient \<open>nnObjFunction\<close> returns.\<close>

theorem nnObjFunction_row_order:
  assumes len: "length params = n_params (n_input args) (n_hidden args) (n_class args)"
    and nh: "0 < n_hidden args" and ne: "rows (training_data args) \<noteq> []"
    and lx: "\<forall>x \<in> set (rows (training_data args)). length x = n_input args"
    and ll: "length (training_label args) = length (rows (training_data args))"
    and vl: "\<forall>l \<in> set (training_label args). 0 \<le> l \<and> l < int (n_class args)"
    and perm: "mset (zip X' L') = mset (zip (rows (training_data args)) (training_label args))"
    and ll': "length L' = length X'"
  shows "nnObjFunction params
      (args\<lparr>training_data := (training_data args)\<lparr>rows := X'\<rparr>, training_label := L'\<rparr>) =
    nnObjFunction params args"
proof -
  let ?a = "args\<lparr>training_data := (training_data args)\<lparr>rows := X'\<rparr>, training_label := L'\<rparr>"
  obtain w1 w2 where u: "unpack_params (n_input args) (n_hidden args) (n_class args) params = Inr (w1, w2)"
    using unpack_params_ok [OF len] by blast
  have lX: "length X' = length (rows (training_data args))" by (rule mset_zip_length [OF perm ll ll'])
  have sX: "set X' = set (rows (training_data args))" and sL: "set L' = set (training_label args)"
    using mset_zip_set [OF perm ll ll'] by simp_all
  have ne': "rows (training_data ?a) \<noteq> []" using ne lX by auto
  have "nnObjFunction params ?a =
    Inr (loss_spec (n_class args) (lambdaval args) (rows w1) (rows w2) X' (map nat L'),
         concat (grad_w1_spec (n_class args) (lambdaval args) (rows w1) (rows w2) X' (map nat L')) @
         concat (grad_w2_spec (n_class args) (lambdaval args) (rows w1) (rows w2) X' (map nat L')))"
    using nnObjFunction_spec [of ?a params w1 w2] u nh ne' lx vl ll' sX sL by simp
  then show ?thesis
    using nnObjFunction_spec [OF u nh ne lx ll vl] spec_row_perm [OF perm ll ll'] by simp
qed

text \<open>Two rows of a one-feature network in either order.\<close>

theorem nnObjFunction_row_order_witness:
  "nnObjFunction demo_params
      (((demo_args 1)\<lparr>training_data := \<lparr>ncols = 1, rows = [[1], [2]]\<rparr>, training_label := [1, 0]\<rparr>)
        \<lparr>training_data := (training_data ((demo_args 1)\<lparr>training_data := \<lparr>ncols = 1, rows = [[1], [2]]\<rparr>,
            training_label := [1, 0]\<rparr>))\<lparr>rows := [[2], [1]]\<rparr>, training_label := [0, 1]\<rparr>) =
    nnObjFunction demo_params
      ((demo_args 1)\<lparr>training_data := \<lparr>ncols = 1, rows = [[1], [2]]\<rparr>, training_label := [1, 0]\<rparr>)"
  by (rule nnObjFunction_row_order) (simp_all add: demo_args_def demo_params_def n_params_def)

end
