(* ===== verification/Spec2Isabelle.thy ===== *)
theory Spec2Isabelle
  imports Preprocess Gradient CG Persist Row_Order
begin

text \<open>
  A verification development of \<open>src/nnScript.py\<close> (repository
  Handwritten-Digit-Recognition): a one-hidden-layer sigmoid network trained on
  MNIST by minimising a regularised squared error with scipy's conjugate-gradient
  method, then evaluated by its accuracy on three splits.

  \<^bold>\<open>The program.\<close>  \<open>preprocess\<close> (lines 32--96) loads and splits the data;
  \<open>initializeWeights\<close> (9--23) draws W1 and W2; the script (234--294) flattens them
  into one parameter vector and hands \<open>nnObjFunction\<close> (99--194) to
  \<open>scipy.optimize.minimize\<close>, which calls it repeatedly for the loss and its
  gradient; the result is reshaped into W1 and W2, \<open>nnPredict\<close> (198--229) labels
  each split, and the script prints \<open>100*np.mean(predicted == label)\<close>.

  \<^bold>\<open>The theories.\<close>
  \<^item> \<open>NN_Prelude\<close>: the exceptions (\<open>py_error\<close>) and the bind \<open>sbind\<close> that
    threads them through a computation of type \<open>py_error + 'a\<close>; Python subscripts
    (\<open>py_nth\<close>, \<open>py_index\<close> with negative indices); two-dimensional numpy arrays
    as the record \<open>ndarr\<close> (column count and rows, so that a \<open>(0, c)\<close> array keeps
    its \<open>c\<close>); the numpy products used by the code (\<open>vec_dot_arrT\<close> for
    \<open>v.dot(A.T)\<close>, \<open>arr_dot_vec\<close> for \<open>A.dot(v)\<close>, \<open>vec_dot_arr\<close> for
    \<open>v.dot(A)\<close>, \<open>outer\<close> for \<open>u[:,None]*v\<close>), each raising \<open>ValueError\<close> on
    a shape mismatch as numpy does; row-major reshaping (\<open>chunks\<close>) with its two
    round-trip lemmas.
  \<^item> \<open>Sigmoid\<close>: \<open>sigmoid\<close> (lines 25--30) over the reals; strict
    monotonicity and the derivative \<open>\<sigma>(1 - \<sigma>)\<close> (lemmas also give the bounds
    \<open>(0, 1)\<close>, symmetry and saturation, which hold of the reals and not of float64).
  \<^item> \<open>Params\<close>: the parameter vector.  \<open>unpack_params\<close> is lines 139--140
    (also 271--272), \<open>pack_params\<close> line 189 (also 257); splitting succeeds exactly
    on vectors of length \<open>n_params\<close> and is inverse to packing.
  \<^item> \<open>Objective\<close>: \<open>nnObjFunction\<close>.  The \<open>args\<close> tuple is the record
    \<open>nn_args\<close>; the loop of line 150 is \<open>nnObj_loop\<close>, structural recursion over
    the rows with the record \<open>obj_acc\<close> of the three accumulators as its state;
    one iteration (lines 151--179) is \<open>nnObj_example\<close>, the forward pass of lines
    152--158 \<open>nn_forward\<close>; lines 181--194 are \<open>nnObj_finish\<close>.  The lemmas
    give the invariant of the loop (the accumulators keep the shapes of W1 and W2),
    that the function returns on every well-formed call, which exception it raises
    on every malformed one, that the gradient has the length of the parameter
    vector, and exactly what the regularisation adds to the loss and the gradient.
  \<^item> \<open>Loss_Deriv\<close> and \<open>Gradient\<close>: the gradient check of section 8 of the
    specification, for every architecture and training set.  \<open>Loss_Deriv\<close>
    differentiates \<open>loss_spec\<close> in one entry of W1 or W2 by the chain rule
    through \<open>sigmoid\<close>; \<open>Gradient\<close> locates parameter \<open>q\<close> of the flat
    vector in W1 or W2 and, with the refinement theorem, shows that the partial
    derivative of the loss \<open>nnObjFunction\<close> returns in every parameter \<open>p\<close> is
    the returned gradient entry plus \<open>\<lambda> * p / N\<close>: backpropagation (lines
    165--179) is exact and the regularisation of the gradient (lines 181--182) is
    half the derivative of the loss's (lines 184--185).
  \<^item> \<open>Loss_Bounds\<close>: the range of the returned loss: the regularisation term
    \<open>\<lambda> \<Sigma>p\<^sup>2 / N\<close> plus a squared-error term in \<open>[0, n_class / 2)\<close>, proved
    on \<open>loss_spec\<close> through the refinement theorem.
  \<^item> \<open>Predict\<close>: \<open>nnPredict\<close> (lines 198--229) as the loop \<open>nnPredict_loop\<close>
    over the rows appending one label per row, the body \<open>predict_row\<close>, and
    \<open>np.argmax\<close> as the scan \<open>argmax_scan\<close>, proved equal to the first-maximum
    specification \<open>is_first_max\<close>; the forward pass of \<open>nnPredict\<close> (\<open>w1.dot(value)\<close>)
    is proved the same as the one of \<open>nnObjFunction\<close> (\<open>value.dot(w1.T)\<close>).
  \<^item> \<open>Accuracy\<close>: the expression \<open>100*np.mean((predicted == label).astype(float))\<close>
    of lines 283, 287 and 291, with numpy's broadcasting of a length-1 array, its
    \<open>ValueError\<close> on other length mismatches and NaN (\<open>None\<close>) for empty arrays.
  \<^item> \<open>Init\<close>: \<open>initializeWeights\<close> (lines 9--23) with the random source an
    explicit stream of draws, \<open>np.random.rand\<close> consuming \<open>r * c\<close> of them; the
    shape and the bound \<open>[-\<epsilon>, \<epsilon>)\<close> of every weight.
  \<^item> \<open>Objective_Spec\<close>: a reference specification of the objective written from
    section 4.3 of the specification, independent of the code: the loss
    \<open>loss_spec\<close> and the gradients \<open>grad_w1_spec\<close>, \<open>grad_w2_spec\<close> as whole-batch
    sums with each entry given by its formula (section 9's batch form).  The
    refinement theorem: on every valid call \<open>nnObjFunction\<close> returns exactly this
    loss and these gradients, flattened W1 first.  Its proof follows the loop: one
    iteration adds the row's contributions, the loop folds them, and a fold of outer
    products is the entrywise sum.
  \<^item> \<open>Script\<close>: the module-level script (lines 241--291) as \<open>nnScript\<close>, a function
    of the minimiser, the random stream and the six arrays: the hyperparameters
    and \<open>args\<close> (\<open>script_args\<close>), the initial vector (\<open>script_x0\<close>), the call of the
    minimiser on \<open>script_objective\<close> (\<open>nnObjFunction\<close> with \<open>args\<close>, line 264), and the reshape, predictions and accuracies (\<open>script_eval\<close>).  scipy's
    minimiser is the parameter \<open>minimize\<close> of type \<open>optimizer\<close>; the script's
    theorem holds for every minimiser meeting the interface \<open>opt_contract\<close> and every
    dataset meeting the provider's contract \<open>dataset_ok\<close>.
  \<^item> \<open>Optimizer\<close>: the driver of section 4.4 (what line 264 asks of scipy) as the
    step relation \<open>opt_step\<close> on configurations \<open>opt_cfg\<close> with reachability
    \<open>opt_reach\<close>: any direction and step, acceptance when the loss does not grow,
    a stop at the current point otherwise or at any time, failure on an exception
    or a gradient of the wrong length, at most \<open>maxiter\<close> iterations.  Lemmas: the
    invariant of every reachable configuration (by rule induction), safety of the
    result, termination within \<open>maxiter + 1\<close> steps (by the rank \<open>opt_rank\<close>),
    liveness (on a well-behaved objective every maximal run ends finished).  The
    relation is written from the specification, not from code; its properties are
    stated for the script's own call (\<open>script_objective\<close> from \<open>script_x0\<close> with
    the budget 50), where \<open>nnObjFunction\<close>'s success on a well-formed dataset
    discharges the well-behavedness the general lemmas assume.
  \<^item> \<open>Preprocess\<close>: \<open>preprocess\<close> (lines 32--96) over the dictionary \<open>loadmat\<close>
    returns, given as an association list, and the permutation
    \<open>np.random.permutation(60000)\<close> returns, given as a list: the key scan
    \<open>re.findall(r'\d+', key)\<close>, the appends and stacks of lines 79--84, the deletion
    of the zero rows and the split.  It raises on every input: \<open>AxisError\<close> at the
    first key with a digit (\<open>np.append(..., axis=1)\<close> on a one-dimensional array),
    \<open>IndexError\<close> at the split otherwise; \<open>nnScript_main\<close>, the whole module, therefore
    never reaches training.
  \<^item> \<open>CG\<close>: the conjugate-gradient minimiser of line 264, written from the
    specification (scipy is not code of the repository): \<open>cg_iter\<close> is one
    iteration (scipy's stopping test \<open>gnorm_inf g \<le> gtol\<close>, a backtracking Armijo
    line search \<open>backtrack\<close> in place of scipy's Wolfe search, the
    Polak--Ribiere+ direction \<open>cg_direction\<close> restarted to \<open>-g\<close> when it is not a
    descent direction), \<open>cg_run\<close> the loop bounded by \<open>maxiter\<close>.  Lemmas: each
    iteration is a step of \<open>opt_step\<close>, so \<open>cg_minimize\<close> refines the driver and
    meets both interfaces of the script; each iteration that continues strictly
    decreases the loss and keeps a descent direction, stated as a property of the
    script's objective and witnessed by an iteration on it whose acceptance the
    loss bounds of \<open>Loss_Bounds\<close> establish.
  \<^item> \<open>Persist\<close>: the list \<open>[n_hidden, w1, w2, lambdaval]\<close> that line 294 pickles,
    as a value of the datatype \<open>py_obj\<close>, and its reloading as section 7 of the
    specification describes it (\<open>load_params\<close>).  Reloading returns what was
    dumped; no property rests on this theory.

  \<^bold>\<open>Arithmetic.\<close>  numpy's float64 values are modelled as reals: the theorems
  are about the algorithm the code computes, not about floating-point rounding,
  overflow of \<open>np.exp\<close> (a warning in numpy, a limit here) or NaN.  Python's
  \<open>int(label)\<close> is taken on labels that are integers already, and the float labels
  \<open>nnPredict\<close> appends are their \<open>nat\<close> values.  No loop of the program needs fuel:
  every loop of the code runs over the rows of an array or the keys of a dictionary
  and is structural recursion; the optimiser's iterations are bounded by
  \<open>maxiter\<close>, the fuel of \<open>cg_run\<close>, which is the budget itself,
  and the line search \<open>backtrack\<close> by \<open>ls_fuel = 30\<close> trials (the smallest step
  tried is \<open>2\<^sup>-\<^sup>2\<^sup>9\<close>); a search that runs out stops the run at the current
  point, as scipy's does when its search fails, so no claim depends on the bound.

  \<^bold>\<open>Not modelled.\<close>  \<open>loadmat\<close>, the printing of the accuracies and the
  file write of \<open>pickle.dump\<close> (line 294) are file and console I/O: the object
  written is modelled, its byte encoding is not; \<open>np.random\<close> enters as its
  draws.  scipy's own implementation of CG (its Wolfe line search and the descent
  condition it checks) is library code: \<open>CG\<close> models the method from the
  specification, and \<open>Optimizer\<close> its contract.
\<close>

end
